theory Spec2Isabelle
  imports Complex_Main
begin

section \<open>Python values and failures\<close>

text \<open>
  The module \<^verbatim>\<open>qexpy/plotting.py\<close> is embedded function by function. Python floats are
  idealised as \<^typ>\<open>real\<close>, Python's unbounded integers are \<^typ>\<open>int\<close>. Every place where
  the source can raise is a branch that returns \<open>Inl\<close> with the exception; the state
  reached at the moment of a raise is not modelled.
\<close>

datatype error =
    IndexError
  | KeyError string
  | UnboundLocalError string
  | AttributeError string
  | ZeroDivisionError
  | ValueError
  | TypeError string
  | CallError string

text \<open>Sequencing of fallible steps: the first exception ends the computation.\<close>

definition bind :: "error + 'a \<Rightarrow> ('a \<Rightarrow> error + 'b) \<Rightarrow> error + 'b" where
  "bind r f = (case r of Inl e \<Rightarrow> Inl e | Inr v \<Rightarrow> f v)"

text \<open>Python indexing \<^verbatim>\<open>xs[i]\<close>: negative indices count from the end, anything else
  out of range raises IndexError.\<close>

definition py_index :: "'a list \<Rightarrow> int \<Rightarrow> error + nat" where
  "py_index xs i =
     (if 0 \<le> i \<and> i < int (length xs) then Inr (nat i)
      else if i < 0 \<and> - int (length xs) \<le> i then Inr (nat (int (length xs) + i))
      else Inl IndexError)"

definition py_get :: "'a list \<Rightarrow> int \<Rightarrow> error + 'a" where
  "py_get xs i = bind (py_index xs i) (\<lambda>j. Inr (xs ! j))"

text \<open>Item assignment \<^verbatim>\<open>xs[i] = v\<close>.\<close>

definition py_set :: "'a list \<Rightarrow> int \<Rightarrow> 'a \<Rightarrow> error + 'a list" where
  "py_set xs i v = bind (py_index xs i) (\<lambda>j. Inr (xs[j := v]))"

section \<open>The collaborators' data\<close>

text \<open>
  A \<^verbatim>\<open>qexpy.error.Measurement\<close>: a mean, a standard deviation and the text its
  \<^verbatim>\<open>__str__\<close> gives. A \<^verbatim>\<open>Measurement_Array\<close> is an array of them.
\<close>

record measurement =
  mean :: real
  std :: real
  mstr :: string

text \<open>Modelled from the spec: \<^verbatim>\<open>Measurement_Array.get_means\<close> and \<^verbatim>\<open>get_stds\<close> are
  not under src/; the spec's uncertain array carries one mean and one standard deviation
  per entry.\<close>

definition get_means :: "measurement list \<Rightarrow> real list" where
  "get_means ms = map mean ms"

definition get_stds :: "measurement list \<Rightarrow> real list" where
  "get_stds ms = map std ms"

text \<open>
  The parameter source of a curve: absent (\<^verbatim>\<open>None\<close>), a \<^verbatim>\<open>Measurement_Array\<close>, a plain
  list or ndarray of numbers, or any other Python value.
\<close>

datatype pars = ParNone | ParMeas "measurement list" | ParPlain "real list" | ParOther

text \<open>
  A Python callable \<^verbatim>\<open>f(x, *pars)\<close> is used in three ways by the source, and is the
  record of the three: on a sample grid with no or with plain parameters (\<open>call_plain\<close>,
  an array of numbers comes back), on a sample grid with a \<^verbatim>\<open>Measurement_Array\<close> of
  parameters (\<open>call_meas\<close>, a \<^verbatim>\<open>Measurement_Array\<close> comes back), and on a single
  abscissa with plain parameters (\<open>at_point\<close>). The first argument of each is the
  value that the global flag \<^verbatim>\<open>qe.Measurement.minmax_n\<close> has during the call, which the
  uncertainty engine reads. Every call may raise. Callables with effects of their own
  are outside the model.
\<close>

record pyfun =
  call_plain :: "int \<Rightarrow> real list \<Rightarrow> real list option \<Rightarrow> error + real list"
  call_meas :: "int \<Rightarrow> real list \<Rightarrow> measurement list \<Rightarrow> error + measurement list"
  at_point :: "int \<Rightarrow> real \<Rightarrow> real list \<Rightarrow> error + real"

text \<open>
  A \<^verbatim>\<open>qexpy.fitting.XYDataSet\<close>, with the attributes and methods the plot reads. The fit
  stacks are parallel lists, as in the source; \<open>get_x_range\<close>, \<open>get_y_range\<close> and
  \<open>get_yres_range\<close> are the dataset's own methods, taking the margin and giving the
  lower and upper bound.
\<close>

record dataset =
  name :: string
  ds_xname :: string
  ds_xunits :: string
  ds_yname :: string
  ds_yunits :: string
  xdata :: "real list"
  ydata :: "real list"
  xerr :: "real list"
  yerr :: "real list"
  is_histogram :: bool
  hist_data :: "real list option"
  hist_bins :: int
  nfits :: int
  fit_function :: "pyfun list"
  fit_function_name :: "string list"
  fit_pars :: "measurement list list"
  fit_npars :: "int list"
  fit_yres :: "measurement list list"
  fit_pcorr :: "real list list list"
  get_x_range :: "real \<Rightarrow> real \<times> real"
  get_y_range :: "real \<Rightarrow> real \<times> real"
  get_yres_range :: "real \<Rightarrow> real \<times> real"

definition range_list :: "real \<times> real \<Rightarrow> real list" where
  "range_list r = [fst r, snd r]"

text \<open>
  The objects of bokeh. A glyph (the line or the band that \<^verbatim>\<open>qpu.bk_plot_function\<close>
  returns) holds the columns \<^verbatim>\<open>data_source.data['x']\<close> and \<^verbatim>\<open>['y']\<close>. A figure holds
  what \<^verbatim>\<open>bp.figure\<close> was given and, in order, what was added to it: a dataset drawn by
  \<^verbatim>\<open>qpu.bk_plot_dataset\<close> (its name, whether as residuals, its colour), a curve drawn by
  \<^verbatim>\<open>qpu.bk_plot_function\<close> (x-data, number of points, legend name, colour, error-band
  factor) or a text label (position and text). \<^verbatim>\<open>bi.gridplot\<close> stacks figures.
\<close>

record glyph =
  data_x :: "real list"
  data_y :: "real list"

datatype bk_item =
    BkDataset string bool string
  | BkFunction "real list" nat "string option" string real
  | BkLabel real real string

record bk_figure =
  fig_width :: int
  fig_height :: int
  fig_x_range :: "real list"
  fig_y_range :: "real list"
  fig_x_axis_type :: "string option"
  fig_y_axis_type :: "string option"
  fig_title :: "string option"
  fig_x_axis_label :: string
  fig_y_axis_label :: string
  fig_legend_location :: "string option"
  fig_legend_orientation :: "string option"
  fig_items :: "bk_item list"

datatype bk_object = BkFigure bk_figure | BkGridplot "bk_figure list"

section \<open>The Plot object\<close>

text \<open>
  The attributes of \<^verbatim>\<open>Plot\<close>. The entries of \<open>x_range\<close> and \<open>y_range\<close> have the type
  \<open>'a\<close>: \<^verbatim>\<open>set_plot_range\<close> stores what it is given without looking at the entries, every
  other method computes with them and is stated for \<^typ>\<open>real\<close>. An attribute that the
  constructor does not create (\<^verbatim>\<open>yres_range\<close>, the figure handles) is an option, \<open>None\<close>
  while \<^verbatim>\<open>hasattr\<close> is false; \<open>mplfigure\<close> holds the figure's size, \<open>mpl_gs\<close> the height
  ratios of the grid.
\<close>

record 'a plot =
  color_palette :: "string list"
  color_count :: int
  x_range_margin :: real
  y_range_margin :: real
  dimensions :: "int list"
  mpl_scaling :: real
  user_functions_count :: int
  user_functions :: "pyfun list"
  user_functions_pars :: "pars list"
  user_functions_names :: "string list"
  user_functions_colors :: "string list"
  save_filename :: string
  errorband_sigma :: real
  show_residuals :: bool
  show_fit_results :: bool
  fit_results_x_offset :: real
  fit_results_y_offset :: real
  bk_legend_location :: string
  bk_legend_orientation :: string
  mpl_legend_location :: string
  mpl_show_legend :: bool
  datasets :: "dataset list"
  datasets_colors :: "string list"
  xunits :: string
  xname :: string
  yunits :: string
  yname :: string
  x_range :: "'a list"
  y_range :: "'a list"
  title :: string
  initialized_from_dataset :: bool
  axes :: "string \<rightharpoonup> string"
  labels :: "string \<rightharpoonup> string"
  yres_range :: "'a list option"
  mplfigure :: "(real \<times> real) option"
  mpl_gs :: "int list option"
  bkfigure :: "bk_object option"
  bkres :: "bk_figure option"
  linear_fit_line :: "glyph option"
  linear_fit_patches :: "glyph option"
  linear_fit_pars :: "measurement list option"
  linear_fit_corr :: "real option"

text \<open>\<^verbatim>\<open>Plot._get_color_from_palette\<close>: advance the cursor, wrap it to 1 once it has
  passed the palette's length, return the colour under it.\<close>

definition get_color_from_palette :: "'a plot \<Rightarrow> error + (string \<times> 'a plot)" where
  "get_color_from_palette p =
     (let c1 = color_count p + 1;
          c2 = (if c1 > int (length (color_palette p)) then 1 else c1)
      in bind (py_get (color_palette p) (c2 - 1))
           (\<lambda>col. Inr (col, p\<lparr>color_count := c2\<rparr>)))"

text \<open>\<open>k\<close> automatic colour assignments in a row, with the colours they returned.\<close>

fun assign_colors :: "nat \<Rightarrow> 'a plot \<Rightarrow> error + (string list \<times> 'a plot)" where
  "assign_colors 0 p = Inr ([], p)"
| "assign_colors (Suc k) p =
     bind (get_color_from_palette p)
       (\<lambda>(c, p1). bind (assign_colors k p1) (\<lambda>(cs, p2). Inr (c # cs, p2)))"

text \<open>\<^verbatim>\<open>Plot.set_yres_range_from_fits\<close>: every attached dataset that has a fit
  overwrites the residual range in turn.\<close>

definition set_yres_range_from_fits :: "real plot \<Rightarrow> real plot" where
  "set_yres_range_from_fits p =
     fold (\<lambda>d q. if nfits d > 0
                  then q\<lparr>yres_range := Some (range_list (get_yres_range d (y_range_margin q)))\<rparr>
                  else q)
       (datasets p) p"

text \<open>\<^verbatim>\<open>Plot.set_range_from_dataset\<close>.\<close>

definition set_range_from_dataset :: "real plot \<Rightarrow> dataset \<Rightarrow> real plot" where
  "set_range_from_dataset p d =
     (let p1 = p\<lparr>x_range := range_list (get_x_range d (x_range_margin p))\<rparr>;
          p2 = p1\<lparr>y_range := range_list (get_y_range d (y_range_margin p1))\<rparr>
      in set_yres_range_from_fits p2)"

text \<open>The dictionary of labels that the constructor and \<^verbatim>\<open>initialize_from_dataset\<close>
  build from the title, the names and the units.\<close>

definition make_labels :: "'a plot \<Rightarrow> string \<rightharpoonup> string" where
  "make_labels p =
     [''title'' \<mapsto> title p,
      ''xtitle'' \<mapsto> xname p @ '' ['' @ xunits p @ '']'',
      ''ytitle'' \<mapsto> yname p @ '' ['' @ yunits p @ '']'']"

text \<open>\<^verbatim>\<open>Plot.initialize_from_dataset\<close>.\<close>

definition initialize_from_dataset :: "real plot \<Rightarrow> dataset \<Rightarrow> real plot" where
  "initialize_from_dataset p d =
     (let p1 = p\<lparr>xunits := ds_xunits d, xname := ds_xname d,
                  yunits := ds_yunits d, yname := ds_yname d, title := name d\<rparr>;
          p2 = p1\<lparr>labels := make_labels p1\<rparr>;
          p3 = set_range_from_dataset p2 d
      in p3\<lparr>initialized_from_dataset := True\<rparr>)"

text \<open>
  \<^verbatim>\<open>Plot.__init__\<close>. The palette \<^verbatim>\<open>bpal.Set1_9+bpal.Set2_8\<close> belongs to bokeh and is a
  parameter. \<open>Plot_fields\<close> is the state after the attribute assignments that precede
  the test on \<^verbatim>\<open>dataset\<close> (\<open>Plot_fields_of\<close> leaves the entries of the two default
  ranges open); the dictionaries \<^verbatim>\<open>axes\<close> and \<^verbatim>\<open>labels\<close> are assigned last.
\<close>

definition Plot_fields_of :: "'a list \<Rightarrow> 'a list \<Rightarrow> string list \<Rightarrow> 'a plot" where
  "Plot_fields_of xr yr palette =
     \<lparr> color_palette = palette, color_count = 0,
       x_range_margin = 0.5, y_range_margin = 0.5,
       dimensions = [600, 400], mpl_scaling = 0.017,
       user_functions_count = 0, user_functions = [], user_functions_pars = [],
       user_functions_names = [], user_functions_colors = [],
       save_filename = ''myplot.html'',
       errorband_sigma = 1.0, show_residuals = False, show_fit_results = True,
       fit_results_x_offset = 0, fit_results_y_offset = 0,
       bk_legend_location = ''top_left'', bk_legend_orientation = ''vertical'',
       mpl_legend_location = ''upper left'', mpl_show_legend = True,
       datasets = [], datasets_colors = [],
       xunits = [], xname = ''x'', yunits = [], yname = ''y'',
       x_range = xr, y_range = yr,
       title = ''y as a function of x'',
       initialized_from_dataset = False,
       axes = Map.empty, labels = Map.empty, yres_range = None,
       mplfigure = None, mpl_gs = None, bkfigure = None, bkres = None,
       linear_fit_line = None, linear_fit_patches = None,
       linear_fit_pars = None, linear_fit_corr = None \<rparr>"

definition Plot_fields :: "string list \<Rightarrow> real plot" where
  "Plot_fields palette = Plot_fields_of [0, 1] [0, 1] palette"

definition Plot_init :: "string list \<Rightarrow> dataset option \<Rightarrow> error + real plot" where
  "Plot_init palette dataset =
     bind (case dataset of
             Some d \<Rightarrow>
               (let p1 = (Plot_fields palette)\<lparr>datasets := [d]\<rparr>
                in bind (get_color_from_palette p1)
                     (\<lambda>(c, p2). Inr (initialize_from_dataset
                                       (p2\<lparr>datasets_colors := datasets_colors p2 @ [c]\<rparr>) d)))
           | None \<Rightarrow> Inr ((Plot_fields palette)\<lparr>initialized_from_dataset := False\<rparr>))
       (\<lambda>p. Inr (p\<lparr>axes := [''xscale'' \<mapsto> ''linear'', ''yscale'' \<mapsto> ''linear''],
                     labels := make_labels p\<rparr>))"

text \<open>\<^verbatim>\<open>Plot.add_residuals\<close>. \<^verbatim>\<open>self.datasets[-1]\<close> raises IndexError when no dataset is
  attached.\<close>

definition add_residuals :: "real plot \<Rightarrow> error + real plot" where
  "add_residuals p =
     (let p1 = set_yres_range_from_fits p
      in bind (py_get (datasets p1) (- 1))
           (\<lambda>d. Inr (if nfits d > 0 then p1\<lparr>show_residuals := True\<rparr> else p1)))"

text \<open>
  \<^verbatim>\<open>Plot.add_dataset\<close>. The arguments \<^verbatim>\<open>color\<close> and \<^verbatim>\<open>name\<close> default to \<^verbatim>\<open>None\<close>. The
  four comparisons that follow the colour and the name are \<open>widen_lo\<close> and \<open>widen_hi\<close>,
  once for each axis.
\<close>

definition widen_lo :: "real list \<Rightarrow> real \<Rightarrow> error + real list" where
  "widen_lo r v = bind (py_get r 0) (\<lambda>cur. if v < cur then py_set r 0 v else Inr r)"

definition widen_hi :: "real list \<Rightarrow> real \<Rightarrow> error + real list" where
  "widen_hi r v = bind (py_get r 1) (\<lambda>cur. if v > cur then py_set r 1 v else Inr r)"

definition add_dataset ::
  "real plot \<Rightarrow> dataset \<Rightarrow> string option \<Rightarrow> string option \<Rightarrow> error + real plot" where
  "add_dataset p d color nm =
     (let p1 = p\<lparr>datasets := datasets p @ [d]\<rparr>;
          p2 = (if length (datasets p1) < 2 then initialize_from_dataset p1 d else p1)
      in bind (case color of
                 None \<Rightarrow> bind (get_color_from_palette p2)
                           (\<lambda>(c, q). Inr (q\<lparr>datasets_colors := datasets_colors q @ [c]\<rparr>))
               | Some c \<Rightarrow> Inr (p2\<lparr>datasets_colors := datasets_colors p2 @ [c]\<rparr>))
        (\<lambda>p3. bind (case nm of
                      None \<Rightarrow> Inr p3
                    | Some n \<Rightarrow> bind (py_index (datasets p3) (- 1))
                        (\<lambda>j. Inr (p3\<lparr>datasets :=
                                 (datasets p3)[j := (datasets p3 ! j)\<lparr>name := n\<rparr>]\<rparr>)))
        (\<lambda>p4. let xr = get_x_range d (x_range_margin p4);
                   yr = get_y_range d (y_range_margin p4)
               in bind (widen_lo (x_range p4) (fst xr))
                 (\<lambda>x1. bind (widen_hi x1 (snd xr))
                 (\<lambda>x2. bind (widen_lo (y_range p4) (fst yr))
                 (\<lambda>y1. bind (widen_hi y1 (snd yr))
                 (\<lambda>y2. Inr (set_yres_range_from_fits
                               (p4\<lparr>x_range := x2, y_range := y2\<rparr>)))))))))"

text \<open>A sequence of \<^verbatim>\<open>add_dataset\<close> calls, each with its dataset, colour and name.\<close>

fun add_dataset_calls ::
  "real plot \<Rightarrow> (dataset \<times> string option \<times> string option) list \<Rightarrow> error + real plot" where
  "add_dataset_calls p [] = Inr p"
| "add_dataset_calls p ((d, color, nm) # cs) =
     bind (add_dataset p d color nm) (\<lambda>p'. add_dataset_calls p' cs)"

text \<open>A range \<open>r\<close> (a two-element list) contains the interval \<open>b\<close>; a range contains
  another range.\<close>

definition covers :: "real list \<Rightarrow> real \<times> real \<Rightarrow> bool" where
  "covers r b = (length r = 2 \<and> r ! 0 \<le> fst b \<and> snd b \<le> r ! 1)"

definition widened :: "real list \<Rightarrow> real list \<Rightarrow> bool" where
  "widened old new = (length old = 2 \<and> covers new (old ! 0, old ! 1))"

text \<open>The plot's ranges contain the margin-expanded bounding box of the dataset \<open>e\<close>.\<close>

definition covered :: "real plot \<Rightarrow> dataset \<Rightarrow> bool" where
  "covered p e =
     (covers (x_range p) (get_x_range e (x_range_margin p))
      \<and> covers (y_range p) (get_y_range e (y_range_margin p)))"

definition ranges_cover :: "real plot \<Rightarrow> bool" where
  "ranges_cover p = list_all (covered p) (datasets p)"

text \<open>The datasets handed to the constructor and to a sequence of \<^verbatim>\<open>add_dataset\<close>
  calls, in the order of their attachment.\<close>

definition attached ::
  "dataset option \<Rightarrow> (dataset \<times> string option \<times> string option) list \<Rightarrow> dataset list" where
  "attached dataset cs = (case dataset of None \<Rightarrow> [] | Some d \<Rightarrow> [d]) @ map fst cs"

text \<open>The states that the constructor and \<^verbatim>\<open>add_dataset\<close> produce: a palette with a
  colour, the cursor within it, two-element ranges that contain every attached dataset.\<close>

definition plot_ok :: "real plot \<Rightarrow> bool" where
  "plot_ok p =
     (color_palette p \<noteq> [] \<and> 0 \<le> color_count p
      \<and> color_count p \<le> int (length (color_palette p))
      \<and> length (x_range p) = 2 \<and> length (y_range p) = 2 \<and> ranges_cover p)"

text \<open>A property of datasets that does not read the name (\<^verbatim>\<open>add_dataset\<close> may rename
  the dataset it attaches).\<close>

definition name_blind :: "(dataset \<Rightarrow> bool) \<Rightarrow> bool" where
  "name_blind P = (\<forall>e n. P (e\<lparr>name := n\<rparr>) = P e)"

section \<open>The world outside the Plot object\<close>

text \<open>
  The calls that the module makes to \<^verbatim>\<open>matplotlib.pyplot\<close>, with the arguments that
  carry data: the figure's size, the index into the grid of sub-plots, the axis limits,
  the points and error bars of a dataset (with colour and label), a histogram, a bar
  chart, a curve (abscissae, ordinates, colour, label), a filled band (abscissae, lower
  and upper edge, colour), a text and its position, the legend's place.
\<close>

datatype plt_call =
    PltFigure real real
  | PltSubplot nat
  | PltAxis "real list"
  | PltXlabel string
  | PltYlabel string
  | PltTitle string
  | PltGrid
  | PltErrorbar "real list" "real list" "real list" "real list" string "string option"
  | PltHist "real list" int string string
  | PltBar "real list" "real list" real string string
  | PltPlot "real list" "real list" string "string option"
  | PltFillBetween "real list" "real list" "real list" string
  | PltText real real string
  | PltLegend string
  | PltShow
  | PltSavefig string

text \<open>The calls that the module makes to \<^verbatim>\<open>bokeh.io\<close> and \<^verbatim>\<open>bokeh.plotting\<close> beyond
  building figures.\<close>

datatype bk_call =
    BkOutputFile string "string"
  | BkOutputNotebook
  | BkShow bk_object
  | BkPushNotebook

text \<open>
  The state outside the plot that the module reads and writes: the global flag
  \<^verbatim>\<open>qe.Measurement.minmax_n\<close> of the uncertainty engine, the lines printed so far, the
  calls made to pyplot and to bokeh so far, the configured engine \<^verbatim>\<open>q.plot_engine\<close> with
  the table \<^verbatim>\<open>q.plot_engine_synonyms\<close>, what \<^verbatim>\<open>qu.in_notebook()\<close> answers, and the two
  flags of \<^verbatim>\<open>qexpy.utils\<close> that record a notebook output.
\<close>

record world =
  minmax_n :: int
  printed :: "string list"
  plt :: "plt_call list"
  bokeh :: "bk_call list"
  plot_engine :: string
  plot_engine_synonyms :: "string \<rightharpoonup> string list"
  in_notebook :: bool
  bokeh_ouput_notebook_called :: bool
  mpl_ouput_notebook_called :: bool
  mpl_output_notebook_calls :: nat

definition py_print :: "world \<Rightarrow> string \<Rightarrow> world" where
  "py_print w line = w\<lparr>printed := printed w @ [line]\<rparr>"

definition plt_do :: "world \<Rightarrow> plt_call list \<Rightarrow> world" where
  "plt_do w cs = w\<lparr>plt := plt w @ cs\<rparr>"

text \<open>Reading a dictionary: a missing key raises KeyError.\<close>

definition py_lookup :: "(string \<rightharpoonup> 'v) \<Rightarrow> string \<Rightarrow> error + 'v" where
  "py_lookup m k = (case m k of None \<Rightarrow> Inl (KeyError k) | Some v \<Rightarrow> Inr v)"

text \<open>Python's \<^verbatim>\<open>min\<close> and \<^verbatim>\<open>max\<close> of a sequence and numpy's \<^verbatim>\<open>.min()\<close> and
  \<^verbatim>\<open>.max()\<close> of an array: ValueError on an empty one.\<close>

definition py_min :: "real list \<Rightarrow> error + real" where
  "py_min xs = (case xs of [] \<Rightarrow> Inl ValueError | x # r \<Rightarrow> Inr (fold min r x))"

definition py_max :: "real list \<Rightarrow> error + real" where
  "py_max xs = (case xs of [] \<Rightarrow> Inl ValueError | x # r \<Rightarrow> Inr (fold max r x))"

text \<open>\<^verbatim>\<open>np.linspace(a, b, n)\<close>: \<open>n\<close> evenly spaced samples from \<open>a\<close> to \<open>b\<close>, both
  included.\<close>

definition linspace :: "real \<Rightarrow> real \<Rightarrow> nat \<Rightarrow> real list" where
  "linspace a b n =
     (if n = 1 then [a]
      else map (\<lambda>i. a + real i * ((b - a) / real (n - 1))) [0..<n])"

text \<open>Element-wise sum and difference of two numpy arrays of the same length.\<close>

definition np_add :: "real list \<Rightarrow> real list \<Rightarrow> real list" where
  "np_add xs ys = map2 (+) xs ys"

definition np_sub :: "real list \<Rightarrow> real list \<Rightarrow> real list" where
  "np_sub xs ys = map2 (-) xs ys"

text \<open>The decimal text of an integer, as \<^verbatim>\<open>"{}".format\<close> writes it.\<close>

function digits_of :: "nat \<Rightarrow> string" where
  "digits_of n =
     (if n < 10 then [''0123456789'' ! n]
      else digits_of (n div 10) @ [''0123456789'' ! (n mod 10)])"
  by pat_completeness auto
termination
  by (relation "measure (\<lambda>n. n)") auto

definition py_str_int :: "int \<Rightarrow> string" where
  "py_str_int i = (if i < 0 then ''-'' @ digits_of (nat (- i)) else digits_of (nat i))"

section \<open>Adding functions\<close>

text \<open>The grid on which \<^verbatim>\<open>add_function\<close> samples the function: 100 points over the
  current x-range.\<close>

definition add_function_xvals :: "real plot \<Rightarrow> error + real list" where
  "add_function_xvals p =
     bind (py_get (x_range p) 0) (\<lambda>x0.
     bind (py_get (x_range p) 1) (\<lambda>x1. Inr (linspace x0 x1 100)))"

text \<open>
  \<^verbatim>\<open>Plot.add_function\<close>. The \<^verbatim>\<open>if\<close>/\<^verbatim>\<open>elif\<close> chain on the parameter source gives the
  values \<^verbatim>\<open>fvals\<close>, or, for an unrecognised source, prints and returns (\<open>None\<close> below).
  The two comparisons on \<^verbatim>\<open>fmax\<close> and \<^verbatim>\<open>fmin\<close> are \<open>widen_hi\<close> and \<open>widen_lo\<close>.
\<close>

definition add_function ::
  "real plot \<Rightarrow> world \<Rightarrow> pyfun \<Rightarrow> pars \<Rightarrow> string option \<Rightarrow> string option
     \<Rightarrow> error + real plot \<times> world" where
  "add_function p w function prs nm color =
     bind (add_function_xvals p) (\<lambda>xvals.
     bind (case prs of
             ParNone \<Rightarrow>
               bind (call_plain function (minmax_n w) xvals None)
                 (\<lambda>fvals. Inr (Some fvals, w))
           | ParMeas ms \<Rightarrow>
               (let recall = minmax_n w;
                    w1 = w\<lparr>minmax_n := 1\<rparr>
                in bind (call_meas function (minmax_n w1) xvals ms)
                     (\<lambda>fmes. Inr (Some (get_means fmes), w1\<lparr>minmax_n := recall\<rparr>)))
           | ParPlain ps \<Rightarrow>
               bind (call_plain function (minmax_n w) xvals (Some ps))
                 (\<lambda>fvals. Inr (Some fvals, w))
           | ParOther \<Rightarrow>
               Inr (None, py_print w ''Error: Not a recognized format for parameter''))
       (\<lambda>(r, w2). case r of
           None \<Rightarrow> Inr (p, w2)
         | Some fvals \<Rightarrow>
             bind (py_max fvals) (\<lambda>mx.
             bind (py_min fvals) (\<lambda>mn.
             let fmax = mx + y_range_margin p;
                 fmin = mn - y_range_margin p
             in bind (widen_hi (y_range p) fmax) (\<lambda>yr1.
                bind (widen_lo yr1 fmin) (\<lambda>yr2.
                let fname = (case nm of
                               None \<Rightarrow> ''userf_'' @ py_str_int (user_functions_count p)
                             | Some n \<Rightarrow> n);
                    p1 = p\<lparr>y_range := yr2,
                           user_functions := user_functions p @ [function],
                           user_functions_pars := user_functions_pars p @ [prs],
                           user_functions_names := user_functions_names p @ [fname],
                           user_functions_count := user_functions_count p + 1\<rparr>
                in case color of
                     None \<Rightarrow>
                       bind (get_color_from_palette p1)
                         (\<lambda>(c, q). Inr (q\<lparr>user_functions_colors :=
                                              user_functions_colors q @ [c]\<rparr>, w2))
                   | Some c \<Rightarrow>
                       Inr (p1\<lparr>user_functions_colors :=
                                  user_functions_colors p1 @ [c]\<rparr>, w2)))))))"

text \<open>\<^verbatim>\<open>Plot.set_errorband_sigma\<close>.\<close>

definition set_errorband_sigma :: "'a plot \<Rightarrow> real \<Rightarrow> 'a plot" where
  "set_errorband_sigma p sigma = p\<lparr>errorband_sigma := sigma\<rparr>"

section \<open>Rendering with matplotlib\<close>

text \<open>The axis limits \<^verbatim>\<open>[x_range[0], x_range[1], r[0], r[1]]\<close>.\<close>

definition axis_limits :: "real list \<Rightarrow> real list \<Rightarrow> error + real list" where
  "axis_limits xr r =
     bind (py_get xr 0) (\<lambda>x0. bind (py_get xr 1) (\<lambda>x1.
     bind (py_get r 0) (\<lambda>r0. bind (py_get r 1) (\<lambda>r1. Inr [x0, x1, r0, r1]))))"

text \<open>\<^verbatim>\<open>Plot.initialize_mpl_figure\<close>. Reading \<^verbatim>\<open>self.yres_range\<close> before any fit has
  set it raises AttributeError.\<close>

definition initialize_mpl_figure ::
  "real plot \<Rightarrow> world \<Rightarrow> bool \<Rightarrow> error + real plot \<times> world" where
  "initialize_mpl_figure p w refresh =
     (if \<not> refresh \<and> mplfigure p \<noteq> None \<and> \<not> (show_residuals p \<and> mpl_gs p = None)
      then Inr (p, w)
      else
        bind (py_get (dimensions p) 0) (\<lambda>d0.
        bind (py_get (dimensions p) 1) (\<lambda>d1.
        bind (if \<not> show_residuals p
              then Inr (p\<lparr>mplfigure := Some (of_int d0 * mpl_scaling p,
                                               of_int d1 * mpl_scaling p)\<rparr>,
                        plt_do w [PltFigure (of_int d0 * mpl_scaling p)
                                            (of_int d1 * mpl_scaling p)])
              else
                (let p1 = p\<lparr>mplfigure := Some (of_int d0 * mpl_scaling p,
                                                1.33 * of_int d1 * mpl_scaling p),
                              mpl_gs := Some [3, 1]\<rparr>;
                     w1 = plt_do w [PltFigure (of_int d0 * mpl_scaling p)
                                              (1.33 * of_int d1 * mpl_scaling p),
                                    PltSubplot 1]
                 in bind (case yres_range p1 of
                            None \<Rightarrow> Inl (AttributeError ''yres_range'')
                          | Some yr \<Rightarrow> axis_limits (x_range p1) yr) (\<lambda>lim.
                    bind (py_lookup (labels p1) ''xtitle'') (\<lambda>xt.
                    Inr (p1, plt_do w1 [PltAxis lim, PltXlabel xt, PltYlabel ''Residuals'',
                                        PltGrid, PltSubplot 0])))))
          (\<lambda>(p2, w2).
             bind (axis_limits (x_range p2) (y_range p2)) (\<lambda>lim.
             bind (py_lookup (labels p2) ''xtitle'') (\<lambda>xt.
             bind (py_lookup (labels p2) ''ytitle'') (\<lambda>yt.
             bind (py_lookup (labels p2) ''title'') (\<lambda>t.
             Inr (p2, plt_do w2 [PltAxis lim, PltXlabel xt, PltYlabel yt,
                                 PltTitle t, PltGrid])))))))))"

text \<open>The grid on which \<^verbatim>\<open>mpl_plot_function\<close> samples the function: \<open>n\<close> points from
  the least to the greatest entry of \<^verbatim>\<open>xdata\<close> (\<open>x_data\<close> here).\<close>

definition mpl_plot_function_xvals :: "real list \<Rightarrow> nat \<Rightarrow> error + real list" where
  "mpl_plot_function_xvals x_data n =
     bind (py_min x_data) (\<lambda>lo. bind (py_max x_data) (\<lambda>hi. Inr (linspace lo hi n)))"

text \<open>
  \<^verbatim>\<open>Plot.mpl_plot_function\<close>. In the last branch of the chain the source prints and
  goes on (\<^verbatim>\<open>pass\<close>) to \<^verbatim>\<open>plt.plot(xvals, fvals, ...)\<close>, where the local \<^verbatim>\<open>fvals\<close> was
  never assigned: Python raises UnboundLocalError. The band is drawn from
  \<^verbatim>\<open>fvals - ferr\<close> to \<^verbatim>\<open>fvals + ferr\<close>; the argument \<^verbatim>\<open>errorbandfactor\<close> is not read.
\<close>

definition mpl_plot_function ::
  "real plot \<Rightarrow> world \<Rightarrow> pyfun \<Rightarrow> real list \<Rightarrow> pars \<Rightarrow> nat \<Rightarrow> string option \<Rightarrow> string
     \<Rightarrow> real \<Rightarrow> error + real plot \<times> world" where
  "mpl_plot_function p w function x_data prs n legend_name color errorbandfactor =
     bind (if mplfigure p = None then initialize_mpl_figure p w True else Inr (p, w))
       (\<lambda>(p1, w1).
     let w2 = (if mpl_gs p1 \<noteq> None then plt_do w1 [PltSubplot 0] else w1)
     in bind (mpl_plot_function_xvals x_data n) (\<lambda>xvals.
        case prs of
          ParNone \<Rightarrow>
            bind (call_plain function (minmax_n w2) xvals None) (\<lambda>fvals.
            Inr (p1, plt_do w2 [PltPlot xvals fvals color legend_name]))
        | ParMeas ms \<Rightarrow>
            (let recall = minmax_n w2;
                 w3 = w2\<lparr>minmax_n := 1\<rparr>
             in bind (call_meas function (minmax_n w3) xvals ms) (\<lambda>fmes.
                let fvals = get_means fmes;
                    ferr = get_stds fmes;
                    w4 = w3\<lparr>minmax_n := recall\<rparr>;
                    w5 = plt_do w4 [PltPlot xvals fvals color legend_name];
                    fmax = np_add fvals ferr;
                    fmin = np_sub fvals ferr
                in Inr (p1, plt_do w5 [PltFillBetween xvals fmin fmax color])))
        | ParPlain ps \<Rightarrow>
            bind (call_plain function (minmax_n w2) xvals (Some ps)) (\<lambda>fvals.
            Inr (p1, plt_do w2 [PltPlot xvals fvals color legend_name]))
        | ParOther \<Rightarrow>
            (let w3 = py_print w2 ''Error: unrecognized parameters for function''
             in Inl (UnboundLocalError ''fvals''))))"

text \<open>\<^verbatim>\<open>s.split(c)\<close> for a one-character separator: always at least one piece.\<close>

fun split_on :: "char \<Rightarrow> string \<Rightarrow> string list" where
  "split_on c [] = [[]]"
| "split_on c (x # xs) =
     (if x = c then [] # split_on c xs
      else (case split_on c xs of
              [] \<Rightarrow> [[x]]
            | y # ys \<Rightarrow> (x # y) # ys))"

text \<open>The shortened name of a fit parameter: what stands before the first and after
  the last underscore of its text.\<close>

definition short_name :: "measurement \<Rightarrow> error + string" where
  "short_name m =
     (let parts = split_on CHR ''_'' (mstr m)
      in bind (py_get parts 0) (\<lambda>first.
         bind (py_get parts (- 1)) (\<lambda>final. Inr (first @ ''_'' @ final))))"

text \<open>The loop of \<^verbatim>\<open>mpl_plot_fit_results_text_box\<close> over \<^verbatim>\<open>range(dataset.fit_npars[-1])\<close>:
  one line of text for each parameter of the last fit.\<close>

fun textfit_lines :: "dataset \<Rightarrow> nat list \<Rightarrow> error + string" where
  "textfit_lines d [] = Inr []"
| "textfit_lines d (i # rest) =
     bind (py_get (fit_pars d) (- 1)) (\<lambda>ps.
     bind (py_get ps (int i)) (\<lambda>m.
     bind (short_name m) (\<lambda>sn.
     bind (textfit_lines d rest) (\<lambda>more. Inr (sn @ [CHR 0x0A] @ more)))))"

text \<open>\<^verbatim>\<open>Plot.mpl_plot_fit_results_text_box\<close>; it returns the new offset.\<close>

definition mpl_plot_fit_results_text_box ::
  "real plot \<Rightarrow> world \<Rightarrow> dataset \<Rightarrow> real \<Rightarrow> error + real \<times> real plot \<times> world" where
  "mpl_plot_fit_results_text_box p w d yoffset =
     bind (if mplfigure p = None then initialize_mpl_figure p w True else Inr (p, w))
       (\<lambda>(p1, w1).
     bind (py_get (y_range p1) 1) (\<lambda>y1.
     bind (py_get (y_range p1) 0) (\<lambda>y0.
     bind (py_get (x_range p1) 1) (\<lambda>x1.
     bind (py_get (x_range p1) 0) (\<lambda>x0.
     let h = y1 - y0;
         l = x1 - x0;
         start_x = x1 - 0.02 * l + fit_results_x_offset p1;
         start_y = y1 - 0.12 * h - yoffset + fit_results_y_offset p1
     in bind (py_get (fit_npars d) (- 1)) (\<lambda>np.
        bind (textfit_lines d [0..<nat np]) (\<lambda>textfit.
        Inr (of_int np * 0.045 * h, p1, plt_do w1 [PltText start_x start_y textfit]))))))))"

text \<open>
  \<^verbatim>\<open>Plot.mpl_plot_dataset\<close>. The fit parameters \<^verbatim>\<open>dataset.fit_pars[-1]\<close> are a
  \<^verbatim>\<open>Measurement_Array\<close>; the fit is drawn on 50 points.
\<close>

definition mpl_plot_dataset ::
  "real plot \<Rightarrow> world \<Rightarrow> dataset \<Rightarrow> string \<Rightarrow> bool \<Rightarrow> bool \<Rightarrow> error + real plot \<times> world" where
  "mpl_plot_dataset p w d color show_fit_function show_res =
     bind (if mplfigure p = None
           then initialize_mpl_figure
                  (if show_res \<and> nfits d > 0 then p\<lparr>show_residuals := True\<rparr> else p) w True
           else Inr (p, w))
       (\<lambda>(p1, w1).
     let w2 = (if mpl_gs p1 \<noteq> None then plt_do w1 [PltSubplot 0] else w1)
     in bind (if is_histogram d
              then (case hist_data d of
                      Some hdat \<Rightarrow> Inr (plt_do w2 [PltHist hdat (hist_bins d) (name d) color])
                    | None \<Rightarrow>
                        bind (py_get (xdata d) (- 1)) (\<lambda>xl.
                        bind (py_get (xdata d) (- 2)) (\<lambda>xp.
                        Inr (plt_do w2 [PltBar (xdata d) (ydata d) (xl - xp) (name d) color]))))
              else Inr (plt_do w2 [PltErrorbar (xdata d) (ydata d) (xerr d) (yerr d) color
                                     (Some (name d))]))
          (\<lambda>w3.
        bind (if nfits d > 0 \<and> show_fit_function
              then bind (py_get (fit_function d) (- 1)) (\<lambda>f.
                   bind (py_get (fit_pars d) (- 1)) (\<lambda>ps.
                   bind (py_get (fit_function_name d) (- 1)) (\<lambda>fname.
                   mpl_plot_function p1 w3 f (xdata d) (ParMeas ps) 50 (Some fname) color
                     (errorband_sigma p1))))
              else Inr (p1, w3))
          (\<lambda>(p2, w4).
        if show_residuals p2 \<and> mpl_gs p2 \<noteq> None \<and> show_res
        then bind (py_get (fit_yres d) (- 1)) (\<lambda>yres.
             Inr (p2, plt_do w4 [PltSubplot 1,
                                 PltErrorbar (xdata d) (get_means yres) (xerr d) (yerr d) color None,
                                 PltSubplot 0]))
        else Inr (p2, w4))))"

text \<open>The first loop of \<^verbatim>\<open>populate_mpl_figure\<close>, over the datasets and their colours,
  threading the offset of the text boxes.\<close>

fun mpl_plot_datasets ::
  "real plot \<Rightarrow> world \<Rightarrow> real \<Rightarrow> (dataset \<times> string) list
     \<Rightarrow> error + real \<times> real plot \<times> world" where
  "mpl_plot_datasets p w legend_offset [] = Inr (legend_offset, p, w)"
| "mpl_plot_datasets p w legend_offset ((d, color) # rest) =
     bind (mpl_plot_dataset p w d color True (show_residuals p)) (\<lambda>(p1, w1).
     bind (if show_fit_results p1 \<and> nfits d > 0
           then mpl_plot_fit_results_text_box p1 w1 d legend_offset
           else Inr (legend_offset, p1, w1))
       (\<lambda>(off, p2, w2). mpl_plot_datasets p2 w2 off rest))"

text \<open>The x-data that \<^verbatim>\<open>populate_mpl_figure\<close> and \<^verbatim>\<open>populate_bokeh_figure\<close> hand to
  the drawing of the user's functions: the x-range, drawn in by the margin.\<close>

definition populate_xvals :: "real plot \<Rightarrow> error + real list" where
  "populate_xvals p =
     bind (py_get (x_range p) 0) (\<lambda>x0.
     bind (py_get (x_range p) 1) (\<lambda>x1.
     Inr [x0 + x_range_margin p, x1 - x_range_margin p]))"

text \<open>The second loop of \<^verbatim>\<open>populate_mpl_figure\<close>, over the user's functions.\<close>

fun mpl_plot_user_functions ::
  "real plot \<Rightarrow> world \<Rightarrow> real list \<Rightarrow> (pyfun \<times> pars \<times> string \<times> string) list
     \<Rightarrow> error + real plot \<times> world" where
  "mpl_plot_user_functions p w xvals [] = Inr (p, w)"
| "mpl_plot_user_functions p w xvals ((func, prs, fname, color) # rest) =
     bind (mpl_plot_function p w func xvals prs 100 (Some fname) color (errorband_sigma p))
       (\<lambda>(p1, w1). mpl_plot_user_functions p1 w1 xvals rest)"

text \<open>\<^verbatim>\<open>Plot.populate_mpl_figure\<close>.\<close>

definition populate_mpl_figure ::
  "real plot \<Rightarrow> world \<Rightarrow> bool \<Rightarrow> error + real plot \<times> world" where
  "populate_mpl_figure p w refresh =
     bind (initialize_mpl_figure p w refresh) (\<lambda>(p1, w1).
     bind (mpl_plot_datasets p1 w1 0 (zip (datasets p1) (datasets_colors p1)))
       (\<lambda>(legend_offset, p2, w2).
     bind (populate_xvals p2) (\<lambda>xvals.
     bind (mpl_plot_user_functions p2 w2 xvals
             (zip (user_functions p2) (zip (user_functions_pars p2)
                (zip (user_functions_names p2) (user_functions_colors p2)))))
       (\<lambda>(p3, w3).
     Inr (p3, if mpl_show_legend p3
              then plt_do w3 [PltLegend (mpl_legend_location p3)] else w3)))))"

section \<open>The interactive linear fit with matplotlib\<close>

text \<open>
  The collaborators of the linear fits, as parameters. \<open>clear_fits\<close> and \<open>fit\<close> are the
  dataset's own methods (the dataset comes back as the call left it). \<open>Measurement\<close>
  builds an uncertain scalar from a mean, a standard deviation and an optional name;
  \<open>linear_sum\<close> is \<^verbatim>\<open>omes + smes*x\<close> for an array \<open>x\<close>, after
  \<^verbatim>\<open>omes.set_correlation(smes, correlation)\<close>. The first argument of the last two is the
  value of the flag \<^verbatim>\<open>qe.Measurement.minmax_n\<close> during the call; \<open>to_str\<close> is \<^verbatim>\<open>str\<close>.
  \<open>qpu_bk_plot_function\<close> is the evaluation inside \<^verbatim>\<open>qexpy.plot_utils.bk_plot_function\<close>
  (under the flag, of the function on \<open>n\<close> points over the x-data with the parameter
  source and the error-band factor), giving the line and the band it draws.
\<close>

record collaborators =
  clear_fits :: "dataset \<Rightarrow> dataset"
  fit :: "dataset \<Rightarrow> string \<Rightarrow> error + dataset"
  Measurement :: "int \<Rightarrow> real \<Rightarrow> real \<Rightarrow> string option \<Rightarrow> measurement"
  linear_sum :: "int \<Rightarrow> measurement \<Rightarrow> measurement \<Rightarrow> real \<Rightarrow> real list \<Rightarrow> measurement list"
  to_str :: "measurement \<Rightarrow> string"
  qpu_bk_plot_function ::
    "int \<Rightarrow> pyfun \<Rightarrow> real list \<Rightarrow> pars \<Rightarrow> nat \<Rightarrow> real \<Rightarrow> error + glyph \<times> glyph"

text \<open>
  The callback \<^verbatim>\<open>update\<close> that \<^verbatim>\<open>interactive_linear_fit\<close> registers with the sliders.
  It draws a new figure; the plot object is only read.
\<close>

definition interactive_linear_fit_update ::
  "collaborators \<Rightarrow> real plot \<Rightarrow> world \<Rightarrow> dataset \<Rightarrow> string
     \<Rightarrow> real \<Rightarrow> real \<Rightarrow> real \<Rightarrow> real \<Rightarrow> real \<Rightarrow> error + world" where
  "interactive_linear_fit_update co p w d color offset offset_err slope slope_err correlation =
     bind (py_get (dimensions p) 0) (\<lambda>d0.
     bind (py_get (dimensions p) 1) (\<lambda>d1.
     let w1 = plt_do w [PltFigure (of_int d0 * mpl_scaling p) (of_int d1 * mpl_scaling p)]
     in bind (py_get (x_range p) 0) (\<lambda>x0.
        bind (py_get (x_range p) 1) (\<lambda>x1.
        let xvals = linspace x0 x1 20;
            omes = Measurement co (minmax_n w1) offset offset_err (Some ''offset'');
            smes = Measurement co (minmax_n w1) slope slope_err (Some ''slope'');
            recall = minmax_n w1;
            w2 = w1\<lparr>minmax_n := 1\<rparr>;
            fmes = linear_sum co (minmax_n w2) omes smes correlation xvals;
            w3 = w2\<lparr>minmax_n := recall\<rparr>;
            fvals = get_means fmes;
            ferr = get_stds fmes;
            fmax = np_add fvals ferr;
            fmin = np_sub fvals ferr;
            w4 = plt_do w3 [PltErrorbar (xdata d) (ydata d) (xerr d) (yerr d) color
                              (Some (name d)),
                            PltPlot xvals fvals color (Some ''linear fit''),
                            PltFillBetween xvals fmin fmax color]
        in bind (py_get (y_range p) 1) (\<lambda>y1.
           bind (py_get (y_range p) 0) (\<lambda>y0.
           let h = y1 - y0;
               l = x1 - x0;
               start_x = x1 - 0.02 * l + fit_results_x_offset p;
               start_y = y1 - 0.08 * h + fit_results_y_offset p;
               textfit = to_str co omes @ [CHR 0x0A] @ to_str co smes;
               w5 = plt_do w4 [PltText start_x start_y textfit]
           in bind (axis_limits (x_range p) (y_range p)) (\<lambda>lim.
              bind (py_lookup (labels p) ''xtitle'') (\<lambda>xt.
              bind (py_lookup (labels p) ''ytitle'') (\<lambda>yt.
              bind (py_lookup (labels p) ''title'') (\<lambda>t.
              Inr (plt_do w5 [PltAxis lim, PltXlabel xt, PltYlabel yt, PltTitle t,
                              PltLegend (mpl_legend_location p), PltGrid, PltShow])))))))))))"

text \<open>
  The part that \<^verbatim>\<open>interactive_linear_fit\<close> and \<^verbatim>\<open>bk_show_linear_fit\<close> share: the warning,
  the linear fit of the last dataset, and the extension of the x-range to \<open>-0.5\<close> with
  the lower y-bound set to the fitted line there. It gives the fitted dataset, its
  colour, the fit function and the fit parameters.
\<close>

definition fit_last_linear ::
  "collaborators \<Rightarrow> real plot \<Rightarrow> world
     \<Rightarrow> error + (dataset \<times> string \<times> pyfun \<times> measurement list) \<times> real plot \<times> world" where
  "fit_last_linear co p w =
     (let w1 = (if length (datasets p) > 1
                then py_print w
                  ''Warning: only using the last added dataset, and clearing previous fits''
                else w)
      in bind (py_index (datasets p) (- 1)) (\<lambda>j.
         bind (py_get (datasets_colors p) (- 1)) (\<lambda>color.
         bind (fit co (clear_fits co (datasets p ! j)) ''linear'') (\<lambda>d.
         let p1 = p\<lparr>datasets := (datasets p)[j := d]\<rparr>
         in bind (py_get (fit_function d) (- 1)) (\<lambda>func.
            bind (py_get (fit_pars d) (- 1)) (\<lambda>prs.
            bind (py_get (x_range p1) 0) (\<lambda>x0.
            bind (if x0 > - 0.5
                  then bind (py_set (x_range p1) 0 (- 0.5)) (\<lambda>xr.
                       bind (py_get (fit_function d) (- 1)) (\<lambda>f.
                       bind (py_get xr 0) (\<lambda>x.
                       bind (at_point f (minmax_n w1) x (get_means prs)) (\<lambda>v.
                       bind (py_set (y_range p1) 0 v) (\<lambda>yr.
                       Inr (p1\<lparr>x_range := xr, y_range := yr\<rparr>))))))
                  else Inr p1)
              (\<lambda>p2. Inr ((d, color, func, prs), p2, w1)))))))))"

text \<open>
  \<^verbatim>\<open>Plot.interactive_linear_fit\<close>. The decorator \<^verbatim>\<open>interact\<close> builds the sliders from
  the five ranges (returned here with the new state) and calls \<^verbatim>\<open>update\<close> once, with the
  defaults of its arguments.
\<close>

definition interactive_linear_fit ::
  "collaborators \<Rightarrow> real plot \<Rightarrow> world \<Rightarrow> real
     \<Rightarrow> error + (real \<times> real \<times> real) list \<times> real plot \<times> world" where
  "interactive_linear_fit co p w error_range =
     bind (fit_last_linear co p w) (\<lambda>((d, color, func, prs), p1, w1).
     bind (py_get prs 0) (\<lambda>p0.
     bind (py_get prs 1) (\<lambda>p1'.
     let off_min = mean p0 - error_range * std p0;
         off_max = mean p0 + error_range * std p0;
         off_step = (off_max - off_min) / 50;
         slope_min = mean p1' - error_range * std p1';
         slope_max = mean p1' + error_range * std p1';
         slope_step = (slope_max - slope_min) / 50;
         sliders = [(off_min, off_max, off_step),
                    (0, error_range * std p0, std p0 / 50),
                    (slope_min, slope_max, slope_step),
                    (0, error_range * std p1', std p1' / 50),
                    (- 1, 1, 0.05)]
     in bind (py_get (fit_pcorr d) (- 1)) (\<lambda>pc.
        bind (py_get pc 0) (\<lambda>row.
        bind (py_get row 1) (\<lambda>corr.
        bind (interactive_linear_fit_update co p1 w1 d color
                (mean p0) (std p0) (mean p1') (std p1') corr) (\<lambda>w2.
        Inr (sliders, p1, w2))))))))"

section \<open>Setting the ranges by hand\<close>

text \<open>
  An argument of \<^verbatim>\<open>set_plot_range\<close>: \<^verbatim>\<open>None\<close>, a value that has a length (its Python
  type and its entries), or a value without one. The tuple \<^verbatim>\<open>ARRAY = qu.array_types\<close>
  belongs to \<^verbatim>\<open>qexpy.utils\<close> and is a parameter. The test \<^verbatim>\<open>type(x_range) in ARRAY and
  len(x_range) is 2\<close> reads the type and the length only, so the entries have any
  type \<open>'a\<close>.
\<close>

datatype pytype = TList | TTuple | TNdarray | TStr | TDict | TInt | TFloat

datatype 'a pyarg = PyNone | PySized pytype "'a list" | PyScalar pytype 'a

definition range_message :: "string \<Rightarrow> string" where
  "range_message ax =
     ax @ '' range must be a list containing a minimun and maximum'' @ [CHR 0x0A]
        @ ''            value for the range of the plot.''"

text \<open>
  One of the two \<^verbatim>\<open>if\<close>/\<^verbatim>\<open>elif\<close> statements of \<^verbatim>\<open>set_plot_range\<close>: the new value of
  the range (\<open>None\<close> when it is left alone) and the world after the message. \<^verbatim>\<open>len\<close> is
  called whenever the type is in \<^verbatim>\<open>ARRAY\<close>, and raises TypeError on a value that has no
  length (an ndarray of dimension 0).
\<close>

definition check_range_arg ::
  "pytype list \<Rightarrow> world \<Rightarrow> string \<Rightarrow> 'a pyarg \<Rightarrow> error + 'a list option \<times> world" where
  "check_range_arg ARRAY w ax arg =
     (case arg of
        PySized t xs \<Rightarrow>
          (if t \<in> set ARRAY \<and> length xs = 2 then Inr (Some xs, w)
           else Inr (None, py_print w (range_message ax)))
      | PyScalar t x \<Rightarrow>
          (if t \<in> set ARRAY then Inl (TypeError ''len'')
           else Inr (None, py_print w (range_message ax)))
      | PyNone \<Rightarrow> Inr (None, w))"

text \<open>\<^verbatim>\<open>Plot.set_plot_range\<close>; \<^verbatim>\<open>x_range\<close> and \<^verbatim>\<open>y_range\<close> default to \<^verbatim>\<open>None\<close>.\<close>

definition set_plot_range ::
  "pytype list \<Rightarrow> 'a plot \<Rightarrow> world \<Rightarrow> 'a pyarg \<Rightarrow> 'a pyarg \<Rightarrow> error + 'a plot \<times> world" where
  "set_plot_range ARRAY p w xr yr =
     bind (check_range_arg ARRAY w ''X'' xr) (\<lambda>(nx, w1).
     let p1 = (case nx of Some r \<Rightarrow> p\<lparr>x_range := r\<rparr> | None \<Rightarrow> p)
     in bind (check_range_arg ARRAY w1 ''Y'' yr) (\<lambda>(ny, w2).
        let p2 = (case ny of Some r \<Rightarrow> p1\<lparr>y_range := r\<rparr> | None \<Rightarrow> p1)
        in Inr (p2, w2)))"

section \<open>Rendering with bokeh\<close>

text \<open>Adding an item to \<^verbatim>\<open>self.bkfigure\<close>: a grid of figures has no such method.\<close>

definition bk_add :: "bk_object \<Rightarrow> bk_item \<Rightarrow> error + bk_object" where
  "bk_add obj item =
     (case obj of
        BkFigure f \<Rightarrow> Inr (BkFigure (f\<lparr>fig_items := fig_items f @ [item]\<rparr>))
      | BkGridplot fs \<Rightarrow> Inl (AttributeError ''add_layout''))"

text \<open>\<^verbatim>\<open>Plot.initialize_bokeh_figure\<close>. With \<^verbatim>\<open>residuals=True\<close> the statement
  \<^verbatim>\<open>self.set_yres_range_from_fits\<close> names the method without calling it.\<close>

definition initialize_bokeh_figure :: "real plot \<Rightarrow> bool \<Rightarrow> error + real plot" where
  "initialize_bokeh_figure p residuals =
     (if \<not> residuals then
        bind (py_get (dimensions p) 0) (\<lambda>d0.
        bind (py_get (dimensions p) 1) (\<lambda>d1.
        bind (py_lookup (axes p) ''yscale'') (\<lambda>ys.
        bind (py_lookup (axes p) ''xscale'') (\<lambda>xs.
        bind (py_lookup (labels p) ''title'') (\<lambda>t.
        bind (py_lookup (labels p) ''xtitle'') (\<lambda>xt.
        bind (py_lookup (labels p) ''ytitle'') (\<lambda>yt.
        Inr (p\<lparr>bkfigure := Some (BkFigure
               \<lparr> fig_width = d0, fig_height = d1,
                 fig_x_range = x_range p, fig_y_range = y_range p,
                 fig_x_axis_type = Some xs, fig_y_axis_type = Some ys,
                 fig_title = Some t, fig_x_axis_label = xt, fig_y_axis_label = yt,
                 fig_legend_location = None, fig_legend_orientation = None,
                 fig_items = [] \<rparr>)\<rparr>))))))))
      else
        bind (py_get (dimensions p) 0) (\<lambda>d0.
        bind (py_get (dimensions p) 1) (\<lambda>d1.
        bind (case yres_range p of
                None \<Rightarrow> Inl (AttributeError ''yres_range'')
              | Some yr \<Rightarrow> Inr yr) (\<lambda>yr.
        bind (case bkfigure p of
                Some (BkFigure f) \<Rightarrow> Inr (fig_x_range f)
              | Some (BkGridplot fs) \<Rightarrow> Inl (AttributeError ''x_range'')
              | None \<Rightarrow> Inl (AttributeError ''bkfigure'')) (\<lambda>xr.
        bind (py_lookup (labels p) ''xtitle'') (\<lambda>xt.
        Inr (p\<lparr>bkres := Some
               \<lparr> fig_width = d0, fig_height = d1 div 3,
                 fig_x_range = xr, fig_y_range = yr,
                 fig_x_axis_type = None, fig_y_axis_type = Some ''linear'',
                 fig_title = None, fig_x_axis_label = xt, fig_y_axis_label = ''Residuals'',
                 fig_legend_location = None, fig_legend_orientation = None,
                 fig_items = [] \<rparr>\<rparr>)))))))"

text \<open>The guard \<^verbatim>\<open>if not hasattr(self, 'bkfigure')\<close> that opens the drawing methods.\<close>

definition ensure_bkfigure :: "real plot \<Rightarrow> error + real plot" where
  "ensure_bkfigure p =
     (if bkfigure p = None then initialize_bokeh_figure p False else Inr p)"

definition the_bkfigure :: "real plot \<Rightarrow> error + bk_object" where
  "the_bkfigure p =
     (case bkfigure p of None \<Rightarrow> Inl (AttributeError ''bkfigure'') | Some obj \<Rightarrow> Inr obj)"

text \<open>The loop of \<^verbatim>\<open>bk_plot_fit_results_text_box\<close>: one label for each parameter of the
  last fit, each one after the first 18 pixels further down.\<close>

fun bk_text_boxes ::
  "real plot \<Rightarrow> dataset \<Rightarrow> real \<Rightarrow> real \<Rightarrow> real \<Rightarrow> nat list \<Rightarrow> error + real \<times> real plot" where
  "bk_text_boxes p d start_x start_y offset [] = Inr (offset, p)"
| "bk_text_boxes p d start_x start_y offset (i # rest) =
     bind (py_get (fit_pars d) (- 1)) (\<lambda>ps.
     bind (py_get ps (int i)) (\<lambda>m.
     bind (short_name m) (\<lambda>sn.
     let offset1 = (if i > 0 then offset + 18 else offset)
     in bind (the_bkfigure p) (\<lambda>obj.
        bind (bk_add obj (BkLabel start_x (start_y - offset1) sn)) (\<lambda>obj1.
        bk_text_boxes (p\<lparr>bkfigure := Some obj1\<rparr>) d start_x start_y offset1 rest)))))"

text \<open>\<^verbatim>\<open>Plot.bk_plot_fit_results_text_box\<close>; it returns the new offset.\<close>

definition bk_plot_fit_results_text_box ::
  "real plot \<Rightarrow> dataset \<Rightarrow> real \<Rightarrow> error + real \<times> real plot" where
  "bk_plot_fit_results_text_box p d yoffset =
     bind (ensure_bkfigure p) (\<lambda>p1.
     bind (py_get (dimensions p1) 0) (\<lambda>d0.
     bind (py_get (dimensions p1) 1) (\<lambda>d1.
     let start_x = of_int d0 - 5 + fit_results_x_offset p1;
         start_y = of_int d1 - 30 - yoffset + fit_results_y_offset p1
     in bind (py_get (fit_npars d) (- 1)) (\<lambda>np.
        bk_text_boxes p1 d start_x start_y yoffset [0..<nat np]))))"

text \<open>\<^verbatim>\<open>Plot.bk_plot_function\<close>: the figure is built if need be, then
  \<^verbatim>\<open>qpu.bk_plot_function\<close> draws on it and returns the line and the band.\<close>

definition bk_plot_function ::
  "collaborators \<Rightarrow> real plot \<Rightarrow> world \<Rightarrow> pyfun \<Rightarrow> real list \<Rightarrow> pars \<Rightarrow> nat
     \<Rightarrow> string option \<Rightarrow> string \<Rightarrow> real \<Rightarrow> error + (glyph \<times> glyph) \<times> real plot" where
  "bk_plot_function co p w function x_data prs n legend_name color errorbandfactor =
     bind (ensure_bkfigure p) (\<lambda>p1.
     bind (the_bkfigure p1) (\<lambda>obj.
     bind (qpu_bk_plot_function co (minmax_n w) function x_data prs n errorbandfactor)
       (\<lambda>glyphs.
     bind (bk_add obj (BkFunction x_data n legend_name color errorbandfactor)) (\<lambda>obj1.
     Inr (glyphs, p1\<lparr>bkfigure := Some obj1\<rparr>)))))"

text \<open>\<^verbatim>\<open>Plot.bk_plot_dataset\<close>.\<close>

definition bk_plot_dataset ::
  "collaborators \<Rightarrow> real plot \<Rightarrow> world \<Rightarrow> dataset \<Rightarrow> bool \<Rightarrow> string \<Rightarrow> bool
     \<Rightarrow> error + real plot" where
  "bk_plot_dataset co p w d residual color show_fit_function =
     (if residual then
        bind (if bkfigure p = None then initialize_bokeh_figure p True else Inr p) (\<lambda>p1.
        case bkres p1 of
          None \<Rightarrow> Inl (AttributeError ''bkres'')
        | Some r \<Rightarrow>
            Inr (p1\<lparr>bkres := Some (r\<lparr>fig_items :=
                                         fig_items r @ [BkDataset (name d) True color]\<rparr>)\<rparr>))
      else
        bind (ensure_bkfigure p) (\<lambda>p1.
        bind (the_bkfigure p1) (\<lambda>obj.
        bind (bk_add obj (BkDataset (name d) False color)) (\<lambda>obj1.
        let p2 = p1\<lparr>bkfigure := Some obj1\<rparr>
        in if nfits d > 0 \<and> show_fit_function
           then bind (py_get (fit_function d) (- 1)) (\<lambda>f.
                bind (py_get (fit_pars d) (- 1)) (\<lambda>ps.
                bind (py_get (fit_function_name d) (- 1)) (\<lambda>fname.
                bind (bk_plot_function co p2 w f (xdata d) (ParMeas ps) 50 (Some fname) color
                        (errorband_sigma p2)) (\<lambda>(glyphs, p3). Inr p3))))
           else Inr p2))))"

text \<open>The count of pixels that \<^verbatim>\<open>populate_bokeh_figure\<close> reserves for the text boxes:
  25 for each parameter of the last fit of each fitted dataset.\<close>

fun pixelcount :: "dataset list \<Rightarrow> error + int" where
  "pixelcount [] = Inr 0"
| "pixelcount (d # rest) =
     bind (if nfits d > 0
           then bind (py_get (fit_npars d) (- 1)) (\<lambda>np. Inr (np * 25))
           else Inr 0) (\<lambda>here.
     bind (pixelcount rest) (\<lambda>more. Inr (here + more)))"

text \<open>The loop of \<^verbatim>\<open>populate_bokeh_figure\<close> over the datasets and their colours.\<close>

fun bk_plot_datasets ::
  "collaborators \<Rightarrow> real plot \<Rightarrow> world \<Rightarrow> real \<Rightarrow> (dataset \<times> string) list
     \<Rightarrow> error + real \<times> real plot" where
  "bk_plot_datasets co p w legend_offset [] = Inr (legend_offset, p)"
| "bk_plot_datasets co p w legend_offset ((d, color) # rest) =
     bind (bk_plot_dataset co p w d False color True) (\<lambda>p1.
     bind (if nfits d > 0
           then bind (if show_fit_results p1
                      then bind (bk_plot_fit_results_text_box p1 d legend_offset)
                             (\<lambda>(off, q). Inr (off + 3, q))
                      else Inr (legend_offset, p1)) (\<lambda>(off, p2).
                bind (if show_residuals p2
                      then bk_plot_dataset co p2 w d True color True
                      else Inr p2) (\<lambda>p3. Inr (off, p3)))
           else Inr (legend_offset, p1))
       (\<lambda>(off, p4). bk_plot_datasets co p4 w off rest))"

text \<open>The loop of \<^verbatim>\<open>populate_bokeh_figure\<close> over the user's functions.\<close>

fun bk_plot_user_functions ::
  "collaborators \<Rightarrow> real plot \<Rightarrow> world \<Rightarrow> real list
     \<Rightarrow> (pyfun \<times> pars \<times> string \<times> string) list \<Rightarrow> error + real plot" where
  "bk_plot_user_functions co p w xvals [] = Inr p"
| "bk_plot_user_functions co p w xvals ((func, prs, fname, color) # rest) =
     bind (bk_plot_function co p w func xvals prs 100 (Some fname) color (errorband_sigma p))
       (\<lambda>(glyphs, p1). bk_plot_user_functions co p1 w xvals rest)"

text \<open>
  The first statements of \<^verbatim>\<open>populate_bokeh_figure\<close>: remember the upper y-bound, raise
  it by \<^verbatim>\<open>pixelcount * y_range[1] / dimensions[1]\<close> when the fit results are shown,
  build the figure, put the remembered bound back.
\<close>

definition inflated_y_range :: "real plot \<Rightarrow> error + real list" where
  "inflated_y_range p =
     (if show_fit_results p
      then bind (pixelcount (datasets p)) (\<lambda>pc.
           bind (py_get (y_range p) 1) (\<lambda>cur.
           bind (py_get (y_range p) 1) (\<lambda>y1.
           bind (py_get (dimensions p) 1) (\<lambda>d1.
           if d1 = 0 then Inl ZeroDivisionError
           else py_set (y_range p) 1 (cur + of_int pc * y1 / of_int d1)))))
      else Inr (y_range p))"

text \<open>\<^verbatim>\<open>Plot.populate_bokeh_figure\<close>; it returns \<^verbatim>\<open>self.bkfigure\<close>.\<close>

definition populate_bokeh_figure ::
  "collaborators \<Rightarrow> real plot \<Rightarrow> world \<Rightarrow> error + bk_object \<times> real plot" where
  "populate_bokeh_figure co p w =
     bind (py_get (y_range p) 1) (\<lambda>yrange_recall.
     bind (inflated_y_range p) (\<lambda>yr.
     bind (initialize_bokeh_figure (p\<lparr>y_range := yr\<rparr>) False) (\<lambda>p1.
     bind (py_set (y_range p1) 1 yrange_recall) (\<lambda>yr1.
     let p2 = p1\<lparr>y_range := yr1\<rparr>
     in bind (if show_residuals p2 then initialize_bokeh_figure p2 True else Inr p2) (\<lambda>p3.
        bind (bk_plot_datasets co p3 w 0 (zip (datasets p3) (datasets_colors p3)))
          (\<lambda>(legend_offset, p4).
        bind (populate_xvals p4) (\<lambda>xvals.
        bind (bk_plot_user_functions co p4 w xvals
                (zip (user_functions p4) (zip (user_functions_pars p4)
                   (zip (user_functions_names p4) (user_functions_colors p4))))) (\<lambda>p5.
        bind (the_bkfigure p5) (\<lambda>obj.
        bind (case obj of
                BkFigure f \<Rightarrow>
                  Inr (f\<lparr>fig_legend_location := Some (bk_legend_location p5),
                         fig_legend_orientation := Some (bk_legend_orientation p5)\<rparr>)
              | BkGridplot fs \<Rightarrow> Inl (AttributeError ''legend'')) (\<lambda>f.
        if show_residuals p5
        then (case bkres p5 of
                None \<Rightarrow> Inl (AttributeError ''bkres'')
              | Some r \<Rightarrow> Inr (BkGridplot [f, r],
                                p5\<lparr>bkfigure := Some (BkGridplot [f, r])\<rparr>))
        else Inr (BkFigure f, p5\<lparr>bkfigure := Some (BkFigure f)\<rparr>)))))))))))"

section \<open>Showing the figure\<close>

text \<open>\<^verbatim>\<open>Plot.set_bokeh_output\<close> and \<^verbatim>\<open>Plot.set_mpl_output\<close>.\<close>

definition set_bokeh_output :: "real plot \<Rightarrow> world \<Rightarrow> string \<Rightarrow> error + world" where
  "set_bokeh_output p w output =
     (if output = ''file'' \<or> \<not> in_notebook w
      then bind (py_lookup (labels p) ''title'') (\<lambda>t.
           Inr (w\<lparr>bokeh := bokeh w @ [BkOutputFile (save_filename p) t]\<rparr>))
      else if \<not> bokeh_ouput_notebook_called w
      then Inr (w\<lparr>bokeh := bokeh w @ [BkOutputNotebook], bokeh_ouput_notebook_called := True\<rparr>)
      else Inr w)"

definition set_mpl_output :: "real plot \<Rightarrow> world \<Rightarrow> string \<Rightarrow> world" where
  "set_mpl_output p w output =
     (if output = ''file'' \<or> \<not> in_notebook w
      then plt_do w [PltSavefig (save_filename p)]
      else if \<not> mpl_ouput_notebook_called w
      then w\<lparr>mpl_output_notebook_calls := Suc (mpl_output_notebook_calls w),
              mpl_ouput_notebook_called := True\<rparr>
      else w)"

text \<open>\<^verbatim>\<open>Plot.show\<close> (\<open>show\<close> is a keyword of Isabelle, hence \<open>show_plot\<close>). A missing key of the synonym table raises KeyError.\<close>

definition show_plot ::
  "collaborators \<Rightarrow> real plot \<Rightarrow> world \<Rightarrow> string \<Rightarrow> bool \<Rightarrow> bool
     \<Rightarrow> error + real plot \<times> world" where
  "show_plot co p w output populate_figure refresh =
     bind (py_lookup (plot_engine_synonyms w) ''bokeh'') (\<lambda>bk_names.
     if plot_engine w \<in> set bk_names
     then bind (set_bokeh_output p w output) (\<lambda>w1.
          if populate_figure
          then bind (populate_bokeh_figure co p w1) (\<lambda>(obj, p1).
               Inr (p1, w1\<lparr>bokeh := bokeh w1 @ [BkShow obj]\<rparr>))
          else bind (the_bkfigure p) (\<lambda>obj.
               Inr (p, w1\<lparr>bokeh := bokeh w1 @ [BkShow obj]\<rparr>)))
     else bind (py_lookup (plot_engine_synonyms w) ''mpl'') (\<lambda>mpl_names.
          if plot_engine w \<in> set mpl_names
          then (let w1 = set_mpl_output p w ''inline''
                in bind (if populate_figure then populate_mpl_figure p w1 refresh
                         else Inr (p, w1)) (\<lambda>(p1, w2).
                   Inr (p1, plt_do w2 [PltShow])))
          else Inr (p, py_print w ''Error: unrecognized plot engine'')))"

section \<open>The linear fit with bokeh\<close>

text \<open>\<^verbatim>\<open>Plot.bk_show_linear_fit\<close>.\<close>

definition bk_show_linear_fit ::
  "collaborators \<Rightarrow> real plot \<Rightarrow> world \<Rightarrow> string \<Rightarrow> error + real plot \<times> world" where
  "bk_show_linear_fit co p w output =
     bind (fit_last_linear co p w) (\<lambda>((d, color, func, prs), p1, w1).
     bind (initialize_bokeh_figure p1 False) (\<lambda>p2.
     bind (bk_plot_dataset co p2 w1 d False color False) (\<lambda>p3.
     bind (populate_xvals p3) (\<lambda>xvals.
     bind (bk_plot_function co p3 w1 func xvals (ParMeas prs) 100 (Some ''linear'') color
             (errorband_sigma p3)) (\<lambda>((line, patches), p4).
     bind (py_get (fit_pcorr d) (- 1)) (\<lambda>pc.
     bind (py_get pc 0) (\<lambda>row.
     bind (py_get row 1) (\<lambda>corr.
     let p5 = p4\<lparr>linear_fit_line := Some line, linear_fit_patches := Some patches,
                  linear_fit_pars := Some prs, linear_fit_corr := Some corr\<rparr>
     in bind (the_bkfigure p5) (\<lambda>obj.
        bind (case obj of
                BkFigure f \<Rightarrow>
                  Inr (BkFigure (f\<lparr>fig_legend_location := Some (bk_legend_location p5)\<rparr>))
              | BkGridplot fs \<Rightarrow> Inl (AttributeError ''legend'')) (\<lambda>obj1.
        show_plot co (p5\<lparr>bkfigure := Some obj1\<rparr>) w1 output False True))))))))))"

text \<open>
  The callback \<^verbatim>\<open>update\<close> that \<^verbatim>\<open>bk_interact_linear_fit\<close> registers with the sliders:
  it overwrites the ordinates of the retained line and band and pushes them to the
  notebook.
\<close>

definition bk_interact_linear_fit_update ::
  "collaborators \<Rightarrow> real plot \<Rightarrow> world \<Rightarrow> real \<Rightarrow> real \<Rightarrow> real \<Rightarrow> real \<Rightarrow> real
     \<Rightarrow> error + real plot \<times> world" where
  "bk_interact_linear_fit_update co p w offset offset_err slope slope_err correlation =
     (let recall = minmax_n w;
          w1 = w\<lparr>minmax_n := 1\<rparr>;
          omes = Measurement co (minmax_n w1) offset offset_err None;
          smes = Measurement co (minmax_n w1) slope slope_err None
      in bind (case linear_fit_line p of
                 None \<Rightarrow> Inl (AttributeError ''linear_fit_line'')
               | Some line \<Rightarrow> Inr line) (\<lambda>line.
         let x_data = data_x line;
             fmes = linear_sum co (minmax_n w1) omes smes correlation x_data;
             w2 = w1\<lparr>minmax_n := recall\<rparr>;
             ymax = np_add (get_means fmes) (get_stds fmes);
             ymin = np_sub (get_means fmes) (get_stds fmes);
             p1 = p\<lparr>linear_fit_line := Some (line\<lparr>data_y := get_means fmes\<rparr>)\<rparr>
         in bind (case linear_fit_patches p1 of
                    None \<Rightarrow> Inl (AttributeError ''linear_fit_patches'')
                  | Some patches \<Rightarrow> Inr patches) (\<lambda>patches.
            Inr (p1\<lparr>linear_fit_patches := Some (patches\<lparr>data_y := ymax @ rev ymin\<rparr>)\<rparr>,
                 w2\<lparr>bokeh := bokeh w2 @ [BkPushNotebook]\<rparr>))))"

text \<open>
  \<^verbatim>\<open>Plot.bk_interact_linear_fit\<close>: the five slider ranges, and the first call of
  \<^verbatim>\<open>update\<close> that \<^verbatim>\<open>interact\<close> makes with the defaults of its arguments.
\<close>

definition bk_interact_linear_fit ::
  "collaborators \<Rightarrow> real plot \<Rightarrow> world \<Rightarrow> real
     \<Rightarrow> error + (real \<times> real \<times> real) list \<times> real plot \<times> world" where
  "bk_interact_linear_fit co p w error_range =
     bind (case linear_fit_pars p of
             None \<Rightarrow> Inl (AttributeError ''linear_fit_pars'')
           | Some prs \<Rightarrow> Inr prs) (\<lambda>prs.
     bind (py_get prs 0) (\<lambda>p0.
     let off_mean = mean p0;
         off_std = std p0;
         off_min = off_mean - error_range * off_std;
         off_max = off_mean + error_range * off_std;
         off_step = (off_max - off_min) / 50
     in bind (py_get prs 1) (\<lambda>p1.
        let slope_mean = mean p1;
            slope_std = std p1;
            slope_min = slope_mean - error_range * slope_std;
            slope_max = slope_mean + error_range * slope_std;
            slope_step = (slope_max - slope_min) / 50;
            sliders = [(off_min, off_max, off_step),
                       (0, 2 * off_std, off_std / 50),
                       (slope_min, slope_max, slope_step),
                       (0, 2 * slope_std, off_std / 50),
                       (- 1, 1, 0.05)]
        in bind (case linear_fit_corr p of
                   None \<Rightarrow> Inl (AttributeError ''linear_fit_corr'')
                 | Some c \<Rightarrow> Inr c) (\<lambda>corr.
           bind (bk_interact_linear_fit_update co p w off_mean off_std slope_mean slope_std corr)
             (\<lambda>(p2, w1). Inr (sliders, p2, w1))))))"

section \<open>Notions used by the statements\<close>





text \<open>
  What a linear-fit entry point does to the ranges of the plot \<open>p\<close>, giving \<open>p'\<close>: the
  lower x-bound becomes \<open>-1/2\<close>, and the lower y-bound becomes the value at \<open>-1/2\<close> of
  the function of the new fit of the last dataset, at the means of its parameters.
\<close>

definition refit_overwrites ::
  "collaborators \<Rightarrow> real plot \<Rightarrow> world \<Rightarrow> real plot \<Rightarrow> bool" where
  "refit_overwrites co p w p' =
     (x_range p' = (x_range p)[0 := - 1 / 2]
      \<and> (\<exists>d func prs v.
            fit co (clear_fits co (last (datasets p))) ''linear'' = Inr d
            \<and> py_get (fit_function d) (- 1) = Inr func
            \<and> py_get (fit_pars d) (- 1) = Inr prs
            \<and> at_point func (minmax_n w) (- 1 / 2) (get_means prs) = Inr v
            \<and> y_range p' = (y_range p)[0 := v]))"

text \<open>
  The main figure of what \<^verbatim>\<open>populate_bokeh_figure\<close> returns (the figure itself, or the
  first of the grid), the y-range that the plot's own main figure was built with, and
  the number of parameters of the last fits of the fitted datasets.
\<close>

definition main_figure :: "bk_object \<Rightarrow> bk_figure option" where
  "main_figure obj =
     (case obj of BkFigure f \<Rightarrow> Some f
      | BkGridplot fs \<Rightarrow> (case fs of [] \<Rightarrow> None | f # rest \<Rightarrow> Some f))"

definition main_y_range :: "real plot \<Rightarrow> real list option" where
  "main_y_range p =
     (case bkfigure p of Some (BkFigure f) \<Rightarrow> Some (fig_y_range f) | _ \<Rightarrow> None)"

definition total_fit_npars :: "dataset list \<Rightarrow> int" where
  "total_fit_npars ds =
     sum_list (map (\<lambda>d. if fit_npars d = [] then 0 else last (fit_npars d))
                 (filter (\<lambda>d. 0 < nfits d) ds))"

text \<open>A step of the drawing keeps the plot's y-range and the y-range of its main
  figure.\<close>

definition keeps :: "real plot \<Rightarrow> real plot \<Rightarrow> bool" where
  "keeps p p' = (y_range p' = y_range p \<and> main_y_range p' = main_y_range p
                 \<and> main_y_range p \<noteq> None)"

text \<open>
  The values \<^verbatim>\<open>fvals\<close> that the \<^verbatim>\<open>if\<close>/\<^verbatim>\<open>elif\<close> chain of \<^verbatim>\<open>add_function\<close> and of
  \<^verbatim>\<open>mpl_plot_function\<close> assigns on the grid \<open>xv\<close> while the flag is \<open>n\<close>: the function
  without parameters, with plain parameters, or the means of its values under the flag
  1 with uncertain parameters. For an unrecognised source \<^verbatim>\<open>fvals\<close> is not assigned.
\<close>

definition sample_values :: "pyfun \<Rightarrow> int \<Rightarrow> real list \<Rightarrow> pars \<Rightarrow> error + real list" where
  "sample_values f n xv prs =
     (case prs of
        ParNone \<Rightarrow> call_plain f n xv None
      | ParMeas ms \<Rightarrow> bind (call_meas f 1 xv ms) (\<lambda>fmes. Inr (get_means fmes))
      | ParPlain ps \<Rightarrow> call_plain f n xv (Some ps)
      | ParOther \<Rightarrow> Inl (UnboundLocalError ''fvals''))"

text \<open>The user's function \<open>f\<close> with the parameters \<open>prs\<close>, the name \<open>fname\<close> and the
  colour \<open>color\<close> was drawn in the world \<open>w\<close> as the curve of its values on \<open>grid\<close>.\<close>

definition drawn_on ::
  "real list \<Rightarrow> int \<Rightarrow> world \<Rightarrow> pyfun \<times> pars \<times> string \<times> string \<Rightarrow> bool" where
  "drawn_on grid n w entry =
     (case entry of (f, prs, fname, color) \<Rightarrow>
        (\<exists>fvals. sample_values f n grid prs = Inr fvals
           \<and> PltPlot grid fvals color (Some fname) \<in> set (plt w)))"

text \<open>The call \<open>c\<close> to pyplot was made in the world of the result \<open>r\<close>.\<close>

definition draws :: "plt_call \<Rightarrow> real plot \<times> world \<Rightarrow> bool" where
  "draws c r = (c \<in> set (plt (snd r)))"

text \<open>What the matplotlib rendering leaves alone from one state to a later one: the
  x-range and its margin, the user's functions, the flag; and no call to pyplot is
  taken back.\<close>

definition mpl_keeps :: "real plot \<times> world \<Rightarrow> real plot \<times> world \<Rightarrow> bool" where
  "mpl_keeps a b =
     (x_range (fst b) = x_range (fst a)
      \<and> x_range_margin (fst b) = x_range_margin (fst a)
      \<and> user_functions (fst b) = user_functions (fst a)
      \<and> user_functions_pars (fst b) = user_functions_pars (fst a)
      \<and> user_functions_names (fst b) = user_functions_names (fst a)
      \<and> user_functions_colors (fst b) = user_functions_colors (fst a)
      \<and> minmax_n (snd b) = minmax_n (snd a)
      \<and> set (plt (snd a)) \<subseteq> set (plt (snd b)))"

section \<open>Sample inputs\<close>

text \<open>A dataset of two points that has not been fitted; its ranges are the extent of
  the points, widened by the margin on each side.\<close>

definition unfitted_dataset :: "string \<Rightarrow> real \<Rightarrow> real \<Rightarrow> real \<Rightarrow> real \<Rightarrow> dataset" where
  "unfitted_dataset nm x0 x1 y0 y1 =
     \<lparr> name = nm, ds_xname = ''x'', ds_xunits = ''m'', ds_yname = ''y'', ds_yunits = ''s'',
       xdata = [x0, x1], ydata = [y0, y1], xerr = [0, 0], yerr = [0, 0],
       is_histogram = False, hist_data = None, hist_bins = 0,
       nfits = 0, fit_function = [], fit_function_name = [], fit_pars = [],
       fit_npars = [], fit_yres = [], fit_pcorr = [],
       get_x_range = (\<lambda>m. (x0 - m, x1 + m)),
       get_y_range = (\<lambda>m. (y0 - m, y1 + m)),
       get_yres_range = (\<lambda>m. (- m, m)) \<rparr>"

text \<open>An empty plot, then the first \<^verbatim>\<open>add_dataset\<close>, of a dataset on \<open>[2, 3] \<times> [2, 3]\<close>.\<close>

definition first_attach :: "error + real plot" where
  "first_attach =
     bind (Plot_init [''red''] None)
       (\<lambda>p. add_dataset p (unfitted_dataset ''far'' 2 3 2 3) None None)"

text \<open>
  A stand-in for a straight line \<^verbatim>\<open>f(x, a, b) = a + b*x\<close>. With uncertain parameters it
  stands for the engine's single-sample propagation (the standard deviations add up,
  as for fully correlated parameters) and raises under any other value of the flag.
\<close>

definition linear :: pyfun where
  "linear =
     \<lparr> call_plain = (\<lambda>n xs ps. case ps of
                        Some [a, b] \<Rightarrow> Inr (map (\<lambda>x. a + b * x) xs)
                      | _ \<Rightarrow> Inl (CallError ''linear'')),
       call_meas = (\<lambda>n xs ms. case ms of
                        [a, b] \<Rightarrow>
                          (if n = 1
                           then Inr (map (\<lambda>x. \<lparr>mean = mean a + mean b * x,
                                                 std = std a + \<bar>x\<bar> * std b,
                                                 mstr = ''f''\<rparr>) xs)
                           else Inl (CallError ''sampling''))
                      | _ \<Rightarrow> Inl (CallError ''linear'')),
       at_point = (\<lambda>n x ps. case ps of
                        [a, b] \<Rightarrow> Inr (a + b * x)
                      | _ \<Rightarrow> Inl (CallError ''linear'')) \<rparr>"

text \<open>The parameters that the stand-in fit reports: offset \<open>1 \<plusminus> 1\<close>, slope \<open>2 \<plusminus> 0\<close>.\<close>

definition offset_par :: measurement where
  "offset_par = \<lparr>mean = 1, std = 1, mstr = ''linear_fit_offset''\<rparr>"

definition slope_par :: measurement where
  "slope_par = \<lparr>mean = 2, std = 0, mstr = ''linear_fit_slope''\<rparr>"

text \<open>The same two points, after one linear fit.\<close>

definition fitted_dataset :: "string \<Rightarrow> real \<Rightarrow> real \<Rightarrow> real \<Rightarrow> real \<Rightarrow> dataset" where
  "fitted_dataset nm x0 x1 y0 y1 =
     (unfitted_dataset nm x0 x1 y0 y1)
       \<lparr> nfits := 1, fit_function := [linear], fit_function_name := [''linear''],
         fit_pars := [[offset_par, slope_par]],
         fit_npars := [2],
         fit_yres := [[\<lparr>mean = 0, std = 0, mstr = ''r0''\<rparr>, \<lparr>mean = 0, std = 0, mstr = ''r1''\<rparr>]],
         fit_pcorr := [[[1, 0], [0, 1]]] \<rparr>"


text \<open>The plot that \<^verbatim>\<open>Plot(None)\<close> builds on a palette of two colours, and one with a
  dataset on \<open>[1, 10] \<times> [0, 5]\<close> attached by hand.\<close>

definition empty_plot :: "real plot" where
  "empty_plot =
     (Plot_fields [''red'', ''blue''])
       \<lparr> axes := [''xscale'' \<mapsto> ''linear'', ''yscale'' \<mapsto> ''linear''],
         labels := make_labels (Plot_fields [''red'', ''blue'']) \<rparr>"

definition one_dataset_plot :: "real plot" where
  "one_dataset_plot =
     empty_plot \<lparr> datasets := [unfitted_dataset ''data'' 1 10 0 5],
                  datasets_colors := [''red''], color_count := 1,
                  x_range := [1 / 2, 21 / 2], y_range := [- 1 / 2, 11 / 2] \<rparr>"

text \<open>A world in which the flag \<^verbatim>\<open>minmax_n\<close> is 7, nothing has been printed or drawn, and
  the engine is bokeh inside a notebook.\<close>

definition quiet_world :: world where
  "quiet_world =
     \<lparr> minmax_n = 7, printed = [], plt = [], bokeh = [],
       plot_engine = ''bokeh'',
       plot_engine_synonyms = [''bokeh'' \<mapsto> [''bokeh'', ''bk''], ''mpl'' \<mapsto> [''mpl'']],
       in_notebook = True, bokeh_ouput_notebook_called = True,
       mpl_ouput_notebook_called = True, mpl_output_notebook_calls = 0 \<rparr>"

text \<open>
  Stand-ins for the collaborators: the fit always reports the line \<open>1 + 2 x\<close> with the
  parameters above, an uncertain scalar is its mean and standard deviation, the linear
  sum is propagated as by \<open>linear\<close>, and \<^verbatim>\<open>qpu.bk_plot_function\<close> gives a line and a band
  on the two ends of the x-data.
\<close>

definition stand_ins :: collaborators where
  "stand_ins =
     \<lparr> clear_fits = (\<lambda>d. d\<lparr>nfits := 0, fit_function := [], fit_function_name := [],
                            fit_pars := [], fit_npars := [], fit_yres := [],
                            fit_pcorr := []\<rparr>),
       fit = (\<lambda>d model.
                if model = ''linear''
                then Inr (d\<lparr>nfits := nfits d + 1,
                           fit_function := fit_function d @ [linear],
                           fit_function_name := fit_function_name d @ [''linear''],
                           fit_pars := fit_pars d @ [[offset_par, slope_par]],
                           fit_npars := fit_npars d @ [2],
                           fit_yres := fit_yres d @ [[]],
                           fit_pcorr := fit_pcorr d @ [[[1, 0], [0, 1]]]\<rparr>)
                else Inl (CallError ''fit'')),
       Measurement = (\<lambda>n m s nm. \<lparr>mean = m, std = s,
                                   mstr = (case nm of None \<Rightarrow> ''unnamed'' | Some t \<Rightarrow> t)\<rparr>),
       linear_sum = (\<lambda>n a b c xs.
                       map (\<lambda>x. \<lparr>mean = mean a + mean b * x,
                                  std = (if n = 1 then std a + \<bar>x\<bar> * std b else 0),
                                  mstr = ''f''\<rparr>) xs),
       to_str = mstr,
       qpu_bk_plot_function = (\<lambda>n f xd prs k eb.
                       Inr (\<lparr>data_x = xd, data_y = map (\<lambda>x. 1 + 2 * x) xd\<rparr>,
                            \<lparr>data_x = xd @ rev xd, data_y = map (\<lambda>x. 1 + 2 * x) (xd @ rev xd)\<rparr>)) \<rparr>"

text \<open>A plot whose ranges hold Python values of any kind: numbers or strings.\<close>

datatype pyval = Num real | Str string


definition untyped_plot :: "pyval plot" where
  "untyped_plot = Plot_fields_of [Num 0, Num 1] [Num 0, Num 1] [''red'', ''blue'']"

text \<open>\<^verbatim>\<open>qu.array_types\<close>, taken to hold the list, the tuple and the ndarray.\<close>

definition array_types :: "pytype list" where
  "array_types = [TList, TTuple, TNdarray]"

text \<open>A callable that ignores its grid and gives one value, 3, with the standard
  deviation 1 when its parameters are uncertain; like \<open>linear\<close> it then raises under
  any value of the flag but 1.\<close>

definition flat :: pyfun where
  "flat =
     \<lparr> call_plain = (\<lambda>n xs ps. Inr [3]),
       call_meas = (\<lambda>n xs ms.
                      if n = 1 then Inr [\<lparr>mean = 3, std = 1, mstr = ''f''\<rparr>]
                      else Inl (CallError ''sampling'')),
       at_point = (\<lambda>n x ps. Inr 3) \<rparr>"

text \<open>The plot with one dataset after a linear fit was shown with bokeh: the line and
  the band are retained.\<close>

definition live_plot :: "real plot" where
  "live_plot =
     one_dataset_plot
       \<lparr> linear_fit_line := Some \<lparr>data_x = [0, 1], data_y = [1, 3]\<rparr>,
         linear_fit_patches := Some \<lparr>data_x = [0, 1, 1, 0], data_y = [2, 4, 2, 0]\<rparr>,
         linear_fit_pars := Some [offset_par, slope_par],
         linear_fit_corr := Some 0 \<rparr>"

text \<open>The plot with one dataset, fitted once.\<close>

definition fitted_plot :: "real plot" where
  "fitted_plot = one_dataset_plot \<lparr> datasets := [fitted_dataset ''data'' 1 10 0 5] \<rparr>"

text \<open>A callable that is 100 at \<open>1/2\<close> and 0 everywhere else, whatever its parameters.\<close>

definition spike :: pyfun where
  "spike =
     \<lparr> call_plain = (\<lambda>n xs ps. Inr (map (\<lambda>x. if x = 1 / 2 then 100 else 0) xs)),
       call_meas = (\<lambda>n xs ms. Inl (CallError ''spike'')),
       at_point = (\<lambda>n x ps. Inr (if x = 1 / 2 then 100 else 0)) \<rparr>"

text \<open>The empty plot after \<^verbatim>\<open>x_range_margin\<close> was set to 0.\<close>

definition tight_plot :: "real plot" where
  "tight_plot = empty_plot\<lparr>x_range_margin := 0\<rparr>"

text \<open>\<^verbatim>\<open>add_function(spike)\<close> on a plot, with the name and the colour left to the
  plot, then \<^verbatim>\<open>populate_mpl_figure()\<close>.\<close>

definition spike_drawn :: "real plot \<Rightarrow> error + real plot \<times> world" where
  "spike_drawn p =
     bind (add_function p quiet_world spike ParNone None None)
       (\<lambda>(p1, w1). populate_mpl_figure p1 w1 True)"

text \<open>The plot with one dataset on \<open>[1, 10] \<times> [-19/2, -3/2]\<close>, fitted once; its y-range
  is the extent of the y-data, widened by the margin \<open>1/2\<close> on each side.\<close>

definition negative_plot :: "real plot" where
  "negative_plot =
     one_dataset_plot \<lparr> datasets := [fitted_dataset ''data'' 1 10 (- 19 / 2) (- 3 / 2)],
                        y_range := [- 10, - 1] \<rparr>"

section \<open>The colour cursor\<close>

lemma bind_Inr [simp]: "bind (Inr v) f = f v"
  by (simp add: bind_def)

lemma bind_Inl [simp]: "bind (Inl e) f = Inl e"
  by (simp add: bind_def)

lemma py_get_nonneg:
  "0 \<le> i \<Longrightarrow> i < int (length xs) \<Longrightarrow> py_get xs i = Inr (xs ! nat i)"
  by (simp add: py_get_def py_index_def)

lemma get_color_step:
  assumes "color_palette p \<noteq> []" and "0 \<le> color_count p"
    and "color_count p \<le> int (length (color_palette p))"
  shows "\<exists>p1. get_color_from_palette p
            = Inr (color_palette p ! (nat (color_count p) mod length (color_palette p)), p1)
          \<and> color_palette p1 = color_palette p
          \<and> 0 \<le> color_count p1 \<and> color_count p1 \<le> int (length (color_palette p))
          \<and> nat (color_count p1) mod length (color_palette p)
              = Suc (nat (color_count p)) mod length (color_palette p)"
proof (cases "color_count p = int (length (color_palette p))")
  case True
  have len: "0 < length (color_palette p)" using assms(1) by simp
  have "py_get (color_palette p) 0 = Inr (color_palette p ! 0)"
    using len by (simp add: py_get_nonneg)
  moreover have "Suc (length (color_palette p)) mod length (color_palette p)
      = Suc 0 mod length (color_palette p)"
    by (metis mod_Suc_eq mod_self)
  ultimately show ?thesis
    using True len by (simp add: get_color_from_palette_def Let_def Suc_le_eq)
next
  case False
  with assms have lt: "color_count p < int (length (color_palette p))" by simp
  have idx: "py_get (color_palette p) (color_count p)
      = Inr (color_palette p ! nat (color_count p))"
    using assms(2) lt by (simp add: py_get_nonneg)
  have m: "nat (color_count p) mod length (color_palette p) = nat (color_count p)"
    using assms(2) lt by simp
  have n: "nat (color_count p + 1) = Suc (nat (color_count p))"
    using assms(2) by simp
  from lt idx m n assms(2) show ?thesis
    by (simp add: get_color_from_palette_def Let_def)
qed

lemma assign_colors_cycle:
  assumes "color_palette p \<noteq> []" and "0 \<le> color_count p"
    and "color_count p \<le> int (length (color_palette p))"
  shows "\<exists>p'. assign_colors k p
      = Inr (map (\<lambda>i. color_palette p ! ((nat (color_count p) + i) mod length (color_palette p)))
               [0..<k], p')"
  using assms
proof (induction k arbitrary: p)
  case 0
  then show ?case by simp
next
  case (Suc k)
  from get_color_step [OF Suc.prems] obtain p1 where
    g: "get_color_from_palette p
          = Inr (color_palette p ! (nat (color_count p) mod length (color_palette p)), p1)"
    and pal: "color_palette p1 = color_palette p"
    and lo: "0 \<le> color_count p1"
    and hi: "color_count p1 \<le> int (length (color_palette p))"
    and md: "nat (color_count p1) mod length (color_palette p)
              = Suc (nat (color_count p)) mod length (color_palette p)"
    by blast
  from Suc.IH [of p1] pal lo hi Suc.prems(1) obtain p' where
    r: "assign_colors k p1
      = Inr (map (\<lambda>i. color_palette p ! ((nat (color_count p1) + i) mod length (color_palette p)))
               [0..<k], p')"
    by auto
  have shift: "(nat (color_count p1) + i) mod length (color_palette p)
      = (nat (color_count p) + Suc i) mod length (color_palette p)" for i
    by (metis md add_Suc add_Suc_right mod_add_left_eq)
  have "map (\<lambda>i. color_palette p ! ((nat (color_count p) + i) mod length (color_palette p)))
          [0..<Suc k]
      = color_palette p ! (nat (color_count p) mod length (color_palette p))
        # map (\<lambda>i. color_palette p ! ((nat (color_count p1) + i) mod length (color_palette p)))
            [0..<k]"
    unfolding shift by (simp add: upt_conv_Cons map_Suc_upt [symmetric] del: upt_Suc)
  with g r show ?case by simp
qed

text \<open>
  C3. On a plot whose palette has \<open>N \<ge> 1\<close> colours and whose cursor is at its initial
  value, \<open>N + 1\<close> automatic assignments succeed and return the whole palette followed by
  the colour at index 0 again; and any number of assignments succeeds and returns only
  colours of the palette.
\<close>

theorem color_cursor_wraps:
  assumes "color_palette p \<noteq> []" and "color_count p = 0"
  shows "(\<exists>p'. assign_colors (length (color_palette p) + 1) p
            = Inr (color_palette p @ [color_palette p ! 0], p'))
       \<and> (\<forall>k. \<exists>cs p'. assign_colors k p = Inr (cs, p')
            \<and> length cs = k \<and> set cs \<subseteq> set (color_palette p))"
proof
  let ?pal = "color_palette p"
  let ?n = "length ?pal"
  have n: "0 < ?n" using assms(1) by simp
  from assign_colors_cycle [of p "?n + 1"] assms obtain p' where
    r: "assign_colors (?n + 1) p = Inr (map (\<lambda>i. ?pal ! (i mod ?n)) [0..<?n + 1], p')"
    by auto
  have "map (\<lambda>i. ?pal ! (i mod ?n)) [0..<?n] = map (\<lambda>i. ?pal ! i) [0..<?n]"
    by (rule map_cong) simp_all
  then have "map (\<lambda>i. ?pal ! (i mod ?n)) [0..<?n + 1] = ?pal @ [?pal ! 0]"
    by (simp add: map_nth)
  with r show "\<exists>p'. assign_colors (?n + 1) p = Inr (?pal @ [?pal ! 0], p')" by auto
next
  let ?pal = "color_palette p"
  let ?n = "length ?pal"
  have n: "0 < ?n" using assms(1) by simp
  show "\<forall>k. \<exists>cs p'. assign_colors k p = Inr (cs, p') \<and> length cs = k \<and> set cs \<subseteq> set ?pal"
  proof
    fix k
    from assign_colors_cycle [of p k] assms obtain p' where
      r: "assign_colors k p = Inr (map (\<lambda>i. ?pal ! (i mod ?n)) [0..<k], p')"
      by auto
    have "set (map (\<lambda>i. ?pal ! (i mod ?n)) [0..<k]) \<subseteq> set ?pal"
      using n by auto
    with r show "\<exists>cs p'. assign_colors k p = Inr (cs, p') \<and> length cs = k \<and> set cs \<subseteq> set ?pal"
      by auto
  qed
qed

text \<open>The theorem at a palette of two colours: the third assignment returns the first
  colour again.\<close>

theorem color_cursor_wraps_witness:
  "color_palette (Plot_fields [''red'', ''blue'']) \<noteq> []
   \<and> color_count (Plot_fields [''red'', ''blue'']) = 0
   \<and> (\<exists>p'. assign_colors 3 (Plot_fields [''red'', ''blue''])
              = Inr ([''red'', ''blue'', ''red''], p'))"
  using color_cursor_wraps [of "Plot_fields [''red'', ''blue'']"]
  by (simp add: Plot_fields_def Plot_fields_of_def numeral_3_eq_3)

section \<open>Ranges under add_dataset\<close>

lemma set_yres_fold:
  "\<exists>r. fold (\<lambda>d q. if nfits d > 0
                  then q\<lparr>yres_range := Some (range_list (get_yres_range d (y_range_margin q)))\<rparr>
                  else q) ds (p\<lparr>yres_range := r0\<rparr>) = p\<lparr>yres_range := r\<rparr>"
  by (induction ds arbitrary: r0) auto

lemma set_yres_range_from_fits_only:
  "\<exists>r. set_yres_range_from_fits p = p\<lparr>yres_range := r\<rparr>"
  using set_yres_fold [where ds="datasets p" and p=p and ?r0.0="yres_range p"]
  by (simp add: set_yres_range_from_fits_def)

lemma get_color_ok:
  assumes "color_palette p \<noteq> []" and "0 \<le> color_count p"
    and "color_count p \<le> int (length (color_palette p))"
  shows "\<exists>c k. get_color_from_palette p = Inr (c, p\<lparr>color_count := k\<rparr>)
          \<and> 0 \<le> k \<and> k \<le> int (length (color_palette p))"
proof -
  let ?n = "int (length (color_palette p))"
  let ?k = "if color_count p + 1 > ?n then 1 else color_count p + 1"
  have n: "1 \<le> ?n" using assms(1) by (cases "color_palette p") simp_all
  have k: "1 \<le> ?k" "?k \<le> ?n" using assms n by auto
  then have "py_get (color_palette p) (?k - 1) = Inr (color_palette p ! nat (?k - 1))"
    by (intro py_get_nonneg) auto
  then show ?thesis using k
    by (auto simp add: get_color_from_palette_def Let_def)
qed

lemma widen_lo_ok:
  "length r = 2 \<Longrightarrow> widen_lo r v = Inr [min (r ! 0) v, r ! 1]"
  by (cases r; cases "tl r") (auto simp: widen_lo_def py_get_def py_set_def py_index_def min_def)

lemma widen_hi_ok:
  "length r = 2 \<Longrightarrow> widen_hi r v = Inr [r ! 0, max (r ! 1) v]"
  by (cases r; cases "tl r") (auto simp: widen_hi_def py_get_def py_set_def py_index_def max_def)

lemma initialize_from_dataset_fields:
  "\<exists>r. initialize_from_dataset p d =
     p\<lparr>xunits := ds_xunits d, xname := ds_xname d, yunits := ds_yunits d,
        yname := ds_yname d, title := name d,
        labels := make_labels (p\<lparr>xunits := ds_xunits d, xname := ds_xname d,
                   yunits := ds_yunits d, yname := ds_yname d, title := name d\<rparr>),
        x_range := range_list (get_x_range d (x_range_margin p)),
        y_range := range_list (get_y_range d (y_range_margin p)),
        yres_range := r, initialized_from_dataset := True\<rparr>"
proof -
  let ?q = "p\<lparr>xunits := ds_xunits d, xname := ds_xname d, yunits := ds_yunits d,
        yname := ds_yname d, title := name d,
        labels := make_labels (p\<lparr>xunits := ds_xunits d, xname := ds_xname d,
                   yunits := ds_yunits d, yname := ds_yname d, title := name d\<rparr>),
        x_range := range_list (get_x_range d (x_range_margin p)),
        y_range := range_list (get_y_range d (y_range_margin p))\<rparr>"
  obtain r where "set_yres_range_from_fits ?q = ?q\<lparr>yres_range := r\<rparr>"
    using set_yres_range_from_fits_only by blast
  then show ?thesis
    by (auto simp: initialize_from_dataset_def set_range_from_dataset_def Let_def)
qed

lemma list_all_rename_last:
  assumes "\<And>e. P (e\<lparr>name := n\<rparr>) = P e" and "j < length xs"
  shows "list_all P (xs[j := (xs ! j)\<lparr>name := n\<rparr>]) = list_all P xs"
  using assms(2)
proof (induction xs arbitrary: j)
  case Nil
  then show ?case by simp
next
  case (Cons x xs)
  then show ?case by (cases j) (simp_all add: assms(1))
qed

lemma covers_min_max:
  "length r = 2 \<Longrightarrow> covers r b \<Longrightarrow> covers [min (r ! 0) v, max (r ! 1) w] b"
  by (auto simp: covers_def)

lemma add_dataset_step:
  assumes "plot_ok p"
  shows "\<exists>p'. add_dataset p d color nm = Inr p' \<and> plot_ok p'
          \<and> length (datasets p') = Suc (length (datasets p))
          \<and> x_range_margin p' = x_range_margin p \<and> y_range_margin p' = y_range_margin p
          \<and> (datasets p \<noteq> [] \<longrightarrow>
                widened (x_range p) (x_range p') \<and> widened (y_range p) (y_range p'))
          \<and> (\<forall>P. name_blind P \<longrightarrow>
                list_all P (datasets p') = (list_all P (datasets p) \<and> P d))
          \<and> (datasets p = [] \<longrightarrow>
                x_range p' = range_list (get_x_range d (x_range_margin p))
                \<and> y_range p' = range_list (get_y_range d (y_range_margin p)))"
proof -
  let ?xr = "get_x_range d (x_range_margin p)"
  let ?yr = "get_y_range d (y_range_margin p)"
  define p1 where "p1 = p\<lparr>datasets := datasets p @ [d]\<rparr>"
  define p2 where "p2 = (if length (datasets p1) < 2 then initialize_from_dataset p1 d else p1)"
  define bx where "bx = (if datasets p = [] then range_list ?xr else x_range p)"
  define by' where "by' = (if datasets p = [] then range_list ?yr else y_range p)"
  from assms have ok: "color_palette p \<noteq> []" "0 \<le> color_count p"
    "color_count p \<le> int (length (color_palette p))"
    "length (x_range p) = 2" "length (y_range p) = 2" "ranges_cover p"
    by (simp_all add: plot_ok_def)
  obtain r where init: "initialize_from_dataset p1 d =
     p1\<lparr>xunits := ds_xunits d, xname := ds_xname d, yunits := ds_yunits d,
        yname := ds_yname d, title := name d,
        labels := make_labels (p1\<lparr>xunits := ds_xunits d, xname := ds_xname d,
                   yunits := ds_yunits d, yname := ds_yname d, title := name d\<rparr>),
        x_range := range_list (get_x_range d (x_range_margin p1)),
        y_range := range_list (get_y_range d (y_range_margin p1)),
        yres_range := r, initialized_from_dataset := True\<rparr>"
    using initialize_from_dataset_fields by blast
  have lt2: "(length (datasets p1) < 2) = (datasets p = [])"
    by (cases "datasets p") (simp_all add: p1_def)
  have p2: "color_palette p2 = color_palette p" "color_count p2 = color_count p"
    "datasets p2 = datasets p @ [d]" "x_range p2 = bx" "y_range p2 = by'"
    "x_range_margin p2 = x_range_margin p" "y_range_margin p2 = y_range_margin p"
    unfolding p2_def lt2 bx_def by'_def by (simp_all add: init) (simp_all add: p1_def)
  obtain p3 where p3: "(case color of
                 None \<Rightarrow> bind (get_color_from_palette p2)
                           (\<lambda>(c, q). Inr (q\<lparr>datasets_colors := datasets_colors q @ [c]\<rparr>))
               | Some c \<Rightarrow> Inr (p2\<lparr>datasets_colors := datasets_colors p2 @ [c]\<rparr>)) = Inr p3"
    and p3f: "color_palette p3 = color_palette p" "0 \<le> color_count p3"
    "color_count p3 \<le> int (length (color_palette p))"
    "datasets p3 = datasets p @ [d]" "x_range p3 = bx" "y_range p3 = by'"
    "x_range_margin p3 = x_range_margin p" "y_range_margin p3 = y_range_margin p"
  proof (cases color)
    case None
    from get_color_ok [of p2] ok p2 obtain c k where
      "get_color_from_palette p2 = Inr (c, p2\<lparr>color_count := k\<rparr>)"
      "0 \<le> k" "k \<le> int (length (color_palette p))" by auto
    with None p2 that [of "p2\<lparr>color_count := k, datasets_colors := datasets_colors p2 @ [c]\<rparr>"]
    show ?thesis by simp
  next
    case (Some c)
    with ok p2 that [of "p2\<lparr>datasets_colors := datasets_colors p2 @ [c]\<rparr>"]
    show ?thesis by simp
  qed
  have last_idx: "py_index (datasets p3) (- 1) = Inr (length (datasets p))"
    by (simp add: py_index_def p3f)
  obtain p4 where p4: "(case nm of
                      None \<Rightarrow> Inr p3
                    | Some n \<Rightarrow> bind (py_index (datasets p3) (- 1))
                        (\<lambda>j. Inr (p3\<lparr>datasets :=
                                 (datasets p3)[j := (datasets p3 ! j)\<lparr>name := n\<rparr>]\<rparr>))) = Inr p4"
    and p4f: "color_palette p4 = color_palette p" "0 \<le> color_count p4"
    "color_count p4 \<le> int (length (color_palette p))"
    "x_range p4 = bx" "y_range p4 = by'"
    "x_range_margin p4 = x_range_margin p" "y_range_margin p4 = y_range_margin p"
    "length (datasets p4) = Suc (length (datasets p))"
    and p4c: "\<And>P. name_blind P \<Longrightarrow>
        list_all P (datasets p4) = (list_all P (datasets p) \<and> P d)"
  proof (cases nm)
    case None
    with p3f that [of p3] show ?thesis by simp
  next
    case (Some n)
    let ?q = "p3\<lparr>datasets := (datasets p3)[length (datasets p) :=
                  (datasets p3 ! length (datasets p))\<lparr>name := n\<rparr>]\<rparr>"
    have "list_all P (datasets ?q) = (list_all P (datasets p) \<and> P d)"
      if "name_blind P" for P
      using that by (simp add: p3f name_blind_def list_all_rename_last)
    with Some last_idx p3f that [of ?q] show ?thesis by simp
  qed
  have lbx: "length bx = 2" and lby: "length by' = 2"
    using ok by (simp_all add: bx_def by'_def range_list_def)
  obtain y where yres: "set_yres_range_from_fits
        (p4\<lparr>x_range := [min (bx ! 0) (fst ?xr), max (bx ! 1) (snd ?xr)],
            y_range := [min (by' ! 0) (fst ?yr), max (by' ! 1) (snd ?yr)]\<rparr>)
      = p4\<lparr>x_range := [min (bx ! 0) (fst ?xr), max (bx ! 1) (snd ?xr)],
            y_range := [min (by' ! 0) (fst ?yr), max (by' ! 1) (snd ?yr)], yres_range := y\<rparr>"
    using set_yres_range_from_fits_only by blast
  let ?p' = "p4\<lparr>x_range := [min (bx ! 0) (fst ?xr), max (bx ! 1) (snd ?xr)],
            y_range := [min (by' ! 0) (fst ?yr), max (by' ! 1) (snd ?yr)], yres_range := y\<rparr>"
  have res: "add_dataset p d color nm = Inr ?p'"
    unfolding add_dataset_def Let_def p1_def [symmetric] p2_def [symmetric] p3 bind_Inr p4
    using yres by (simp add: p4f widen_lo_ok widen_hi_ok lbx lby)
  have old: "list_all (\<lambda>e. covers bx (get_x_range e (x_range_margin p))
                 \<and> covers by' (get_y_range e (y_range_margin p))) (datasets p)"
    using ok(6)
    by (cases "datasets p = []")
       (simp_all add: bx_def by'_def ranges_cover_def list_all_iff covered_def)
  have new: "covers [min (bx ! 0) (fst ?xr), max (bx ! 1) (snd ?xr)] ?xr"
    "covers [min (by' ! 0) (fst ?yr), max (by' ! 1) (snd ?yr)] ?yr"
    by (simp_all add: covers_def)
  have nb: "name_blind (covered ?p')"
    by (simp add: name_blind_def covered_def)
  have "covered ?p' e" if "e \<in> set (datasets p)" for e
    using old that lbx lby by (auto simp: list_all_iff covered_def covers_def p4f)
  moreover have "covered ?p' d"
    using new by (simp add: covered_def p4f)
  ultimately have "list_all (covered ?p') (datasets p) \<and> covered ?p' d"
    by (simp add: list_all_iff)
  then have "ranges_cover ?p'"
    using p4c [OF nb] by (simp add: ranges_cover_def)
  moreover have "datasets p \<noteq> [] \<longrightarrow>
      widened (x_range p) (x_range ?p') \<and> widened (y_range p) (y_range ?p')"
    using ok by (simp add: bx_def by'_def widened_def covers_def)
  moreover have "\<forall>P. name_blind P \<longrightarrow>
      list_all P (datasets ?p') = (list_all P (datasets p) \<and> P d)"
    using p4c by simp
  moreover have "datasets p = [] \<longrightarrow>
      x_range ?p' = range_list ?xr \<and> y_range ?p' = range_list ?yr"
    by (simp add: bx_def by'_def range_list_def)
  ultimately show ?thesis
    using res ok by (simp add: plot_ok_def p4f)
qed

lemma Plot_fields_sel:
  "color_palette (Plot_fields pal) = pal" "color_count (Plot_fields pal) = 0"
  "datasets (Plot_fields pal) = []" "x_range (Plot_fields pal) = [0, 1]"
  "y_range (Plot_fields pal) = [0, 1]"
  by (simp_all add: Plot_fields_def Plot_fields_of_def)

lemma Plot_init_ok:
  assumes "palette \<noteq> []"
  shows "\<exists>p0. Plot_init palette dataset = Inr p0 \<and> plot_ok p0
    \<and> datasets p0 = (case dataset of None \<Rightarrow> [] | Some d \<Rightarrow> [d])"
proof (cases dataset)
  case None
  with assms show ?thesis
    by (simp add: Plot_init_def Plot_fields_sel plot_ok_def ranges_cover_def)
next
  case (Some d)
  let ?p1 = "(Plot_fields palette)\<lparr>datasets := [d]\<rparr>"
  from get_color_ok [of ?p1] assms obtain c k where
    g: "get_color_from_palette ?p1 = Inr (c, ?p1\<lparr>color_count := k\<rparr>)"
    and k: "0 \<le> k" "k \<le> int (length palette)"
    by (auto simp: Plot_fields_sel)
  let ?p2 = "?p1\<lparr>color_count := k, datasets_colors := datasets_colors ?p1 @ [c]\<rparr>"
  obtain r where init: "initialize_from_dataset ?p2 d =
     ?p2\<lparr>xunits := ds_xunits d, xname := ds_xname d, yunits := ds_yunits d,
        yname := ds_yname d, title := name d,
        labels := make_labels (?p2\<lparr>xunits := ds_xunits d, xname := ds_xname d,
                   yunits := ds_yunits d, yname := ds_yname d, title := name d\<rparr>),
        x_range := range_list (get_x_range d (x_range_margin ?p2)),
        y_range := range_list (get_y_range d (y_range_margin ?p2)),
        yres_range := r, initialized_from_dataset := True\<rparr>"
    using initialize_from_dataset_fields by blast
  show ?thesis
    using Some g k assms init
    by (simp add: Plot_init_def Let_def plot_ok_def ranges_cover_def Plot_fields_sel
        covered_def range_list_def covers_def)
qed

lemma add_dataset_calls_ok:
  assumes "plot_ok p"
  shows "\<exists>p'. add_dataset_calls p cs = Inr p' \<and> plot_ok p'
     \<and> length (datasets p') = length (datasets p) + length cs
     \<and> (\<forall>P. name_blind P \<longrightarrow>
           list_all P (datasets p') = (list_all P (datasets p) \<and> list_all P (map fst cs)))"
  using assms
proof (induction cs arbitrary: p)
  case Nil
  then show ?case by simp
next
  case (Cons c cs)
  obtain d color nm where c: "c = (d, color, nm)" by (cases c)
  from add_dataset_step [OF Cons.prems, of d color nm] obtain p1 where
    s: "add_dataset p d color nm = Inr p1" and ok1: "plot_ok p1"
    and l1: "length (datasets p1) = Suc (length (datasets p))"
    and k1: "\<forall>P. name_blind P \<longrightarrow>
                list_all P (datasets p1) = (list_all P (datasets p) \<and> P d)"
    by blast
  from Cons.IH [OF ok1] obtain p' where
    r: "add_dataset_calls p1 cs = Inr p'" and ok': "plot_ok p'"
    and l': "length (datasets p') = length (datasets p1) + length cs"
    and k': "\<forall>P. name_blind P \<longrightarrow>
           list_all P (datasets p') = (list_all P (datasets p1) \<and> list_all P (map fst cs))"
    by blast
  have "list_all P (datasets p') = (list_all P (datasets p) \<and> list_all P (map fst (c # cs)))"
    if "name_blind P" for P
    using that k' k1 by (simp add: c)
  with s r ok' l1 l' show ?case by (simp add: c)
qed

text \<open>
  C2 (as amended). Take a plot made by the constructor, with or without a dataset, any
  sequence of \<^verbatim>\<open>add_dataset\<close> calls on it and one more call. All of them return, the
  ranges after the last call contain the margin-expanded bounding box of every dataset
  attached so far, and, unless that call attached the plot's first dataset, it only
  widened both ranges. When it did attach the plot's first dataset, both ranges are
  that dataset's margin-expanded ranges afterwards, whatever they were before.
\<close>

theorem add_dataset_ranges:
  assumes "palette \<noteq> []"
  shows "\<exists>p0 p1 p2. Plot_init palette dataset = Inr p0
          \<and> add_dataset_calls p0 cs = Inr p1
          \<and> add_dataset p1 d color nm = Inr p2
          \<and> list_all (covered p2) (attached dataset cs @ [d])
          \<and> (attached dataset cs \<noteq> [] \<longrightarrow>
                widened (x_range p1) (x_range p2) \<and> widened (y_range p1) (y_range p2))
          \<and> (attached dataset cs = [] \<longrightarrow>
                x_range p2 = range_list (get_x_range d (x_range_margin p1))
                \<and> y_range p2 = range_list (get_y_range d (y_range_margin p1)))"
proof -
  from Plot_init_ok [OF assms] obtain p0 where
    i: "Plot_init palette dataset = Inr p0" and ok0: "plot_ok p0"
    and d0: "datasets p0 = (case dataset of None \<Rightarrow> [] | Some d \<Rightarrow> [d])"
    by blast
  from add_dataset_calls_ok [OF ok0] obtain p1 where
    r: "add_dataset_calls p0 cs = Inr p1" and ok1: "plot_ok p1"
    and l1: "length (datasets p1) = length (datasets p0) + length cs"
    and k1: "\<forall>P. name_blind P \<longrightarrow>
           list_all P (datasets p1) = (list_all P (datasets p0) \<and> list_all P (map fst cs))"
    by blast
  from add_dataset_step [OF ok1, of d color nm] obtain p2 where
    s: "add_dataset p1 d color nm = Inr p2" and ok2: "plot_ok p2"
    and w: "datasets p1 \<noteq> [] \<longrightarrow>
                widened (x_range p1) (x_range p2) \<and> widened (y_range p1) (y_range p2)"
    and k2: "\<forall>P. name_blind P \<longrightarrow>
                list_all P (datasets p2) = (list_all P (datasets p1) \<and> P d)"
    and fst_att: "datasets p1 = [] \<longrightarrow>
                x_range p2 = range_list (get_x_range d (x_range_margin p1))
                \<and> y_range p2 = range_list (get_y_range d (y_range_margin p1))"
    by blast
  have nb: "name_blind (covered p2)"
    by (simp add: name_blind_def covered_def)
  have "list_all (covered p2) (datasets p2)"
    using ok2 by (simp add: plot_ok_def ranges_cover_def)
  then have "list_all (covered p2) (datasets p1) \<and> covered p2 d"
    using k2 nb by simp
  then have c: "list_all (covered p2) (attached dataset cs @ [d])"
    using k1 nb d0 by (simp add: attached_def)
  have "length (datasets p1) = length (attached dataset cs)"
    using l1 d0 by (simp add: attached_def split: option.splits)
  then have "(attached dataset cs = []) = (datasets p1 = [])"
    by auto
  with i r s c w fst_att show ?thesis by blast
qed

lemma py_simps:
  "py_get [a, b] 0 = Inr a" "py_get [a, b] 1 = Inr b" "py_get [a] 0 = Inr a"
  "py_get [a] (- 1) = Inr a" "py_get [a, b] (- 1) = Inr b"
  "py_set [a, b] 0 v = Inr [v, b]" "py_set [a, b] 1 v = Inr [a, v]"
  by (simp_all add: py_get_def py_set_def py_index_def)

lemma run_second_attach:
  "\<exists>p1 p2. Plot_init [''red''] (Some (unfitted_dataset ''near'' 0 10 0 5)) = Inr p1
      \<and> x_range p1 = [- 1 / 2, 21 / 2] \<and> y_range p1 = [- 1 / 2, 11 / 2]
      \<and> add_dataset p1 (unfitted_dataset ''far'' 20 30 20 30) None None = Inr p2
      \<and> x_range p2 = [- 1 / 2, 61 / 2] \<and> y_range p2 = [- 1 / 2, 61 / 2]"
  by (simp add: Plot_init_def Plot_fields_def Plot_fields_of_def add_dataset_def
      initialize_from_dataset_def set_range_from_dataset_def set_yres_range_from_fits_def
      get_color_from_palette_def unfitted_dataset_def range_list_def widen_lo_def widen_hi_def
      py_simps Let_def make_labels_def)

text \<open>
  The theorem at a plot built on a dataset on \<open>[0, 10] \<times> [0, 5]\<close>, to which a dataset
  on \<open>[20, 30] \<times> [20, 30]\<close> is added: the ranges \<open>[-1/2, 21/2]\<close> and \<open>[-1/2, 11/2]\<close>
  widen to \<open>[-1/2, 61/2]\<close>; and at an empty plot, to which the second dataset is
  added first: both ranges become \<open>[39/2, 61/2]\<close>.
\<close>

theorem add_dataset_ranges_witness:
  "[''red''] \<noteq> []
   \<and> attached (Some (unfitted_dataset ''near'' 0 10 0 5)) [] \<noteq> []
   \<and> attached None [] = []
   \<and> (\<exists>p0 p1 p2. Plot_init [''red''] (Some (unfitted_dataset ''near'' 0 10 0 5)) = Inr p0
          \<and> add_dataset_calls p0 [] = Inr p1
          \<and> add_dataset p1 (unfitted_dataset ''far'' 20 30 20 30) None None = Inr p2
          \<and> list_all (covered p2)
               [unfitted_dataset ''near'' 0 10 0 5, unfitted_dataset ''far'' 20 30 20 30]
          \<and> widened (x_range p1) (x_range p2) \<and> widened (y_range p1) (y_range p2)
          \<and> x_range p1 = [- 1 / 2, 21 / 2] \<and> y_range p1 = [- 1 / 2, 11 / 2]
          \<and> x_range p2 = [- 1 / 2, 61 / 2] \<and> y_range p2 = [- 1 / 2, 61 / 2])
   \<and> (\<exists>p0 p1 p2. Plot_init [''red''] None = Inr p0
          \<and> add_dataset_calls p0 [] = Inr p1
          \<and> add_dataset p1 (unfitted_dataset ''far'' 20 30 20 30) None None = Inr p2
          \<and> x_range p2 = [39 / 2, 61 / 2] \<and> y_range p2 = [39 / 2, 61 / 2])"
proof -
  have m: "x_range_margin p = 1 / 2 \<and> y_range_margin p = 1 / 2"
    if "Plot_init [''red''] None = Inr p" for p
    using that by (auto simp: Plot_init_def Plot_fields_def Plot_fields_of_def)
  obtain q1 q2 where
    q: "Plot_init [''red''] (Some (unfitted_dataset ''near'' 0 10 0 5)) = Inr q1"
      "x_range q1 = [- 1 / 2, 21 / 2]" "y_range q1 = [- 1 / 2, 11 / 2]"
      "add_dataset q1 (unfitted_dataset ''far'' 20 30 20 30) None None = Inr q2"
      "x_range q2 = [- 1 / 2, 61 / 2]" "y_range q2 = [- 1 / 2, 61 / 2]"
    using run_second_attach by blast
  from add_dataset_ranges [of "[''red'']" "Some (unfitted_dataset ''near'' 0 10 0 5)" "[]"
      "unfitted_dataset ''far'' 20 30 20 30" None None] q
  have a: "\<exists>p0 p1 p2. Plot_init [''red''] (Some (unfitted_dataset ''near'' 0 10 0 5)) = Inr p0
          \<and> add_dataset_calls p0 [] = Inr p1
          \<and> add_dataset p1 (unfitted_dataset ''far'' 20 30 20 30) None None = Inr p2
          \<and> list_all (covered p2)
               [unfitted_dataset ''near'' 0 10 0 5, unfitted_dataset ''far'' 20 30 20 30]
          \<and> widened (x_range p1) (x_range p2) \<and> widened (y_range p1) (y_range p2)
          \<and> x_range p1 = [- 1 / 2, 21 / 2] \<and> y_range p1 = [- 1 / 2, 11 / 2]
          \<and> x_range p2 = [- 1 / 2, 61 / 2] \<and> y_range p2 = [- 1 / 2, 61 / 2]"
    by (auto simp: attached_def)
  from add_dataset_ranges [of "[''red'']" None "[]"
      "unfitted_dataset ''far'' 20 30 20 30" None None]
  obtain p0 p2 where i: "Plot_init [''red''] None = Inr p0"
    and s: "add_dataset p0 (unfitted_dataset ''far'' 20 30 20 30) None None = Inr p2"
    and x: "x_range p2
        = range_list (get_x_range (unfitted_dataset ''far'' 20 30 20 30) (x_range_margin p0))"
    and y: "y_range p2
        = range_list (get_y_range (unfitted_dataset ''far'' 20 30 20 30) (y_range_margin p0))"
    by (auto simp: attached_def)
  from x y m [OF i] have "x_range p2 = [39 / 2, 61 / 2]" "y_range p2 = [39 / 2, 61 / 2]"
    by (simp_all add: unfitted_dataset_def range_list_def)
  with i s have b: "\<exists>p0 p1 p2. Plot_init [''red''] None = Inr p0
          \<and> add_dataset_calls p0 [] = Inr p1
          \<and> add_dataset p1 (unfitted_dataset ''far'' 20 30 20 30) None None = Inr p2
          \<and> x_range p2 = [39 / 2, 61 / 2] \<and> y_range p2 = [39 / 2, 61 / 2]"
    by auto
  from a b show ?thesis by (simp add: attached_def)
qed

text \<open>
  C2 as stated fails on the first attachment to an empty plot: the default ranges
  \<open>[0, 1]\<close> become \<open>[3/2, 7/2]\<close>, which does not contain them.
\<close>

theorem first_attach_replaces_range:
  "map_sum id (\<lambda>p. (x_range p, y_range p)) (Plot_init [''red''] None) = Inr ([0, 1], [0, 1])
   \<and> map_sum id (\<lambda>p. (x_range p, y_range p)) first_attach
       = Inr ([3 / 2, 7 / 2], [3 / 2, 7 / 2])
   \<and> \<not> widened [0, 1] [3 / 2, 7 / 2]"
  by (simp add: first_attach_def Plot_init_def Plot_fields_def Plot_fields_of_def add_dataset_def
      initialize_from_dataset_def set_range_from_dataset_def set_yres_range_from_fits_def
      get_color_from_palette_def unfitted_dataset_def range_list_def widen_lo_def widen_hi_def
      py_simps Let_def widened_def covers_def)

section \<open>Residuals\<close>





text \<open>With no dataset attached, \<^verbatim>\<open>self.datasets[-1]\<close> raises.\<close>

lemma add_residuals_no_dataset_raises:
  "add_residuals empty_plot = Inl IndexError"
  by (simp add: add_residuals_def empty_plot_def Plot_fields_def Plot_fields_of_def
      set_yres_range_from_fits_def py_get_def py_index_def)

section \<open>Unrecognised parameter sources\<close>

lemma bind_always_raises:
  assumes "\<And>v. \<exists>e. f v = Inl e"
  shows "\<exists>e. bind r f = Inl e"
  using assms by (cases r) simp_all

text \<open>
  C5. \<^verbatim>\<open>mpl_plot_function\<close> with a parameter source that is neither absent, a
  \<^verbatim>\<open>Measurement_Array\<close>, a list nor an ndarray never returns: on every plot and every
  argument an exception leaves it, and on the empty plot that exception is the
  UnboundLocalError of the local \<^verbatim>\<open>fvals\<close>, read by \<^verbatim>\<open>plt.plot\<close> after the message was
  printed.
\<close>

theorem mpl_plot_function_unrecognised_pars:
  "(\<exists>e. mpl_plot_function p w f xd ParOther n lg col eb = Inl e)
   \<and> mpl_plot_function empty_plot quiet_world linear [0, 1] ParOther 2 None ''black'' 1
       = Inl (UnboundLocalError ''fvals'')"
proof
  show "\<exists>e. mpl_plot_function p w f xd ParOther n lg col eb = Inl e"
    unfolding mpl_plot_function_def
    by (intro bind_always_raises) (auto simp: Let_def intro!: bind_always_raises)
next
  show "mpl_plot_function empty_plot quiet_world linear [0, 1] ParOther 2 None ''black'' 1
       = Inl (UnboundLocalError ''fvals'')"
    by (simp add: mpl_plot_function_def initialize_mpl_figure_def empty_plot_def
        Plot_fields_def Plot_fields_of_def make_labels_def axis_limits_def py_lookup_def
        mpl_plot_function_xvals_def py_min_def py_max_def py_simps Let_def
        py_get_def py_index_def)
qed

text \<open>\<^verbatim>\<open>add_function\<close> does what the claim says: it prints, returns, and leaves the plot
  as it was.\<close>

lemma add_function_unrecognised_pars:
  "add_function_xvals p = Inr xv \<Longrightarrow>
   add_function p w f ParOther nm col
     = Inr (p, py_print w ''Error: Not a recognized format for parameter'')"
  by (simp add: add_function_def)

section \<open>The error band\<close>

text \<open>
  C1. What \<^verbatim>\<open>mpl_plot_function\<close> does is the same for every value of
  \<^verbatim>\<open>errorbandfactor\<close>; and with the factor 2, on the line \<open>1 + 2 x\<close> whose value has the
  standard deviation 1 at both ends of \<open>[0, 1]\<close>, the band it fills runs from
  \<open>[0, 2]\<close> to \<open>[2, 4]\<close>, one standard deviation on each side of the means \<open>[1, 3]\<close>,
  not two.
\<close>

theorem mpl_plot_function_band_is_one_sigma:
  "mpl_plot_function p w f xd prs n lg col eb = mpl_plot_function p w f xd prs n lg col 1
   \<and> map_sum id (last \<circ> plt \<circ> snd)
        (mpl_plot_function (set_errorband_sigma empty_plot 2) quiet_world linear [0, 1]
           (ParMeas [offset_par, slope_par]) 2 None ''black'' 2)
       = Inr (PltFillBetween [0, 1] [0, 2] [2, 4] ''black'')"
proof
  show "mpl_plot_function p w f xd prs n lg col eb = mpl_plot_function p w f xd prs n lg col 1"
    by (simp add: mpl_plot_function_def)
next
  have grid: "linspace 0 1 2 = [0, 1]"
    by (simp add: linspace_def upt_conv_Cons)
  show "map_sum id (last \<circ> plt \<circ> snd)
        (mpl_plot_function (set_errorband_sigma empty_plot 2) quiet_world linear [0, 1]
           (ParMeas [offset_par, slope_par]) 2 None ''black'' 2)
       = Inr (PltFillBetween [0, 1] [0, 2] [2, 4] ''black'')"
    by (simp add: mpl_plot_function_def initialize_mpl_figure_def empty_plot_def
        set_errorband_sigma_def quiet_world_def
        Plot_fields_def Plot_fields_of_def make_labels_def axis_limits_def py_lookup_def
        mpl_plot_function_xvals_def py_min_def py_max_def py_simps Let_def
        py_get_def py_index_def grid linear_def offset_par_def slope_par_def
        get_means_def get_stds_def np_add_def np_sub_def plt_do_def)
qed

text \<open>The standard deviations of a \<^verbatim>\<open>Measurement_Array\<close> are as many as its means.\<close>

lemma length_get_stds: "length (get_stds ms) = length (get_means ms)"
  by (simp add: get_stds_def get_means_def)

section \<open>Setting the ranges by hand\<close>




text \<open>An ndarray of dimension 0 has the type of an array and no length.\<close>

lemma set_plot_range_unsized_raises:
  "set_plot_range array_types untyped_plot quiet_world (PyScalar TNdarray (Num 3)) PyNone
     = Inl (TypeError ''len'')"
  by (simp add: set_plot_range_def check_range_arg_def array_types_def)

section \<open>Evenly spaced samples\<close>

lemma length_linspace: "length (linspace a b n) = n"
  by (simp add: linspace_def)

lemma hd_linspace: "0 < n \<Longrightarrow> hd (linspace a b n) = a"
proof -
  assume n: "0 < n"
  then have "[0..<n] = 0 # [1..<n]" by (simp add: upt_conv_Cons)
  then show ?thesis by (simp add: linspace_def)
qed

lemma last_linspace: "1 < n \<Longrightarrow> last (linspace a b n) = b"
proof -
  assume n: "1 < n"
  then obtain m where m: "n = Suc m" "0 < m" by (cases n) auto
  have "last (linspace a b n) = a + real m * ((b - a) / real m)"
    using m by (simp add: linspace_def)
  also have "\<dots> = b" using m by simp
  finally show ?thesis .
qed

lemma py_min2: "py_min [a, b] = Inr (min a b)"
  by (simp add: py_min_def min.commute)

lemma py_max2: "py_max [a, b] = Inr (max a b)"
  by (simp add: py_max_def max.commute)

lemma add_function_xvals_eq:
  "x_range p = [x0, x1] \<Longrightarrow> add_function_xvals p = Inr (linspace x0 x1 100)"
  by (simp add: add_function_xvals_def py_simps)

lemma empty_plot_x_range:
  "x_range empty_plot = [0, 1]" "x_range_margin empty_plot = 1 / 2"
  by (simp_all add: empty_plot_def Plot_fields_def Plot_fields_of_def)

section \<open>The propagation flag\<close>

lemma bindE:
  assumes "bind r g = Inr v"
  obtains x where "r = Inr x" and "g x = Inr v"
  using assms by (cases r) simp_all

lemma plt_do_minmax [simp]: "minmax_n (plt_do w cs) = minmax_n w"
  by (simp add: plt_do_def)

lemma py_print_minmax [simp]: "minmax_n (py_print w s) = minmax_n w"
  by (simp add: py_print_def)

lemma initialize_mpl_figure_minmax:
  assumes "initialize_mpl_figure p w r = Inr (p', w')"
  shows "minmax_n w' = minmax_n w"
  using assms unfolding initialize_mpl_figure_def
  by (auto elim!: bindE simp: Let_def split: if_splits)

lemma add_function_flag:
  assumes "add_function p w f (ParMeas ms) nm col = Inr (p', w')"
  shows "minmax_n w' = minmax_n w
       \<and> (\<exists>xv fmes. add_function_xvals p = Inr xv \<and> call_meas f 1 xv ms = Inr fmes)"
  using assms unfolding add_function_def
  by (auto elim!: bindE simp: Let_def split: option.splits)

lemma mpl_plot_function_flag:
  assumes "mpl_plot_function p w f xd (ParMeas ms) n lg col eb = Inr (p', w')"
  shows "minmax_n w' = minmax_n w
       \<and> (\<exists>xv fmes. mpl_plot_function_xvals xd n = Inr xv \<and> call_meas f 1 xv ms = Inr fmes
            \<and> last (plt w') = PltFillBetween xv (np_sub (get_means fmes) (get_stds fmes))
                                 (np_add (get_means fmes) (get_stds fmes)) col)"
  using assms unfolding mpl_plot_function_def
  by (auto elim!: bindE simp: Let_def plt_do_def
      dest!: initialize_mpl_figure_minmax split: if_splits)

lemma interactive_linear_fit_update_flag:
  assumes "interactive_linear_fit_update co p w d col offset offset_err slope slope_err corr
             = Inr w'"
  shows "minmax_n w' = minmax_n w
       \<and> (\<exists>xv. PltPlot xv
              (get_means (linear_sum co 1
                 (Measurement co (minmax_n w) offset offset_err (Some ''offset''))
                 (Measurement co (minmax_n w) slope slope_err (Some ''slope'')) corr xv))
              col (Some ''linear fit'') \<in> set (plt w'))"
  using assms unfolding interactive_linear_fit_update_def
  by (auto elim!: bindE simp: Let_def plt_do_def)

lemma bk_interact_linear_fit_update_flag:
  assumes "bk_interact_linear_fit_update co p w offset offset_err slope slope_err corr
             = Inr (p', w')"
  shows "minmax_n w' = minmax_n w
       \<and> (\<exists>line. linear_fit_line p = Some line
            \<and> map_option data_y (linear_fit_line p')
                = Some (get_means (linear_sum co 1
                    (Measurement co 1 offset offset_err None)
                    (Measurement co 1 slope slope_err None) corr (data_x line))))"
  using assms unfolding bk_interact_linear_fit_update_def
  by (auto elim!: bindE simp: Let_def split: option.splits)

text \<open>
  C6. Whenever \<^verbatim>\<open>add_function\<close> or \<^verbatim>\<open>mpl_plot_function\<close> with a \<^verbatim>\<open>Measurement_Array\<close> of
  parameters, or one of the two \<^verbatim>\<open>update\<close> callbacks of the interactive fits, returns,
  the flag \<^verbatim>\<open>minmax_n\<close> has the value it had before the call, whatever that was, and
  the curve was evaluated under the value 1 of the flag.
\<close>

theorem propagation_flag_restored:
  "(add_function p w f (ParMeas ms) nm color = Inr (p1, w1) \<longrightarrow>
      minmax_n w1 = minmax_n w
      \<and> (\<exists>xv fmes. add_function_xvals p = Inr xv \<and> call_meas f 1 xv ms = Inr fmes))
   \<and> (mpl_plot_function p w f xd (ParMeas ms) n lg col eb = Inr (p2, w2) \<longrightarrow>
      minmax_n w2 = minmax_n w
      \<and> (\<exists>xv fmes. mpl_plot_function_xvals xd n = Inr xv \<and> call_meas f 1 xv ms = Inr fmes
            \<and> last (plt w2) = PltFillBetween xv (np_sub (get_means fmes) (get_stds fmes))
                                 (np_add (get_means fmes) (get_stds fmes)) col))
   \<and> (interactive_linear_fit_update co p w d col offset offset_err slope slope_err corr
         = Inr w3 \<longrightarrow>
      minmax_n w3 = minmax_n w
      \<and> (\<exists>xv. PltPlot xv
              (get_means (linear_sum co 1
                 (Measurement co (minmax_n w) offset offset_err (Some ''offset''))
                 (Measurement co (minmax_n w) slope slope_err (Some ''slope'')) corr xv))
              col (Some ''linear fit'') \<in> set (plt w3)))
   \<and> (bk_interact_linear_fit_update co p w offset offset_err slope slope_err corr
         = Inr (p4, w4) \<longrightarrow>
      minmax_n w4 = minmax_n w
      \<and> (\<exists>line. linear_fit_line p = Some line
            \<and> map_option data_y (linear_fit_line p4)
                = Some (get_means (linear_sum co 1
                    (Measurement co 1 offset offset_err None)
                    (Measurement co 1 slope slope_err None) corr (data_x line)))))"
  using add_function_flag [of p w f ms nm color p1 w1]
    mpl_plot_function_flag [of p w f xd ms n lg col eb p2 w2]
    interactive_linear_fit_update_flag [of co p w d col offset offset_err slope slope_err corr w3]
    bk_interact_linear_fit_update_flag [of co p w offset offset_err slope slope_err corr p4 w4]
  by blast

lemma run_add_function:
  "\<exists>p' w'. add_function live_plot quiet_world flat (ParMeas [offset_par]) None (Some ''green'')
      = Inr (p', w')"
  by (simp add: add_function_def add_function_xvals_def live_plot_def one_dataset_plot_def
      empty_plot_def Plot_fields_def Plot_fields_of_def quiet_world_def flat_def
      get_means_def py_max_def py_min_def widen_hi_def widen_lo_def py_simps Let_def)

lemma run_mpl_plot_function:
  "\<exists>p' w'. mpl_plot_function live_plot quiet_world flat [0, 1] (ParMeas [offset_par]) 2 None
      ''green'' 1 = Inr (p', w')"
  by (simp add: mpl_plot_function_def mpl_plot_function_xvals_def initialize_mpl_figure_def
      live_plot_def one_dataset_plot_def axis_limits_def py_lookup_def make_labels_def
      empty_plot_def Plot_fields_def Plot_fields_of_def quiet_world_def flat_def plt_do_def
      py_max_def py_min_def py_simps Let_def py_get_def py_index_def)

lemma run_interactive_update:
  "\<exists>w'. interactive_linear_fit_update stand_ins live_plot quiet_world
      (unfitted_dataset ''data'' 1 10 0 5) ''green'' 1 1 2 0 0 = Inr w'"
  by (simp add: interactive_linear_fit_update_def
      live_plot_def one_dataset_plot_def axis_limits_def py_lookup_def make_labels_def
      empty_plot_def Plot_fields_def Plot_fields_of_def quiet_world_def plt_do_def
      py_simps Let_def py_get_def py_index_def)

lemma run_bk_update:
  "\<exists>p' w'. bk_interact_linear_fit_update stand_ins live_plot quiet_world 1 1 2 0 0
      = Inr (p', w')"
  by (simp add: bk_interact_linear_fit_update_def live_plot_def Let_def)


text \<open>The theorem at a world whose flag is 7, with callables that raise unless the
  flag is 1 during their call.\<close>

theorem propagation_flag_restored_witness:
  "minmax_n quiet_world = 7
   \<and> (\<exists>p' w'. add_function live_plot quiet_world flat (ParMeas [offset_par]) None
                  (Some ''green'') = Inr (p', w') \<and> minmax_n w' = 7)
   \<and> (\<exists>p' w'. mpl_plot_function live_plot quiet_world flat [0, 1] (ParMeas [offset_par]) 2
                  None ''green'' 1 = Inr (p', w') \<and> minmax_n w' = 7)
   \<and> (\<exists>w'. interactive_linear_fit_update stand_ins live_plot quiet_world
               (unfitted_dataset ''data'' 1 10 0 5) ''green'' 1 1 2 0 0 = Inr w'
             \<and> minmax_n w' = 7)
   \<and> (\<exists>p' w'. bk_interact_linear_fit_update stand_ins live_plot quiet_world 1 1 2 0 0
                  = Inr (p', w') \<and> minmax_n w' = 7)"
proof -
  have flag: "minmax_n quiet_world = 7"
    by (simp add: quiet_world_def)
  obtain pa wa where a: "add_function live_plot quiet_world flat (ParMeas [offset_par]) None
      (Some ''green'') = Inr (pa, wa)"
    using run_add_function by blast
  obtain pb wb where b: "mpl_plot_function live_plot quiet_world flat [0, 1]
      (ParMeas [offset_par]) 2 None ''green'' 1 = Inr (pb, wb)"
    using run_mpl_plot_function by blast
  obtain wc where c: "interactive_linear_fit_update stand_ins live_plot quiet_world
      (unfitted_dataset ''data'' 1 10 0 5) ''green'' 1 1 2 0 0 = Inr wc"
    using run_interactive_update by blast
  obtain pd wd where d: "bk_interact_linear_fit_update stand_ins live_plot quiet_world 1 1 2 0 0
      = Inr (pd, wd)"
    using run_bk_update by blast
  from propagation_flag_restored [where p = live_plot and w = quiet_world and f = flat
      and ms = "[offset_par]" and nm = None and color = "Some ''green''" and ?p1.0 = pa
      and ?w1.0 = wa and xd = "[0, 1]" and n = 2 and lg = None and col = "''green''"
      and eb = 1 and ?p2.0 = pb and ?w2.0 = wb and co = stand_ins
      and d = "unfitted_dataset ''data'' 1 10 0 5" and offset = 1 and offset_err = 1
      and slope = 2 and slope_err = 0 and corr = 0 and ?w3.0 = wc and ?p4.0 = pd
      and ?w4.0 = wd] a b c d flag
  show ?thesis by auto
qed

section \<open>The ranges under the linear fits\<close>

lemma py_get_set0:
  "py_set xs 0 v = Inr ys \<Longrightarrow> ys = xs[0 := v] \<and> py_get ys 0 = Inr v"
  by (cases xs) (auto simp: py_set_def py_get_def py_index_def split: if_splits)

lemma py_index_last:
  assumes "py_index xs (- 1) = Inr j"
  shows "xs \<noteq> []" and "xs ! j = last xs"
  using assms by (cases xs rule: rev_cases; auto simp: py_index_def)+

lemma fit_last_linear_ranges:
  assumes "fit_last_linear co p w = Inr ((d, color, func, prs), p', w')"
    and "py_get (x_range p) 0 = Inr x0" and "x0 > - 1 / 2"
  shows "x_range p' = (x_range p)[0 := - 1 / 2]
       \<and> minmax_n w' = minmax_n w
       \<and> datasets p \<noteq> []
       \<and> fit co (clear_fits co (last (datasets p))) ''linear'' = Inr d
       \<and> py_get (fit_function d) (- 1) = Inr func
       \<and> py_get (fit_pars d) (- 1) = Inr prs
       \<and> (\<exists>v. at_point func (minmax_n w) (- 1 / 2) (get_means prs) = Inr v
              \<and> y_range p' = (y_range p)[0 := v])"
proof -
  from assms(1) obtain j where j: "py_index (datasets p) (- 1) = Inr j"
    unfolding fit_last_linear_def by (auto simp: Let_def elim!: bindE)
  then have ne: "datasets p \<noteq> []" and jl: "datasets p ! j = last (datasets p)"
    by (simp_all add: py_index_last)
  show ?thesis
    using assms j jl ne unfolding fit_last_linear_def
    by (auto simp: Let_def elim!: bindE dest!: py_get_set0 split: if_splits)
qed

lemma initialize_bokeh_figure_ranges:
  assumes "initialize_bokeh_figure p r = Inr p'"
  shows "x_range p' = x_range p \<and> y_range p' = y_range p \<and> datasets p' = datasets p"
  using assms unfolding initialize_bokeh_figure_def
  by (auto elim!: bindE split: if_splits)

lemma ensure_bkfigure_ranges:
  assumes "ensure_bkfigure p = Inr p'"
  shows "x_range p' = x_range p \<and> y_range p' = y_range p \<and> datasets p' = datasets p"
  using assms initialize_bokeh_figure_ranges [of p False p']
  by (auto simp: ensure_bkfigure_def split: if_splits)

lemma bk_plot_function_ranges:
  assumes "bk_plot_function co p w f xd prs n lg col eb = Inr (g, p')"
  shows "x_range p' = x_range p \<and> y_range p' = y_range p \<and> datasets p' = datasets p"
  using assms unfolding bk_plot_function_def
  by (auto elim!: bindE dest!: ensure_bkfigure_ranges)

lemma bk_plot_dataset_ranges:
  assumes "bk_plot_dataset co p w d res col sff = Inr p'"
  shows "x_range p' = x_range p \<and> y_range p' = y_range p \<and> datasets p' = datasets p"
  using assms unfolding bk_plot_dataset_def
  by (auto elim!: bindE simp: Let_def
      dest!: ensure_bkfigure_ranges initialize_bokeh_figure_ranges bk_plot_function_ranges
      split: if_splits option.splits)

lemma show_plot_unpopulated_ranges:
  assumes "show_plot co p w out False refresh = Inr (p', w')"
  shows "p' = p"
  using assms unfolding show_plot_def
  by (auto elim!: bindE simp: Let_def split: if_splits)

lemma interactive_linear_fit_ranges:
  assumes "interactive_linear_fit co p w er = Inr (sl, p', w')"
    and "py_get (x_range p) 0 = Inr x0" and "x0 > - 1 / 2"
  shows "refit_overwrites co p w p'"
proof -
  from assms(1) obtain d color func prs w1 where
    "fit_last_linear co p w = Inr ((d, color, func, prs), p', w1)"
    unfolding interactive_linear_fit_def by (auto elim!: bindE simp: Let_def)
  from fit_last_linear_ranges [OF this assms(2,3)] show ?thesis
    unfolding refit_overwrites_def by blast
qed

lemma bk_show_linear_fit_ranges:
  assumes "bk_show_linear_fit co p w out = Inr (p', w')"
    and "py_get (x_range p) 0 = Inr x0" and "x0 > - 1 / 2"
  shows "refit_overwrites co p w p'"
proof -
  from assms(1) obtain d color func prs p1 w1 p2 p3 xvals g p4 obj1 l1 l2 l3 l4 where
    f: "fit_last_linear co p w = Inr ((d, color, func, prs), p1, w1)"
    and i: "initialize_bokeh_figure p1 False = Inr p2"
    and ds: "bk_plot_dataset co p2 w1 d False color False = Inr p3"
    and fn: "bk_plot_function co p3 w1 func xvals (ParMeas prs) 100 (Some ''linear'') color
               (errorband_sigma p3) = Inr (g, p4)"
    and sh: "show_plot co
               (p4\<lparr>linear_fit_line := l1, linear_fit_patches := l2,
                   linear_fit_pars := l3, linear_fit_corr := l4, bkfigure := Some obj1\<rparr>)
               w1 out False True = Inr (p', w')"
    unfolding bk_show_linear_fit_def
    by (auto elim!: bindE simp: Let_def)
  from show_plot_unpopulated_ranges [OF sh]
    initialize_bokeh_figure_ranges [OF i] bk_plot_dataset_ranges [OF ds]
    bk_plot_function_ranges [OF fn]
  have "x_range p' = x_range p1" "y_range p' = y_range p1"
    by auto
  with fit_last_linear_ranges [OF f assms(2,3)] show ?thesis
    unfolding refit_overwrites_def by auto
qed

lemma one_dataset_plot_ranges:
  "x_range one_dataset_plot = [1 / 2, 21 / 2]" "y_range one_dataset_plot = [- 1 / 2, 11 / 2]"
  by (simp_all add: one_dataset_plot_def)

lemma run_interactive_linear_fit:
  "map_sum id (\<lambda>r. (x_range (fst (snd r)), y_range (fst (snd r))))
     (interactive_linear_fit stand_ins one_dataset_plot quiet_world 5)
   = Inr ([- 1 / 2, 21 / 2], [0, 11 / 2])"
  by (simp add: interactive_linear_fit_def fit_last_linear_def interactive_linear_fit_update_def
      one_dataset_plot_def empty_plot_def Plot_fields_def Plot_fields_of_def quiet_world_def
      stand_ins_def unfitted_dataset_def linear_def offset_par_def slope_par_def
      get_means_def axis_limits_def py_lookup_def make_labels_def plt_do_def py_print_def
      py_simps py_get_def py_set_def py_index_def Let_def)

lemma run_bk_show_linear_fit:
  "map_sum id (\<lambda>r. (x_range (fst r), y_range (fst r)))
     (bk_show_linear_fit stand_ins one_dataset_plot quiet_world ''inline'')
   = Inr ([- 1 / 2, 21 / 2], [0, 11 / 2])"
  by (simp add: bk_show_linear_fit_def fit_last_linear_def show_plot_def set_bokeh_output_def
      initialize_bokeh_figure_def bk_plot_dataset_def bk_plot_function_def ensure_bkfigure_def
      the_bkfigure_def bk_add_def populate_xvals_def
      one_dataset_plot_def empty_plot_def Plot_fields_def Plot_fields_of_def quiet_world_def
      stand_ins_def unfitted_dataset_def linear_def offset_par_def slope_par_def
      get_means_def axis_limits_def py_lookup_def make_labels_def plt_do_def py_print_def
      py_simps py_get_def py_set_def py_index_def Let_def)

text \<open>
  C10. When \<^verbatim>\<open>interactive_linear_fit\<close> or \<^verbatim>\<open>bk_show_linear_fit\<close> returns on a plot whose
  lower x-bound is greater than \<open>-1/2\<close>, that bound is \<open>-1/2\<close> afterwards and the lower
  y-bound is the value of the fitted function at \<open>-1/2\<close>. On the plot with one dataset
  on \<open>[1, 10] \<times> [0, 5]\<close> and the fitted line \<open>1 + 2 x\<close>, both calls raise the lower
  y-bound from \<open>-1/2\<close> to 0: the y-range after the call does not contain the y-range
  before it.
\<close>

theorem linear_fit_resets_lower_bounds:
  "((interactive_linear_fit co p w er = Inr (sl, p', w')
       \<or> bk_show_linear_fit co p w out = Inr (p', w'))
      \<and> py_get (x_range p) 0 = Inr x0 \<and> - 1 / 2 < x0
    \<longrightarrow> refit_overwrites co p w p')
   \<and> y_range one_dataset_plot = [- 1 / 2, 11 / 2]
   \<and> map_sum id (\<lambda>r. (x_range (fst (snd r)), y_range (fst (snd r))))
         (interactive_linear_fit stand_ins one_dataset_plot quiet_world 5)
       = Inr ([- 1 / 2, 21 / 2], [0, 11 / 2])
   \<and> map_sum id (\<lambda>r. (x_range (fst r), y_range (fst r)))
         (bk_show_linear_fit stand_ins one_dataset_plot quiet_world ''inline'')
       = Inr ([- 1 / 2, 21 / 2], [0, 11 / 2])
   \<and> \<not> widened [- 1 / 2, 11 / 2] [0, 11 / 2]"
  using interactive_linear_fit_ranges [of co p w er sl p' w' x0]
    bk_show_linear_fit_ranges [of co p w out p' w' x0]
    run_interactive_linear_fit run_bk_show_linear_fit
  by (auto simp: one_dataset_plot_ranges widened_def covers_def)

text \<open>The theorem at that plot, whose lower x-bound is \<open>1/2\<close>.\<close>

theorem linear_fit_resets_lower_bounds_witness:
  "py_get (x_range one_dataset_plot) 0 = Inr (1 / 2) \<and> - 1 / 2 < (1 / 2 :: real)
   \<and> (\<exists>sl p' w'. interactive_linear_fit stand_ins one_dataset_plot quiet_world 5
                    = Inr (sl, p', w')
         \<and> refit_overwrites stand_ins one_dataset_plot quiet_world p'
         \<and> x_range p' = [- 1 / 2, 21 / 2] \<and> y_range p' = [0, 11 / 2])"
proof -
  obtain sl p' w' where r: "interactive_linear_fit stand_ins one_dataset_plot quiet_world 5
      = Inr (sl, p', w')" and xy: "x_range p' = [- 1 / 2, 21 / 2]" "y_range p' = [0, 11 / 2]"
    using run_interactive_linear_fit
    by (cases "interactive_linear_fit stand_ins one_dataset_plot quiet_world 5") auto
  have x0: "py_get (x_range one_dataset_plot) 0 = Inr (1 / 2)"
    by (simp add: one_dataset_plot_ranges py_simps)
  from linear_fit_resets_lower_bounds [of stand_ins one_dataset_plot quiet_world 5 sl p' w'
      "''inline''" "1 / 2"] r x0
  have "refit_overwrites stand_ins one_dataset_plot quiet_world p'"
    by simp
  with r x0 xy show ?thesis by auto
qed

section \<open>The y-range under populate_bokeh_figure\<close>

lemma pixelcount_total:
  "pixelcount ds = Inr pc \<Longrightarrow> pc = 25 * total_fit_npars ds"
proof (induction ds arbitrary: pc)
  case Nil
  then show ?case by (simp add: total_fit_npars_def)
next
  case (Cons d ds)
  from Cons.prems obtain here more where
    h: "(if nfits d > 0
           then bind (py_get (fit_npars d) (- 1)) (\<lambda>np. Inr (np * 25))
           else Inr 0) = Inr here"
    and m: "pixelcount ds = Inr more" and pc: "pc = here + more"
    by (auto elim!: bindE)
  have "here = 25 * (if 0 < nfits d
                     then (if fit_npars d = [] then 0 else last (fit_npars d)) else 0)"
    using h
    by (cases "fit_npars d" rule: rev_cases)
       (auto elim!: bindE simp: py_get_def py_index_def split: if_splits)
  with Cons.IH [OF m] pc show ?case
    by (simp add: total_fit_npars_def algebra_simps)
qed

lemma py_set1_restore:
  assumes "py_get xs 1 = Inr y" and "py_set xs 1 v = Inr ys"
  shows "py_set ys 1 y = Inr xs"
  using assms
  by (auto simp: py_get_def py_set_def py_index_def list_update_same_conv split: if_splits)

lemma inflated_y_range_eq:
  assumes "inflated_y_range p = Inr yr"
  shows "(show_fit_results p \<longrightarrow>
            (\<exists>y1 h. py_get (y_range p) 1 = Inr y1 \<and> py_get (dimensions p) 1 = Inr h \<and> h \<noteq> 0
               \<and> yr = (y_range p)[1 := y1 + of_int (25 * total_fit_npars (datasets p)) * y1
                                             / of_int h]))
       \<and> (\<not> show_fit_results p \<longrightarrow> yr = y_range p)"
  using assms unfolding inflated_y_range_def
  by (auto elim!: bindE dest!: pixelcount_total simp: py_set_def py_index_def
      split: if_splits)

lemma keeps_trans: "keeps p q \<Longrightarrow> keeps q r \<Longrightarrow> keeps p r"
  by (auto simp: keeps_def)

lemma keeps_refl: "main_y_range p \<noteq> None \<Longrightarrow> keeps p p"
  by (simp add: keeps_def)

lemma bk_add_keeps:
  assumes "main_y_range p \<noteq> None" and "the_bkfigure p = Inr obj"
    and "bk_add obj item = Inr obj1"
  shows "keeps p (p\<lparr>bkfigure := Some obj1\<rparr>)"
  using assms
  by (auto simp: keeps_def main_y_range_def the_bkfigure_def bk_add_def
      split: option.splits bk_object.splits)

lemma ensure_bkfigure_same:
  "main_y_range p \<noteq> None \<Longrightarrow> ensure_bkfigure p = Inr p' \<Longrightarrow> p' = p"
  by (auto simp: ensure_bkfigure_def main_y_range_def split: option.splits)

lemma bk_plot_function_keeps:
  assumes "main_y_range p \<noteq> None"
    and "bk_plot_function co p w f xd prs n lg col eb = Inr (g, p')"
  shows "keeps p p'"
  using assms(2) unfolding bk_plot_function_def
  by (auto elim!: bindE dest!: ensure_bkfigure_same [OF assms(1)] intro: bk_add_keeps [OF assms(1)])

lemma residual_figure_keeps:
  assumes "main_y_range p \<noteq> None" and "initialize_bokeh_figure p True = Inr p'"
  shows "keeps p p'"
  using assms unfolding initialize_bokeh_figure_def
  by (auto elim!: bindE simp: keeps_def main_y_range_def)

lemma bk_plot_dataset_keeps:
  assumes "main_y_range p \<noteq> None"
    and "bk_plot_dataset co p w d res col sff = Inr p'"
  shows "keeps p p'"
proof (cases res)
  case True
  with assms show ?thesis
    unfolding bk_plot_dataset_def
    by (auto elim!: bindE simp: keeps_def main_y_range_def split: option.splits if_splits)
next
  case False
  with assms(2) obtain obj obj1 where
    o: "the_bkfigure p = Inr obj" and a: "bk_add obj (BkDataset (name d) False col) = Inr obj1"
    and rest: "(if nfits d > 0 \<and> sff
           then bind (py_get (fit_function d) (- 1)) (\<lambda>f.
                bind (py_get (fit_pars d) (- 1)) (\<lambda>ps.
                bind (py_get (fit_function_name d) (- 1)) (\<lambda>fname.
                bind (bk_plot_function co (p\<lparr>bkfigure := Some obj1\<rparr>) w f (xdata d) (ParMeas ps)
                        50 (Some fname) col
                        (errorband_sigma (p\<lparr>bkfigure := Some obj1\<rparr>))) (\<lambda>(glyphs, p3). Inr p3))))
           else Inr (p\<lparr>bkfigure := Some obj1\<rparr>)) = Inr p'"
    unfolding bk_plot_dataset_def
    by (auto elim!: bindE simp: Let_def dest!: ensure_bkfigure_same [OF assms(1)])
  from bk_add_keeps [OF assms(1) o a] have k1: "keeps p (p\<lparr>bkfigure := Some obj1\<rparr>)" .
  then have ne: "main_y_range (p\<lparr>bkfigure := Some obj1\<rparr>) \<noteq> None"
    by (simp add: keeps_def)
  from rest have "keeps (p\<lparr>bkfigure := Some obj1\<rparr>) p'"
    by (auto elim!: bindE split: if_splits intro: keeps_refl [OF ne]
        bk_plot_function_keeps [OF ne])
  with k1 show ?thesis by (rule keeps_trans)
qed

lemma bk_text_boxes_keeps:
  assumes "main_y_range p \<noteq> None"
    and "bk_text_boxes p d sx sy off is = Inr (off', p')"
  shows "keeps p p'"
  using assms
proof (induction "is" arbitrary: p off)
  case Nil
  then show ?case by (simp add: keeps_refl)
next
  case (Cons i rest)
  from Cons.prems(2) obtain obj obj1 off1 where
    o: "the_bkfigure p = Inr obj" and a: "bk_add obj1 = bk_add obj1"
    and b: "\<exists>item. bk_add obj item = Inr obj1"
    and r: "bk_text_boxes (p\<lparr>bkfigure := Some obj1\<rparr>) d sx sy off1 rest = Inr (off', p')"
    by (auto elim!: bindE simp: Let_def)
  from b obtain item where "bk_add obj item = Inr obj1" by blast
  from bk_add_keeps [OF Cons.prems(1) o this]
  have k1: "keeps p (p\<lparr>bkfigure := Some obj1\<rparr>)" .
  then have "main_y_range (p\<lparr>bkfigure := Some obj1\<rparr>) \<noteq> None"
    by (simp add: keeps_def)
  from Cons.IH [OF this r] k1 show ?case
    by (blast intro: keeps_trans)
qed

lemma bk_plot_fit_results_text_box_keeps:
  assumes "main_y_range p \<noteq> None"
    and "bk_plot_fit_results_text_box p d yoff = Inr (off', p')"
  shows "keeps p p'"
  using assms(2) unfolding bk_plot_fit_results_text_box_def
  by (auto elim!: bindE simp: Let_def dest!: ensure_bkfigure_same [OF assms(1)]
      intro: bk_text_boxes_keeps [OF assms(1)])

lemma keeps_ne: "keeps p q \<Longrightarrow> main_y_range q \<noteq> None"
  by (simp add: keeps_def)

lemma bk_plot_datasets_keeps:
  assumes "main_y_range p \<noteq> None"
    and "bk_plot_datasets co p w off dcs = Inr (off', p')"
  shows "keeps p p'"
  using assms
proof (induction dcs arbitrary: p off)
  case Nil
  then show ?case by (simp add: keeps_refl)
next
  case (Cons dc rest)
  obtain d color where dc: "dc = (d, color)" by (cases dc)
  from Cons.prems(2) obtain p1 off4 p4 where
    s1: "bk_plot_dataset co p w d False color True = Inr p1"
    and s2: "(if nfits d > 0
           then bind (if show_fit_results p1
                      then bind (bk_plot_fit_results_text_box p1 d off)
                             (\<lambda>(off, q). Inr (off + 3, q))
                      else Inr (off, p1)) (\<lambda>(off, p2).
                bind (if show_residuals p2
                      then bk_plot_dataset co p2 w d True color True
                      else Inr p2) (\<lambda>p3. Inr (off, p3)))
           else Inr (off, p1)) = Inr (off4, p4)"
    and s3: "bk_plot_datasets co p4 w off4 rest = Inr (off', p')"
    unfolding dc by (auto elim!: bindE)
  from bk_plot_dataset_keeps [OF Cons.prems(1) s1] have k1: "keeps p p1" .
  have k2: "keeps p1 p4"
  proof (cases "nfits d > 0")
    case False
    with s2 keeps_ne [OF k1] show ?thesis by (auto intro: keeps_refl)
  next
    case True
    with s2 obtain off2 p2 where
      a: "(if show_fit_results p1
                      then bind (bk_plot_fit_results_text_box p1 d off)
                             (\<lambda>(off, q). Inr (off + 3, q))
                      else Inr (off, p1)) = Inr (off2, p2)"
      and b: "(if show_residuals p2
                      then bk_plot_dataset co p2 w d True color True
                      else Inr p2) = Inr p4"
      by (auto elim!: bindE)
    have ne1: "main_y_range p1 \<noteq> None" by (rule keeps_ne [OF k1])
    from a ne1 have k12: "keeps p1 p2"
      by (auto elim!: bindE split: if_splits
          intro: keeps_refl bk_plot_fit_results_text_box_keeps)
    have ne2: "main_y_range p2 \<noteq> None" by (rule keeps_ne [OF k12])
    from b ne2 have "keeps p2 p4"
      by (auto split: if_splits intro: keeps_refl bk_plot_dataset_keeps)
    with k12 show ?thesis by (rule keeps_trans)
  qed
  from Cons.IH [OF keeps_ne [OF k2] s3] k1 k2 show ?case
    by (blast intro: keeps_trans)
qed

lemma bk_plot_user_functions_keeps:
  assumes "main_y_range p \<noteq> None"
    and "bk_plot_user_functions co p w xv fs = Inr p'"
  shows "keeps p p'"
  using assms
proof (induction fs arbitrary: p)
  case Nil
  then show ?case by (simp add: keeps_refl)
next
  case (Cons fc rest)
  obtain func prs fname color where fc: "fc = (func, prs, fname, color)" by (cases fc)
  from Cons.prems(2) obtain g p1 where
    s1: "bk_plot_function co p w func xv prs 100 (Some fname) color (errorband_sigma p)
           = Inr (g, p1)"
    and s2: "bk_plot_user_functions co p1 w xv rest = Inr p'"
    unfolding fc by (auto elim!: bindE)
  from bk_plot_function_keeps [OF Cons.prems(1) s1] have k1: "keeps p p1" .
  from Cons.IH [OF keeps_ne [OF k1] s2] k1 show ?case
    by (blast intro: keeps_trans)
qed

lemma initialize_main_figure:
  assumes "initialize_bokeh_figure q False = Inr q'"
  shows "y_range q' = y_range q \<and> main_y_range q' = Some (y_range q)"
  using assms unfolding initialize_bokeh_figure_def
  by (auto elim!: bindE simp: main_y_range_def)

lemma py_set1_back:
  assumes "py_get xs 1 = Inr y"
  shows "py_set xs 1 y = Inr ys \<Longrightarrow> ys = xs"
    and "py_set (xs[1 := v]) 1 y = Inr ys \<Longrightarrow> ys = xs"
  using assms
  by (auto simp: py_get_def py_set_def py_index_def list_update_same_conv split: if_splits)

text \<open>
  When \<^verbatim>\<open>populate_bokeh_figure\<close> returns, the plot's y-range is what it was before the
  call. With \<open>show_fit_results\<close> on, the main figure was built with the upper y-bound
  \<open>y1\<close> replaced by \<open>y1 + 25 N y1 / h\<close>, where \<open>N\<close> counts the parameters of the last
  fits of the fitted datasets and \<open>h\<close> is the figure's height in pixels; with it off,
  the figure has the plot's y-range.
\<close>

lemma populate_bokeh_figure_restores_y_range:
  assumes "populate_bokeh_figure co p w = Inr (obj, p')"
  shows "y_range p' = y_range p
       \<and> (\<exists>f. main_figure obj = Some f
            \<and> (show_fit_results p \<longrightarrow>
                 (\<exists>y1 h. py_get (y_range p) 1 = Inr y1 \<and> py_get (dimensions p) 1 = Inr h
                    \<and> h \<noteq> 0
                    \<and> fig_y_range f
                        = (y_range p)[1 := y1 + of_int (25 * total_fit_npars (datasets p)) * y1
                                              / of_int h]))
            \<and> (\<not> show_fit_results p \<longrightarrow> fig_y_range f = y_range p))"
proof -
  from assms obtain recall yr p1 yr1 p3 off p4 xvals p5 objx f where
    recall: "py_get (y_range p) 1 = Inr recall"
    and infl: "inflated_y_range p = Inr yr"
    and init: "initialize_bokeh_figure (p\<lparr>y_range := yr\<rparr>) False = Inr p1"
    and rst: "py_set (y_range p1) 1 recall = Inr yr1"
    and res: "(if show_residuals (p1\<lparr>y_range := yr1\<rparr>)
               then initialize_bokeh_figure (p1\<lparr>y_range := yr1\<rparr>) True
               else Inr (p1\<lparr>y_range := yr1\<rparr>)) = Inr p3"
    and loop1: "bk_plot_datasets co p3 w 0 (zip (datasets p3) (datasets_colors p3))
                  = Inr (off, p4)"
    and loop2: "bk_plot_user_functions co p4 w xvals
                (zip (user_functions p4) (zip (user_functions_pars p4)
                   (zip (user_functions_names p4) (user_functions_colors p4)))) = Inr p5"
    and fig: "the_bkfigure p5 = Inr objx"
    and leg: "(case objx of
                BkFigure f \<Rightarrow>
                  Inr (f\<lparr>fig_legend_location := Some (bk_legend_location p5),
                         fig_legend_orientation := Some (bk_legend_orientation p5)\<rparr>)
              | BkGridplot fs \<Rightarrow> Inl (AttributeError ''legend'')) = Inr f"
    and fin: "(if show_residuals p5
        then (case bkres p5 of
                None \<Rightarrow> Inl (AttributeError ''bkres'')
              | Some r \<Rightarrow> Inr (BkGridplot [f, r],
                                p5\<lparr>bkfigure := Some (BkGridplot [f, r])\<rparr>))
        else Inr (BkFigure f, p5\<lparr>bkfigure := Some (BkFigure f)\<rparr>)) = Inr (obj, p')"
    unfolding populate_bokeh_figure_def
    by (auto elim!: bindE simp: Let_def)
  from initialize_main_figure [OF init]
  have p1: "y_range p1 = yr" "main_y_range p1 = Some yr" by simp_all
  from inflated_y_range_eq [OF infl]
  have yr: "(show_fit_results p \<longrightarrow>
            (\<exists>y1 h. py_get (y_range p) 1 = Inr y1 \<and> py_get (dimensions p) 1 = Inr h \<and> h \<noteq> 0
               \<and> yr = (y_range p)[1 := y1 + of_int (25 * total_fit_npars (datasets p)) * y1
                                             / of_int h]))
       \<and> (\<not> show_fit_results p \<longrightarrow> yr = y_range p)" .
  have yr1: "yr1 = y_range p"
  proof (cases "show_fit_results p")
    case True
    with yr obtain v where "yr = (y_range p)[1 := v]" by blast
    with rst p1 py_set1_back(2) [OF recall] show ?thesis by simp
  next
    case False
    with yr have "yr = y_range p" by simp
    with rst p1 py_set1_back(1) [OF recall] show ?thesis by simp
  qed
  let ?p2 = "p1\<lparr>y_range := yr1\<rparr>"
  have p2: "y_range ?p2 = y_range p" "main_y_range ?p2 = Some yr"
    using p1 yr1 by (simp_all add: main_y_range_def)
  then have ne2: "main_y_range ?p2 \<noteq> None" by simp
  from res ne2 have k23: "keeps ?p2 p3"
    by (auto split: if_splits intro: keeps_refl residual_figure_keeps)
  from bk_plot_datasets_keeps [OF keeps_ne [OF k23] loop1] have k34: "keeps p3 p4" .
  from bk_plot_user_functions_keeps [OF keeps_ne [OF k34] loop2] have k45: "keeps p4 p5" .
  from k23 k34 k45 p2 have p5: "y_range p5 = y_range p" "main_y_range p5 = Some yr"
    by (simp_all add: keeps_def)
  from p5(2) fig leg have f: "fig_y_range f = yr"
    by (auto simp: main_y_range_def the_bkfigure_def split: option.splits bk_object.splits)
  from fin have "y_range p' = y_range p5" "main_figure obj = Some f"
    by (auto simp: main_figure_def split: if_splits option.splits)
  with p5 f yr show ?thesis by auto
qed

lemma split_names:
  "short_name offset_par = Inr ''linear_offset''" "short_name slope_par = Inr ''linear_slope''"
  by (simp_all add: short_name_def offset_par_def slope_par_def py_get_def py_index_def)

lemma run_populate_bokeh_figure:
  "\<exists>obj p'. populate_bokeh_figure stand_ins fitted_plot quiet_world = Inr (obj, p')"
  by (simp add: populate_bokeh_figure_def inflated_y_range_def initialize_bokeh_figure_def
      bk_plot_dataset_def bk_plot_function_def bk_plot_fit_results_text_box_def
      ensure_bkfigure_def the_bkfigure_def bk_add_def populate_xvals_def split_names
      fitted_plot_def one_dataset_plot_def empty_plot_def Plot_fields_def Plot_fields_of_def
      quiet_world_def stand_ins_def fitted_dataset_def unfitted_dataset_def
      py_lookup_def make_labels_def py_simps py_get_def py_set_def py_index_def Let_def
      upt_conv_Cons)

text \<open>At the plot with one fitted dataset and a positive upper bound: two parameters,
  a height of 400 pixels, the upper bound \<open>11/2\<close> raised to \<open>99/16\<close> in the figure
  only.\<close>

lemma populate_bokeh_figure_raises_positive_bound:
  "show_fit_results fitted_plot \<and> y_range fitted_plot = [- 1 / 2, 11 / 2]
   \<and> (\<exists>obj p' f. populate_bokeh_figure stand_ins fitted_plot quiet_world = Inr (obj, p')
          \<and> y_range p' = [- 1 / 2, 11 / 2]
          \<and> main_figure obj = Some f \<and> fig_y_range f = [- 1 / 2, 99 / 16])"
proof -
  obtain obj p' where r: "populate_bokeh_figure stand_ins fitted_plot quiet_world = Inr (obj, p')"
    using run_populate_bokeh_figure by blast
  have s: "show_fit_results fitted_plot" "y_range fitted_plot = [- 1 / 2, 11 / 2]"
    "dimensions fitted_plot = [600, 400]"
    "total_fit_npars (datasets fitted_plot) = 2"
    by (simp_all add: fitted_plot_def one_dataset_plot_def empty_plot_def Plot_fields_def
        Plot_fields_of_def total_fit_npars_def fitted_dataset_def)
  from populate_bokeh_figure_restores_y_range [OF r] s
  show ?thesis
    using r by (auto simp: py_simps)
qed

lemma run_populate_negative:
  "\<exists>obj p'. populate_bokeh_figure stand_ins negative_plot quiet_world = Inr (obj, p')"
  by (simp add: populate_bokeh_figure_def inflated_y_range_def initialize_bokeh_figure_def
      bk_plot_dataset_def bk_plot_function_def bk_plot_fit_results_text_box_def
      ensure_bkfigure_def the_bkfigure_def bk_add_def populate_xvals_def split_names
      negative_plot_def one_dataset_plot_def empty_plot_def Plot_fields_def Plot_fields_of_def
      quiet_world_def stand_ins_def fitted_dataset_def unfitted_dataset_def
      py_lookup_def make_labels_def py_simps py_get_def py_set_def py_index_def Let_def
      upt_conv_Cons)

text \<open>
  C8. On the plot whose one fitted dataset has negative y-data, with the y-range
  \<open>[-10, -1]\<close>, \<open>show_fit_results\<close> on, two fitted parameters and a height of 400
  pixels, \<^verbatim>\<open>populate_bokeh_figure\<close> returns and the plot's y-range is \<open>[-10, -1]\<close>
  again afterwards, but the figure was built with the upper y-bound
  \<open>-1 + 25 * 2 * (-1) / 400 = -9/8\<close>, which is below \<open>-1\<close>: the amount that the source
  adds to the upper bound, \<^verbatim>\<open>pixelcount * self.y_range[1] / self.dimensions[1]\<close>, has
  the sign of the bound, so that a negative bound is lowered where the source means to
  expand the y-range for the text of the fit results.
\<close>

theorem populate_bokeh_figure_lowers_negative_bound:
  "show_fit_results negative_plot \<and> y_range negative_plot = [- 10, - 1]
   \<and> dimensions negative_plot = [600, 400]
   \<and> total_fit_npars (datasets negative_plot) = 2
   \<and> (\<exists>obj p' f. populate_bokeh_figure stand_ins negative_plot quiet_world = Inr (obj, p')
          \<and> main_figure obj = Some f \<and> fig_y_range f = [- 10, - 9 / 8]
          \<and> y_range p' = [- 10, - 1])"
proof -
  obtain obj p' where r: "populate_bokeh_figure stand_ins negative_plot quiet_world
      = Inr (obj, p')"
    using run_populate_negative by blast
  have s: "show_fit_results negative_plot" "y_range negative_plot = [- 10, - 1]"
    "dimensions negative_plot = [600, 400]"
    "total_fit_npars (datasets negative_plot) = 2"
    by (simp_all add: negative_plot_def one_dataset_plot_def empty_plot_def
        Plot_fields_def Plot_fields_of_def total_fit_npars_def fitted_dataset_def)
  from populate_bokeh_figure_restores_y_range [OF r] s
  show ?thesis
    using r by (auto simp: py_simps)
qed

section \<open>The grids of add_function and of the rendering\<close>

lemma get_color_keeps:
  assumes "get_color_from_palette p = Inr (c, q)"
  shows "y_range q = y_range p \<and> x_range q = x_range p
       \<and> x_range_margin q = x_range_margin p
       \<and> user_functions q = user_functions p
       \<and> user_functions_pars q = user_functions_pars p"
  using assms by (auto simp: get_color_from_palette_def Let_def elim!: bindE)

lemma add_function_samples:
  assumes "add_function p w f prs nm color = Inr (p', w')"
    and "x_range p = [x0, x1]" and "prs \<noteq> ParOther"
  shows "x_range p' = [x0, x1] \<and> x_range_margin p' = x_range_margin p
       \<and> user_functions p' = user_functions p @ [f]
       \<and> user_functions_pars p' = user_functions_pars p @ [prs]
       \<and> (\<exists>fvals mx mn yr.
           sample_values f (minmax_n w) (linspace x0 x1 100) prs = Inr fvals
           \<and> py_max fvals = Inr mx \<and> py_min fvals = Inr mn
           \<and> widen_hi (y_range p) (mx + y_range_margin p) = Inr yr
           \<and> widen_lo yr (mn - y_range_margin p) = Inr (y_range p'))"
proof -
  have xv: "add_function_xvals p = Inr (linspace x0 x1 100)"
    using assms(2) by (rule add_function_xvals_eq)
  from assms(1,3) obtain fvals w2 where
    sv: "sample_values f (minmax_n w) (linspace x0 x1 100) prs = Inr fvals"
    and rest: "bind (py_max fvals) (\<lambda>mx.
             bind (py_min fvals) (\<lambda>mn.
             let fmax = mx + y_range_margin p;
                 fmin = mn - y_range_margin p
             in bind (widen_hi (y_range p) fmax) (\<lambda>yr1.
                bind (widen_lo yr1 fmin) (\<lambda>yr2.
                let fname = (case nm of
                               None \<Rightarrow> ''userf_'' @ py_str_int (user_functions_count p)
                             | Some n \<Rightarrow> n);
                    p1 = p\<lparr>y_range := yr2,
                           user_functions := user_functions p @ [f],
                           user_functions_pars := user_functions_pars p @ [prs],
                           user_functions_names := user_functions_names p @ [fname],
                           user_functions_count := user_functions_count p + 1\<rparr>
                in case color of
                     None \<Rightarrow>
                       bind (get_color_from_palette p1)
                         (\<lambda>(c, q). Inr (q\<lparr>user_functions_colors :=
                                              user_functions_colors q @ [c]\<rparr>, w2))
                   | Some c \<Rightarrow>
                       Inr (p1\<lparr>user_functions_colors :=
                                  user_functions_colors p1 @ [c]\<rparr>, w2))))) = Inr (p', w')"
    unfolding add_function_def xv bind_Inr
    by (cases prs) (auto elim!: bindE simp: sample_values_def Let_def)
  from rest show ?thesis
    using sv assms(2)
    by (auto elim!: bindE simp: Let_def dest!: get_color_keeps split: option.splits)
qed

lemma mpl_keeps_refl: "mpl_keeps a a"
  by (simp add: mpl_keeps_def)

lemma mpl_keeps_trans: "mpl_keeps a b \<Longrightarrow> mpl_keeps b c \<Longrightarrow> mpl_keeps a c"
  by (auto simp: mpl_keeps_def)

lemma initialize_mpl_figure_keeps:
  assumes "initialize_mpl_figure p w r = Inr (p', w')"
  shows "mpl_keeps (p, w) (p', w')"
  using assms unfolding initialize_mpl_figure_def
  by (auto elim!: bindE simp: Let_def mpl_keeps_def plt_do_def split: if_splits)

lemma mpl_plot_function_draws:
  assumes "mpl_plot_function p w f xd prs n lg col eb = Inr (p', w')"
  shows "mpl_keeps (p, w) (p', w')
       \<and> (\<exists>grid fvals. mpl_plot_function_xvals xd n = Inr grid
            \<and> sample_values f (minmax_n w) grid prs = Inr fvals
            \<and> PltPlot grid fvals col lg \<in> set (plt w'))"
proof -
  from assms obtain p1 w1 where
    i: "(if mplfigure p = None then initialize_mpl_figure p w True else Inr (p, w))
          = Inr (p1, w1)"
    unfolding mpl_plot_function_def by (auto elim!: bindE)
  then have k: "mpl_keeps (p, w) (p1, w1)"
    by (auto split: if_splits intro: mpl_keeps_refl initialize_mpl_figure_keeps)
  from assms i have "mpl_keeps (p1, w1) (p', w')
       \<and> (\<exists>grid fvals. mpl_plot_function_xvals xd n = Inr grid
            \<and> sample_values f (minmax_n w1) grid prs = Inr fvals
            \<and> PltPlot grid fvals col lg \<in> set (plt w'))"
    unfolding mpl_plot_function_def
    by (cases prs)
       (auto elim!: bindE simp: Let_def mpl_keeps_def plt_do_def sample_values_def
          split: if_splits)
  with k show ?thesis
    by (auto simp: mpl_keeps_def)
qed

lemma mpl_plot_function_keeps:
  "mpl_plot_function p w f xd prs n lg col eb = Inr (p', w') \<Longrightarrow> mpl_keeps (p, w) (p', w')"
  using mpl_plot_function_draws by blast

lemma text_box_keeps:
  assumes "mpl_plot_fit_results_text_box p w d yoff = Inr (off, p', w')"
  shows "mpl_keeps (p, w) (p', w')"
proof -
  from assms obtain p1 w1 where
    i: "(if mplfigure p = None then initialize_mpl_figure p w True else Inr (p, w))
          = Inr (p1, w1)"
    unfolding mpl_plot_fit_results_text_box_def by (auto elim!: bindE)
  then have k: "mpl_keeps (p, w) (p1, w1)"
    by (auto split: if_splits intro: mpl_keeps_refl initialize_mpl_figure_keeps)
  from assms i have "mpl_keeps (p1, w1) (p', w')"
    unfolding mpl_plot_fit_results_text_box_def
    by (auto elim!: bindE simp: Let_def mpl_keeps_def plt_do_def)
  with k show ?thesis by (rule mpl_keeps_trans)
qed

lemma mpl_plot_dataset_keeps:
  assumes "mpl_plot_dataset p w d color sff sr = Inr (p', w')"
  shows "mpl_keeps (p, w) (p', w')"
proof -
  from assms obtain p1 w1 w3 p2 w4 where
    i: "(if mplfigure p = None
           then initialize_mpl_figure
                  (if sr \<and> nfits d > 0 then p\<lparr>show_residuals := True\<rparr> else p) w True
           else Inr (p, w)) = Inr (p1, w1)"
    and h: "(if is_histogram d
              then (case hist_data d of
                      Some hdat \<Rightarrow> Inr (plt_do (if mpl_gs p1 \<noteq> None then plt_do w1 [PltSubplot 0] else w1)
                                           [PltHist hdat (hist_bins d) (name d) color])
                    | None \<Rightarrow>
                        bind (py_get (xdata d) (- 1)) (\<lambda>xl.
                        bind (py_get (xdata d) (- 2)) (\<lambda>xp.
                        Inr (plt_do (if mpl_gs p1 \<noteq> None then plt_do w1 [PltSubplot 0] else w1)
                               [PltBar (xdata d) (ydata d) (xl - xp) (name d) color]))))
              else Inr (plt_do (if mpl_gs p1 \<noteq> None then plt_do w1 [PltSubplot 0] else w1)
                          [PltErrorbar (xdata d) (ydata d) (xerr d) (yerr d) color
                                     (Some (name d))])) = Inr w3"
    and f: "(if nfits d > 0 \<and> sff
              then bind (py_get (fit_function d) (- 1)) (\<lambda>f.
                   bind (py_get (fit_pars d) (- 1)) (\<lambda>ps.
                   bind (py_get (fit_function_name d) (- 1)) (\<lambda>fname.
                   mpl_plot_function p1 w3 f (xdata d) (ParMeas ps) 50 (Some fname) color
                     (errorband_sigma p1))))
              else Inr (p1, w3)) = Inr (p2, w4)"
    and r: "(if show_residuals p2 \<and> mpl_gs p2 \<noteq> None \<and> sr
        then bind (py_get (fit_yres d) (- 1)) (\<lambda>yres.
             Inr (p2, plt_do w4 [PltSubplot 1,
                                 PltErrorbar (xdata d) (get_means yres) (xerr d) (yerr d) color None,
                                 PltSubplot 0]))
        else Inr (p2, w4)) = Inr (p', w')"
    unfolding mpl_plot_dataset_def
    by (auto elim!: bindE simp: Let_def simp del: not_None_eq)
  from i have k1: "mpl_keeps (p, w) (p1, w1)"
    by (auto split: if_splits dest!: initialize_mpl_figure_keeps simp: mpl_keeps_def)
  from h have k2: "mpl_keeps (p1, w1) (p1, w3)"
    by (auto elim!: bindE split: if_splits option.splits simp: mpl_keeps_def plt_do_def)
  from f have k3: "mpl_keeps (p1, w3) (p2, w4)"
    by (auto elim!: bindE split: if_splits intro: mpl_keeps_refl mpl_plot_function_keeps)
  from r have k4: "mpl_keeps (p2, w4) (p', w')"
    by (auto elim!: bindE split: if_splits simp: mpl_keeps_def plt_do_def)
  from k1 k2 k3 k4 show ?thesis
    by (blast intro: mpl_keeps_trans)
qed

lemma mpl_plot_datasets_keeps:
  assumes "mpl_plot_datasets p w off dcs = Inr (off', p', w')"
  shows "mpl_keeps (p, w) (p', w')"
  using assms
proof (induction dcs arbitrary: p w off)
  case Nil
  then show ?case by (simp add: mpl_keeps_refl)
next
  case (Cons dc rest)
  obtain d color where dc: "dc = (d, color)" by (cases dc)
  from Cons.prems obtain p1 w1 off2 p2 w2 where
    a: "mpl_plot_dataset p w d color True (show_residuals p) = Inr (p1, w1)"
    and b: "(if show_fit_results p1 \<and> nfits d > 0
           then mpl_plot_fit_results_text_box p1 w1 d off
           else Inr (off, p1, w1)) = Inr (off2, p2, w2)"
    and c: "mpl_plot_datasets p2 w2 off2 rest = Inr (off', p', w')"
    unfolding dc by (auto elim!: bindE)
  from b have "mpl_keeps (p1, w1) (p2, w2)"
    by (auto split: if_splits intro: mpl_keeps_refl text_box_keeps)
  with mpl_plot_dataset_keeps [OF a] Cons.IH [OF c] show ?case
    by (blast intro: mpl_keeps_trans)
qed

lemma drawn_on_mono:
  "drawn_on grid n w e \<Longrightarrow> set (plt w) \<subseteq> set (plt w') \<Longrightarrow> drawn_on grid n w' e"
  by (cases e) (auto simp: drawn_on_def)

lemma mpl_plot_user_functions_draws:
  assumes "mpl_plot_user_functions p w xd fs = Inr (p', w')"
    and "mpl_plot_function_xvals xd 100 = Inr grid"
  shows "mpl_keeps (p, w) (p', w') \<and> list_all (drawn_on grid (minmax_n w) w') fs"
  using assms(1)
proof (induction fs arbitrary: p w)
  case Nil
  then show ?case by (simp add: mpl_keeps_refl)
next
  case (Cons fc rest)
  obtain func prs fname color where fc: "fc = (func, prs, fname, color)" by (cases fc)
  from Cons.prems obtain p1 w1 where
    a: "mpl_plot_function p w func xd prs 100 (Some fname) color (errorband_sigma p)
          = Inr (p1, w1)"
    and b: "mpl_plot_user_functions p1 w1 xd rest = Inr (p', w')"
    unfolding fc by (auto elim!: bindE)
  from mpl_plot_function_draws [OF a] assms(2)
  have k1: "mpl_keeps (p, w) (p1, w1)" and d1: "drawn_on grid (minmax_n w) w1 fc"
    by (auto simp: drawn_on_def fc)
  from Cons.IH [OF b]
  have k2: "mpl_keeps (p1, w1) (p', w')" and d2: "list_all (drawn_on grid (minmax_n w1) w') rest"
    by simp_all
  from k1 have n: "minmax_n w1 = minmax_n w" by (simp add: mpl_keeps_def)
  from k2 have "set (plt w1) \<subseteq> set (plt w')" by (simp add: mpl_keeps_def)
  with d1 have "drawn_on grid (minmax_n w) w' fc" by (rule drawn_on_mono)
  with d2 n k1 k2 show ?case
    by (auto intro: mpl_keeps_trans)
qed

lemma populate_mpl_figure_draws:
  assumes "populate_mpl_figure p w refresh = Inr (p', w')" and "x_range p = [x0, x1]"
  shows "list_all
           (drawn_on (linspace (min (x0 + x_range_margin p) (x1 - x_range_margin p))
                               (max (x0 + x_range_margin p) (x1 - x_range_margin p)) 100)
              (minmax_n w) w')
           (zip (user_functions p) (zip (user_functions_pars p)
              (zip (user_functions_names p) (user_functions_colors p))))"
proof -
  let ?grid = "linspace (min (x0 + x_range_margin p) (x1 - x_range_margin p))
                        (max (x0 + x_range_margin p) (x1 - x_range_margin p)) 100"
  from assms(1) obtain p1 w1 off p2 w2 xvals p3 w3 where
    a: "initialize_mpl_figure p w refresh = Inr (p1, w1)"
    and b: "mpl_plot_datasets p1 w1 0 (zip (datasets p1) (datasets_colors p1))
              = Inr (off, p2, w2)"
    and c: "populate_xvals p2 = Inr xvals"
    and d: "mpl_plot_user_functions p2 w2 xvals
             (zip (user_functions p2) (zip (user_functions_pars p2)
                (zip (user_functions_names p2) (user_functions_colors p2)))) = Inr (p3, w3)"
    and e: "w' = (if mpl_show_legend p3
              then plt_do w3 [PltLegend (mpl_legend_location p3)] else w3)"
    unfolding populate_mpl_figure_def by (auto elim!: bindE)
  from initialize_mpl_figure_keeps [OF a] mpl_plot_datasets_keeps [OF b]
  have k: "mpl_keeps (p, w) (p2, w2)" by (rule mpl_keeps_trans)
  then have same: "x_range p2 = [x0, x1]" "x_range_margin p2 = x_range_margin p"
    "minmax_n w2 = minmax_n w"
    "zip (user_functions p2) (zip (user_functions_pars p2)
                (zip (user_functions_names p2) (user_functions_colors p2)))
     = zip (user_functions p) (zip (user_functions_pars p)
                (zip (user_functions_names p) (user_functions_colors p)))"
    using assms(2) by (simp_all add: mpl_keeps_def)
  from c same have xv: "xvals = [x0 + x_range_margin p, x1 - x_range_margin p]"
    by (simp add: populate_xvals_def py_simps)
  have g: "mpl_plot_function_xvals xvals 100 = Inr ?grid"
    unfolding xv by (simp add: mpl_plot_function_xvals_def py_min2 py_max2)
  from mpl_plot_user_functions_draws [OF d g] same
  have l: "list_all (drawn_on ?grid (minmax_n w) w3)
             (zip (user_functions p) (zip (user_functions_pars p)
                (zip (user_functions_names p) (user_functions_colors p))))"
    by simp
  have "set (plt w3) \<subseteq> set (plt w')"
    unfolding e by (auto simp: plt_do_def)
  with l show ?thesis
    by (auto simp: list_all_iff intro: drawn_on_mono)
qed

lemma grids_agree_iff:
  "linspace (min (x0 + m) (x1 - m)) (max (x0 + m) (x1 - m)) 100 = linspace x0 x1 100
     \<longleftrightarrow> x0 \<le> x1 \<and> (m = 0 \<or> m = x1 - x0)"
proof
  assume e: "linspace (min (x0 + m) (x1 - m)) (max (x0 + m) (x1 - m)) 100
               = linspace x0 x1 100"
  from arg_cong [OF e, of hd] have lo: "min (x0 + m) (x1 - m) = x0"
    by (simp add: hd_linspace)
  from arg_cong [OF e, of last] have hi: "max (x0 + m) (x1 - m) = x1"
    by (simp add: last_linspace)
  from lo hi show "x0 \<le> x1 \<and> (m = 0 \<or> m = x1 - x0)"
    by (auto simp: min_def max_def split: if_splits)
next
  assume r: "x0 \<le> x1 \<and> (m = 0 \<or> m = x1 - x0)"
  then have "min (x0 + m) (x1 - m) = x0" and "max (x0 + m) (x1 - m) = x1"
    by auto
  then show "linspace (min (x0 + m) (x1 - m)) (max (x0 + m) (x1 - m)) 100
               = linspace x0 x1 100"
    by simp
qed

text \<open>
  C4 (as amended). On a plot with the x-range \<open>[x0, x1]\<close>: a call of \<^verbatim>\<open>add_function\<close>
  with a recognised parameter source that returns has sampled the function on 100
  points that start at \<open>x0\<close> and end at \<open>x1\<close>, has put the greatest of the values plus
  \<^verbatim>\<open>y_range_margin\<close> and the least minus \<^verbatim>\<open>y_range_margin\<close> through the two comparisons
  that widen the y-range, has appended the function and its parameters to the plot's
  functions and has left the x-range and its margin alone; a call of
  \<^verbatim>\<open>populate_mpl_figure\<close> that returns has drawn every function of the plot on 100
  points that start at the lesser and end at the greater of \<open>x0 + x_range_margin\<close> and
  \<open>x1 - x_range_margin\<close>. The two grids are the same exactly when \<open>x0 \<le> x1\<close> and the
  margin is 0 or \<open>x1 - x0\<close>.
\<close>

theorem sampling_grids:
  assumes "x_range p = [x0, x1]"
  shows "(add_function p w f prs nm color = Inr (p1, w1) \<and> prs \<noteq> ParOther \<longrightarrow>
            x_range p1 = [x0, x1] \<and> x_range_margin p1 = x_range_margin p
            \<and> user_functions p1 = user_functions p @ [f]
            \<and> user_functions_pars p1 = user_functions_pars p @ [prs]
            \<and> (\<exists>fvals mx mn yr.
                  sample_values f (minmax_n w) (linspace x0 x1 100) prs = Inr fvals
                  \<and> py_max fvals = Inr mx \<and> py_min fvals = Inr mn
                  \<and> widen_hi (y_range p) (mx + y_range_margin p) = Inr yr
                  \<and> widen_lo yr (mn - y_range_margin p) = Inr (y_range p1)))
       \<and> (populate_mpl_figure p w refresh = Inr (p2, w2) \<longrightarrow>
            list_all
              (drawn_on (linspace (min (x0 + x_range_margin p) (x1 - x_range_margin p))
                                  (max (x0 + x_range_margin p) (x1 - x_range_margin p)) 100)
                 (minmax_n w) w2)
              (zip (user_functions p) (zip (user_functions_pars p)
                 (zip (user_functions_names p) (user_functions_colors p)))))
       \<and> length (linspace x0 x1 100) = 100
       \<and> hd (linspace x0 x1 100) = x0 \<and> last (linspace x0 x1 100) = x1
       \<and> length (linspace (min (x0 + x_range_margin p) (x1 - x_range_margin p))
                          (max (x0 + x_range_margin p) (x1 - x_range_margin p)) 100) = 100
       \<and> hd (linspace (min (x0 + x_range_margin p) (x1 - x_range_margin p))
                      (max (x0 + x_range_margin p) (x1 - x_range_margin p)) 100)
           = min (x0 + x_range_margin p) (x1 - x_range_margin p)
       \<and> last (linspace (min (x0 + x_range_margin p) (x1 - x_range_margin p))
                        (max (x0 + x_range_margin p) (x1 - x_range_margin p)) 100)
           = max (x0 + x_range_margin p) (x1 - x_range_margin p)
       \<and> (linspace (min (x0 + x_range_margin p) (x1 - x_range_margin p))
                   (max (x0 + x_range_margin p) (x1 - x_range_margin p)) 100
            = linspace x0 x1 100
          \<longleftrightarrow> x0 \<le> x1 \<and> (x_range_margin p = 0 \<or> x_range_margin p = x1 - x0))"
proof -
  have a: "add_function p w f prs nm color = Inr (p1, w1) \<and> prs \<noteq> ParOther \<longrightarrow>
            x_range p1 = [x0, x1] \<and> x_range_margin p1 = x_range_margin p
            \<and> user_functions p1 = user_functions p @ [f]
            \<and> user_functions_pars p1 = user_functions_pars p @ [prs]
            \<and> (\<exists>fvals mx mn yr.
                  sample_values f (minmax_n w) (linspace x0 x1 100) prs = Inr fvals
                  \<and> py_max fvals = Inr mx \<and> py_min fvals = Inr mn
                  \<and> widen_hi (y_range p) (mx + y_range_margin p) = Inr yr
                  \<and> widen_lo yr (mn - y_range_margin p) = Inr (y_range p1))"
    using add_function_samples [of p w f prs nm color p1 w1 x0 x1] assms by blast
  have b: "populate_mpl_figure p w refresh = Inr (p2, w2) \<longrightarrow>
            list_all
              (drawn_on (linspace (min (x0 + x_range_margin p) (x1 - x_range_margin p))
                                  (max (x0 + x_range_margin p) (x1 - x_range_margin p)) 100)
                 (minmax_n w) w2)
              (zip (user_functions p) (zip (user_functions_pars p)
                 (zip (user_functions_names p) (user_functions_colors p))))"
    using populate_mpl_figure_draws [of p w refresh p2 w2 x0 x1] assms by blast
  from a b show ?thesis
    by (simp only: length_linspace hd_linspace last_linspace grids_agree_iff)
qed

lemma linspace_not_half:
  assumes "x \<in> set (linspace 0 1 100)"
  shows "x \<noteq> 1 / 2"
proof
  assume h: "x = 1 / 2"
  from assms obtain i :: nat where "x = real i * (1 / 99)"
    by (auto simp: linspace_def)
  with h have "real (2 * i) = real 99" by simp
  then have "2 * i = 99" by (simp only: of_nat_eq_iff)
  then show False by presburger
qed

lemma linspace_same: "linspace a a n = replicate n a"
  by (auto simp: linspace_def map_replicate_const)

lemma map_const_linspace: "map (\<lambda>x. c) (linspace a b n) = replicate n c"
  by (simp add: map_replicate_const length_linspace)

lemma funpow_max_same: "(max c ^^ n) (c::real) = c"
  by (induction n) simp_all

lemma funpow_min_same: "(min c ^^ n) (c::real) = c"
  by (induction n) simp_all

lemma py_max_replicate: "0 < n \<Longrightarrow> py_max (replicate n c) = Inr c"
  by (cases n) (simp_all add: py_max_def funpow_max_same)

lemma py_min_replicate: "0 < n \<Longrightarrow> py_min (replicate n c) = Inr c"
  by (cases n) (simp_all add: py_min_def funpow_min_same)

lemma spike_sampled_at_add:
  "call_plain spike n (linspace 0 1 100) None = Inr (replicate 100 0)"
proof -
  have "map (\<lambda>x. if x = 1 / 2 then 100 else 0) (linspace 0 1 100)
          = map (\<lambda>x. 0 :: real) (linspace 0 1 100)"
    by (rule map_cong) (auto dest: linspace_not_half)
  moreover have "call_plain spike n (linspace 0 1 100) None
          = Inr (map (\<lambda>x. if x = 1 / 2 then 100 else 0) (linspace 0 1 100))"
    by (simp add: spike_def)
  ultimately show ?thesis
    by (simp only: map_const_linspace)
qed

lemma spike_sampled_at_half:
  "call_plain spike n (replicate 100 (1 / 2)) None = Inr (replicate 100 100)"
  by (simp add: spike_def)

lemma digits_of_0: "digits_of 0 = ''0''"
  by (subst digits_of.simps) simp

lemma tight_plot_x_range:
  "x_range tight_plot = [0, 1]" "x_range_margin tight_plot = 0"
  by (simp_all add: tight_plot_def empty_plot_x_range)

lemma run_spike_tight:
  "\<exists>p1 p2 w2. add_function tight_plot quiet_world spike ParNone None None
                 = Inr (p1, quiet_world)
       \<and> y_range p1 = [- 1 / 2, 1]
       \<and> user_functions p1 = [spike] \<and> user_functions_pars p1 = [ParNone]
       \<and> user_functions_names p1 = [''userf_0''] \<and> user_functions_colors p1 = [''red'']
       \<and> populate_mpl_figure p1 quiet_world True = Inr (p2, w2)"
  unfolding add_function_def add_function_xvals_eq [OF tight_plot_x_range(1)] bind_Inr
  by (simp add: spike_sampled_at_add py_max_replicate py_min_replicate
      tight_plot_def empty_plot_def Plot_fields_def Plot_fields_of_def
      widen_hi_def widen_lo_def py_simps Let_def get_color_from_palette_def
      py_str_int_def digits_of_0 py_get_def py_index_def py_set_def
      populate_mpl_figure_def initialize_mpl_figure_def axis_limits_def py_lookup_def
      make_labels_def populate_xvals_def mpl_plot_function_def mpl_plot_function_xvals_def
      py_min2 py_max2 plt_do_def quiet_world_def)

lemma run_spike_empty:
  "\<exists>p1 p2 w2. add_function empty_plot quiet_world spike ParNone None None
                 = Inr (p1, quiet_world)
       \<and> y_range p1 = [- 1 / 2, 1]
       \<and> populate_mpl_figure p1 quiet_world True = Inr (p2, w2)
       \<and> PltAxis [0, 1, - 1 / 2, 1] \<in> set (plt w2)
       \<and> PltPlot (replicate 100 (1 / 2)) (replicate 100 100) ''red'' (Some ''userf_0'')
            \<in> set (plt w2)"
  unfolding add_function_def add_function_xvals_eq [OF empty_plot_x_range(1)] bind_Inr
  by (simp add: spike_sampled_at_add spike_sampled_at_half linspace_same
      py_max_replicate py_min_replicate
      empty_plot_def Plot_fields_def Plot_fields_of_def
      widen_hi_def widen_lo_def py_simps Let_def get_color_from_palette_def
      py_str_int_def digits_of_0 py_get_def py_index_def py_set_def
      populate_mpl_figure_def initialize_mpl_figure_def axis_limits_def py_lookup_def
      make_labels_def populate_xvals_def mpl_plot_function_def mpl_plot_function_xvals_def
      py_min2 py_max2 plt_do_def quiet_world_def)

text \<open>The theorem at the empty plot with the margin set to 0, for the function that
  is 100 at \<open>1/2\<close> and 0 elsewhere: both calls return, and the curve is drawn on the
  grid of \<^verbatim>\<open>add_function\<close>, where all its values are 0.\<close>

theorem sampling_grids_witness:
  "x_range tight_plot = [0, 1] \<and> x_range_margin tight_plot = 0 \<and> ParNone \<noteq> ParOther
   \<and> (\<exists>p1 p2 w2.
         add_function tight_plot quiet_world spike ParNone None None = Inr (p1, quiet_world)
         \<and> populate_mpl_figure p1 quiet_world True = Inr (p2, w2)
         \<and> x_range p1 = [0, 1] \<and> x_range_margin p1 = 0 \<and> y_range p1 = [- 1 / 2, 1]
         \<and> sample_values spike 7 (linspace 0 1 100) ParNone = Inr (replicate 100 0)
         \<and> PltPlot (linspace 0 1 100) (replicate 100 0) ''red'' (Some ''userf_0'')
              \<in> set (plt w2))"
proof -
  obtain p1 p2 w2 where
    a: "add_function tight_plot quiet_world spike ParNone None None = Inr (p1, quiet_world)"
    and y: "y_range p1 = [- 1 / 2, 1]"
    and u: "user_functions p1 = [spike]" "user_functions_pars p1 = [ParNone]"
      "user_functions_names p1 = [''userf_0'']" "user_functions_colors p1 = [''red'']"
    and b: "populate_mpl_figure p1 quiet_world True = Inr (p2, w2)"
    using run_spike_tight by blast
  have n: "minmax_n quiet_world = 7"
    by (simp add: quiet_world_def)
  have sv: "sample_values spike 7 (linspace 0 1 100) ParNone = Inr (replicate 100 0)"
    by (simp add: sample_values_def spike_sampled_at_add)
  from sampling_grids [where p = tight_plot and ?x0.0 = 0 and ?x1.0 = 1 and w = quiet_world
      and f = spike and prs = ParNone and nm = None and color = None and ?p1.0 = p1
      and ?w1.0 = quiet_world, OF tight_plot_x_range(1)] a
  have x: "x_range p1 = [0, 1]" and m: "x_range_margin p1 = 0"
    by (simp_all add: tight_plot_x_range)
  from sampling_grids [where p = p1 and ?x0.0 = 0 and ?x1.0 = 1 and w = quiet_world
      and refresh = True and ?p2.0 = p2 and ?w2.0 = w2, OF x] b
  have "drawn_on (linspace 0 1 100) 7 w2 (spike, ParNone, ''userf_0'', ''red'')"
    by (simp add: m u n)
  then have "PltPlot (linspace 0 1 100) (replicate 100 0) ''red'' (Some ''userf_0'')
               \<in> set (plt w2)"
    by (simp add: drawn_on_def sv)
  with a b x m y sv show ?thesis
    by (auto simp: tight_plot_x_range)
qed

text \<open>
  C4 as stated fails on the empty plot, whose x-range is \<open>[0, 1]\<close> and whose margin is
  \<open>1/2\<close>, for the function that is 100 at \<open>1/2\<close> and 0 elsewhere: \<^verbatim>\<open>add_function\<close>
  samples from 0 to 1 and leaves the y-range at \<open>[-1/2, 1]\<close>; \<^verbatim>\<open>populate_mpl_figure\<close>
  sets the axes to that range and draws the curve on 100 abscissae that are all
  \<open>1/2\<close>, with the ordinates 100.
\<close>

theorem drawn_spike_outside_add_range:
  "x_range empty_plot = [0, 1] \<and> x_range_margin empty_plot = 1 / 2
   \<and> map_sum id hd (add_function_xvals empty_plot) = Inr 0
   \<and> map_sum id last (add_function_xvals empty_plot) = Inr 1
   \<and> map_sum id (y_range \<circ> fst) (add_function empty_plot quiet_world spike ParNone None None)
       = Inr [- 1 / 2, 1]
   \<and> map_sum id (draws (PltAxis [0, 1, - 1 / 2, 1])) (spike_drawn empty_plot) = Inr True
   \<and> map_sum id (draws (PltPlot (replicate 100 (1 / 2)) (replicate 100 100) ''red''
                           (Some ''userf_0'')))
       (spike_drawn empty_plot) = Inr True"
proof -
  obtain p1 p2 w2 where
    a: "add_function empty_plot quiet_world spike ParNone None None = Inr (p1, quiet_world)"
    and y: "y_range p1 = [- 1 / 2, 1]"
    and b: "populate_mpl_figure p1 quiet_world True = Inr (p2, w2)"
    and d: "PltAxis [0, 1, - 1 / 2, 1] \<in> set (plt w2)"
      "PltPlot (replicate 100 (1 / 2)) (replicate 100 100) ''red'' (Some ''userf_0'')
            \<in> set (plt w2)"
    using run_spike_empty by blast
  have r: "spike_drawn empty_plot = Inr (p2, w2)"
    by (simp add: spike_drawn_def a b)
  from d show ?thesis
    by (simp add: a y r draws_def empty_plot_x_range
        add_function_xvals_eq [OF empty_plot_x_range(1)] hd_linspace last_linspace)
qed

end
